theory Spec2Isabelle
  imports Complex_Main "HOL-Library.Word"
begin

section \<open>JavaScript values\<close>

text \<open>
  The adapters read venue frames and REST bodies as untyped values (\<open>any\<close>).  A value is
  what \<open>JSON.parse\<close> can return, plus \<open>undefined\<close> (what reading a missing property
  gives) and an \<open>ArrayBuffer\<close> (a binary frame).  An object is the list of its own
  properties.  Strings are ASCII here.
\<close>

datatype jsval =
    JUndefined
  | JNull
  | JBool bool
  | JNum rat
  | JStr string
  | JArr "jsval list"
  | JObj "(string \<times> jsval) list"
  | JBuffer "8 word list"

text \<open>
  What is thrown: an \<open>Error\<close> the adapters construct with a message, or one of the
  runtime's own errors.
\<close>

datatype error =
    Error string
  | TypeError
  | SyntaxError
  | RangeError
  | InvalidStateError

fun truthy :: "jsval \<Rightarrow> bool" where
  "truthy JUndefined = False"
| "truthy JNull = False"
| "truthy (JBool b) = b"
| "truthy (JNum n) = (n \<noteq> 0)"
| "truthy (JStr s) = (s \<noteq> [])"
| "truthy (JArr xs) = True"
| "truthy (JObj kvs) = True"
| "truthy (JBuffer bs) = True"

fun nullish :: "jsval \<Rightarrow> bool" where
  "nullish JUndefined = True"
| "nullish JNull = True"
| "nullish v = False"

text \<open>\<open>a || b\<close> on values.\<close>

definition jsOr :: "jsval \<Rightarrow> jsval \<Rightarrow> jsval" where
  "jsOr a b = (if truthy a then a else b)"

text \<open>
  \<open>property v k\<close> is \<open>v.k\<close> on a value that is neither \<open>null\<close> nor \<open>undefined\<close>, for
  the property names the adapters read (none of them is \<open>length\<close> or a member of a
  prototype): an object gives its own property, everything else \<open>undefined\<close>.  On
  \<open>null\<close> and \<open>undefined\<close> the access throws a TypeError; the functions that read a
  property test \<open>nullish\<close> first and throw.
\<close>

fun property :: "jsval \<Rightarrow> string \<Rightarrow> jsval" where
  "property (JObj kvs) k = (case map_of kvs k of None \<Rightarrow> JUndefined | Some v \<Rightarrow> v)"
| "property v k = JUndefined"

text \<open>
  Decimal rendering of a non-negative integer: \<open>n.toString()\<close>.  \<open>digit\<close> is applied
  to numbers below ten only.
\<close>

definition digit :: "nat \<Rightarrow> char" where
  "digit d = ''0123456789'' ! d"

fun toString :: "nat \<Rightarrow> string" where
  "toString n = (if n < 10 then [digit n] else toString (n div 10) @ [digit (n mod 10)])"

declare toString.simps [simp del]

text \<open>\<open>xs.join(sep)\<close> on an array of strings.\<close>

fun join :: "string \<Rightarrow> string list \<Rightarrow> string" where
  "join sep [] = []"
| "join sep [x] = x"
| "join sep (x # y # ys) = x @ sep @ join sep (y # ys)"

text \<open>
  \<open>element v i\<close> is \<open>v[i]\<close> on a value that is neither \<open>null\<close> nor \<open>undefined\<close>: an
  array element, a one-character string, or an object's property named by the index.
\<close>

fun element :: "jsval \<Rightarrow> nat \<Rightarrow> jsval" where
  "element (JArr xs) i = (if i < length xs then xs ! i else JUndefined)"
| "element (JStr s) i = (if i < length s then JStr [s ! i] else JUndefined)"
| "element (JObj kvs) i = (case map_of kvs (toString i) of None \<Rightarrow> JUndefined | Some v \<Rightarrow> v)"
| "element v i = JUndefined"

definition getIdx :: "jsval \<Rightarrow> nat \<Rightarrow> error + jsval" where
  "getIdx v i = (if nullish v then Inl TypeError else Inr (element v i))"

definition isArray :: "jsval \<Rightarrow> bool" where
  "isArray v = (case v of JArr xs \<Rightarrow> True | _ \<Rightarrow> False)"

text \<open>
  \<open>v.startsWith(p)\<close> on a truthy value: a string answers; anything else has no such
  method, and the call throws.
\<close>

definition startsWith :: "jsval \<Rightarrow> string \<Rightarrow> error + bool" where
  "startsWith v p = (case v of JStr s \<Rightarrow> Inr (take (length p) s = p) | _ \<Rightarrow> Inl TypeError)"

text \<open>
  Floating-point arithmetic is not evaluated: a number an adapter computes is kept as the
  expression the source writes.
\<close>

datatype jsexp =
    Val jsval
  | Lit rat
  | ParseFloat jsval
  | ParseInt jsval
  | DateGetTime jsval
  | Add jsexp jsexp
  | Sub jsexp jsexp
  | Mul jsexp jsexp
  | Div jsexp jsexp
  | Gt jsexp jsexp
  | Cond jsexp jsexp jsexp

section \<open>The browser\<close>

text \<open>
  The environment the adapters run in: the WebSocket objects they created, the timeouts
  they set, the requests they fetched, and the callback invocations they made.  Console
  output is not modelled.

  A callback is a function of the UI.  An entry of a callback list is one registration
  of it: it carries the identifier of the function, and invoked with an event it returns,
  or it throws what \<open>throws\<close> gives for that event.  Invoking it appends the identifier
  and the event to \<open>delivered\<close>.  A function registered twice is two entries with one
  identifier.  A callback that calls back into the adapter while it runs is not modelled.
\<close>

record 'ev callback =
  ident :: nat
  throws :: "'ev \<Rightarrow> error option"

datatype readyState = CONNECTING | OPEN | CLOSING | CLOSED

text \<open>
  A socket carries the \<open>symbols\<close> its \<open>onopen\<close> and \<open>onclose\<close> handlers captured when
  \<open>connectMarketData\<close> attached them, and the messages sent on it.
\<close>

record WebSocket =
  url :: string
  readyState :: readyState
  captured :: "string list"
  sent :: "jsval list"

record fetch_call =
  input :: string
  http_method :: string
  headers :: "(string \<times> string) list"
  body :: "jsval option"

record 'ev browser =
  sockets :: "WebSocket list"
  timers :: "(nat \<times> string list) list"
  fetched :: "fetch_call list"
  delivered :: "(nat \<times> 'ev) list"

text \<open>
  \<open>new WebSocket(url)\<close> throws a SyntaxError on a URL that has a fragment.  The scheme,
  host and port of the adapters' URLs are fixed and well-formed, so nothing else of them
  can be refused.  \<open>ws_new\<close> is the construction that succeeds, with the handlers
  attached; the handle of the new socket is its index.
\<close>

definition hasFragment :: "string \<Rightarrow> bool" where
  "hasFragment u = (CHR ''#'' \<in> set u)"

definition ws_new :: "string \<Rightarrow> string list \<Rightarrow> ('ev, 'z) browser_scheme \<Rightarrow> ('ev, 'z) browser_scheme" where
  "ws_new u syms w =
     w\<lparr>sockets := sockets w @ [\<lparr>url = u, readyState = CONNECTING, captured = syms, sent = []\<rparr>]\<rparr>"

text \<open>
  \<open>close()\<close>: nothing on a socket that is closing or closed; otherwise the socket starts
  closing.  Its close event comes later.
\<close>

definition closing :: "WebSocket \<Rightarrow> WebSocket" where
  "closing k = (if readyState k = CLOSING \<or> readyState k = CLOSED then k
                else k\<lparr>readyState := CLOSING\<rparr>)"

definition ws_close :: "nat \<Rightarrow> ('ev, 'z) browser_scheme \<Rightarrow> ('ev, 'z) browser_scheme" where
  "ws_close h w = (if h < length (sockets w) then w\<lparr>sockets := (sockets w)[h := closing (sockets w ! h)]\<rparr> else w)"

text \<open>
  \<open>send(data)\<close>: throws on a socket that is still connecting, transmits on an open one,
  and discards the data on a closing or closed one.
\<close>

definition ws_send :: "nat \<Rightarrow> jsval \<Rightarrow> ('ev, 'z) browser_scheme \<Rightarrow> error + ('ev, 'z) browser_scheme" where
  "ws_send h m w =
     (if h < length (sockets w) then
        (case readyState (sockets w ! h) of
           CONNECTING \<Rightarrow> Inl InvalidStateError
         | OPEN \<Rightarrow> Inr (w\<lparr>sockets := (sockets w)[h := (sockets w ! h)\<lparr>sent := sent (sockets w ! h) @ [m]\<rparr>]\<rparr>)
         | _ \<Rightarrow> Inr w)
      else Inr w)"

definition ws_readyState :: "nat \<Rightarrow> ('ev, 'z) browser_scheme \<Rightarrow> readyState" where
  "ws_readyState h w = (if h < length (sockets w) then readyState (sockets w ! h) else CLOSED)"

definition setTimeout :: "nat \<Rightarrow> string list \<Rightarrow> ('ev, 'z) browser_scheme \<Rightarrow> ('ev, 'z) browser_scheme" where
  "setTimeout delay syms w = w\<lparr>timers := timers w @ [(delay, syms)]\<rparr>"

text \<open>
  \<open>callbacks.forEach((callback) => callback(ev))\<close>: the callbacks are invoked in the order
  of the list.  The first one that throws ends the loop: the callbacks after it are not
  invoked, and \<open>forEach\<close> throws what it threw.
\<close>

fun invoke :: "'ev callback list \<Rightarrow> 'ev \<Rightarrow> ('ev, 'z) browser_scheme \<Rightarrow> (error + unit) \<times> ('ev, 'z) browser_scheme" where
  "invoke [] ev w = (Inr (), w)"
| "invoke (c # cs) ev w =
     (let w1 = w\<lparr>delivered := delivered w @ [(ident c, ev)]\<rparr>
      in case throws c ev of None \<Rightarrow> invoke cs ev w1 | Some e \<Rightarrow> (Inl e, w1))"

text \<open>
  A frame as the \<open>message\<close> event carries it: text, with the value \<open>JSON.parse\<close> gives
  for it (none when the text is not JSON), or binary.  \<open>JSON.parse\<close> of a binary frame
  throws as well.
\<close>

datatype frame = Text "jsval option" | Binary "8 word list"

definition JSON_parse :: "frame \<Rightarrow> error + jsval" where
  "JSON_parse f = (case f of Text (Some v) \<Rightarrow> Inr v | _ \<Rightarrow> Inl SyntaxError)"

text \<open>
  What \<open>fetch\<close> comes back with: it rejects (no response), or there is a response with a
  status, a body text, and the value \<open>JSON.parse\<close> gives for that text (none when the
  text is not JSON).
\<close>

record Response =
  status :: nat
  bodyText :: string
  parsed :: "jsval option"

datatype reply = Rejected | Responded Response

definition ok :: "Response \<Rightarrow> bool" where
  "ok r = (200 \<le> status r \<and> status r \<le> 299)"

definition fetch :: "fetch_call \<Rightarrow> ('ev, 'z) browser_scheme \<Rightarrow> ('ev, 'z) browser_scheme" where
  "fetch c w = w\<lparr>fetched := fetched w @ [c]\<rparr>"

section \<open>The adapter instance\<close>

text \<open>
  The private fields the three adapter classes have in common, in the browser they run
  in.  \<open>'ev\<close> is what a market data callback is invoked with, \<open>'ou\<close> what an order
  update callback is.  \<open>maxReconnectAttempts\<close> is a field initialised to 5 and never
  assigned.
\<close>

record ('cfg, 'ev, 'ou) adapter = "'ev browser" +
  config :: "'cfg option"
  websocket :: "nat option"
  marketDataCallbacks :: "'ev callback list"
  orderUpdateCallbacks :: "'ou callback list"
  reconnectAttempts :: nat

definition maxReconnectAttempts :: nat where
  "maxReconnectAttempts = 5"

section \<open>TradingAPI (src/lib/trading-api.ts)\<close>

record MarketDataTick =
  symbol :: jsexp
  price :: jsexp
  bid :: jsexp
  ask :: jsexp
  volume :: jsexp
  timestamp :: jsexp
  change :: jsexp
  changePercent :: jsexp

datatype Side = BUY | SELL

datatype OrderType = MARKET | LIMIT | STOP | STOP_LIMIT

datatype TimeInForce = DAY | GTC | IOC | FOK

record OrderRequest =
  symbol :: string
  side :: Side
  quantity :: rat
  orderType :: OrderType
  price :: "rat option"
  stopPrice :: "rat option"
  timeInForce :: TimeInForce
  strategy :: "string option"
  order_notes :: "string option"

record Position =
  symbol :: jsexp
  quantity :: jsexp
  avgPrice :: jsexp
  marketValue :: jsexp
  unrealizedPnL :: jsexp
  realizedPnL :: jsexp
  side :: jsexp

record Account =
  accountId :: jsexp
  totalValue :: jsexp
  buyingPower :: jsexp
  dayTradingBuyingPower :: jsexp
  equity :: jsexp
  cash :: jsexp
  marginUsed :: jsexp
  dayTradeCount :: jsexp
  patternDayTrader :: jsexp

record OrderStatus =
  orderId :: jsval
  symbol :: jsval
  side :: jsval
  quantity :: jsval
  filledQuantity :: jsval
  avgFillPrice :: jsval
  status :: jsval
  orderType :: jsval
  timeInForce :: jsval
  submittedAt :: jsval
  filledAt :: jsval
  canceledAt :: jsval

record BrokerConfig =
  name :: string
  apiKey :: string
  secretKey :: "string option"
  baseUrl :: string
  sandbox :: bool
  accountId :: "string option"

type_synonym TradingAPI = "(BrokerConfig, MarketDataTick, OrderStatus) adapter"

text \<open>The module's instance, as \<open>new TradingAPI()\<close> leaves it, in a browser where nothing has happened.\<close>

definition tradingAPI :: TradingAPI where
  "tradingAPI = \<lparr>sockets = [], timers = [], fetched = [], delivered = [],
     config = None, websocket = None, marketDataCallbacks = [], orderUpdateCallbacks = [],
     reconnectAttempts = 0\<rparr>"

definition TradingAPI_configure :: "BrokerConfig \<Rightarrow> TradingAPI \<Rightarrow> TradingAPI" where
  "TradingAPI_configure c this = this\<lparr>config := Some c, reconnectAttempts := 0\<rparr>"

definition TradingAPI_getWebSocketUrl :: "TradingAPI \<Rightarrow> error + string" where
  "TradingAPI_getWebSocketUrl this =
     (case config this of
        None \<Rightarrow> Inl (Error ''No configuration'')
      | Some c \<Rightarrow>
          if BrokerConfig.name c = ''alpaca'' then
            Inr (if sandbox c then ''wss://stream.data.sandbox.alpaca.markets/v2/iex''
                 else ''wss://stream.data.alpaca.markets/v2/iex'')
          else if BrokerConfig.name c = ''polygon'' then
            Inr (if sandbox c then ''wss://socket.polygon.io/stocks'' else ''wss://socket.polygon.io/stocks'')
          else if BrokerConfig.name c = ''finnhub'' then Inr ''wss://ws.finnhub.io''
          else Inl (Error (''Unsupported broker: '' @ BrokerConfig.name c)))"

text \<open>
  \<open>connectMarketData\<close> without its handlers, which are the functions
  \<open>TradingAPI_onopen\<close>, \<open>TradingAPI_onmessage\<close> and \<open>TradingAPI_onclose\<close> below
  (\<open>onerror\<close> only logs).  What the URL lookup or the constructor throws, after the
  socket held has been closed, it logs and throws again.
\<close>

definition TradingAPI_connectMarketData :: "string list \<Rightarrow> TradingAPI \<Rightarrow> (error + unit) \<times> TradingAPI" where
  "TradingAPI_connectMarketData symbols this =
     (case config this of
        None \<Rightarrow> (Inl (Error ''Trading API not configured''), this)
      | Some c \<Rightarrow>
          let this1 = (case websocket this of None \<Rightarrow> this | Some h \<Rightarrow> ws_close h this) in
          (case TradingAPI_getWebSocketUrl this1 of
             Inl e \<Rightarrow> (Inl e, this1)
           | Inr wsUrl \<Rightarrow>
               if hasFragment wsUrl then (Inl SyntaxError, this1)
               else (Inr (), (ws_new wsUrl symbols this1)\<lparr>websocket := Some (length (sockets this1))\<rparr>)))"

text \<open>A missing \<open>secretKey\<close> is \<open>undefined\<close> in the message (and dropped by \<open>JSON.stringify\<close>).\<close>

definition TradingAPI_createSubscriptionMessage :: "string list \<Rightarrow> TradingAPI \<Rightarrow> error + jsval" where
  "TradingAPI_createSubscriptionMessage symbols this =
     (case config this of
        None \<Rightarrow> Inl (Error ''No configuration'')
      | Some c \<Rightarrow>
          if BrokerConfig.name c = ''alpaca'' then
            Inr (JObj [(''action'', JStr ''auth''), (''key'', JStr (apiKey c)),
                       (''secret'', case secretKey c of None \<Rightarrow> JUndefined | Some k \<Rightarrow> JStr k)])
          else if BrokerConfig.name c = ''polygon'' then
            Inr (JObj [(''action'', JStr ''auth''), (''params'', JStr (apiKey c))])
          else if BrokerConfig.name c = ''finnhub'' then
            Inr (JObj [(''type'', JStr ''subscribe''), (''symbol'', JStr (join '','' symbols))])
          else Inl (Error (''Unsupported broker: '' @ BrokerConfig.name c)))"

definition TradingAPI_subscribeToSymbols :: "string list \<Rightarrow> TradingAPI \<Rightarrow> (error + unit) \<times> TradingAPI" where
  "TradingAPI_subscribeToSymbols symbols this =
     (case websocket this of
        None \<Rightarrow> (Inr (), this)
      | Some h \<Rightarrow>
          (case config this of
             None \<Rightarrow> (Inr (), this)
           | Some c \<Rightarrow>
               (case TradingAPI_createSubscriptionMessage symbols this of
                  Inl e \<Rightarrow> (Inl e, this)
                | Inr m \<Rightarrow> (case ws_send h m this of Inl e \<Rightarrow> (Inl e, this) | Inr this' \<Rightarrow> (Inr (), this')))))"

definition parseAlpacaData :: "jsval \<Rightarrow> error + MarketDataTick option" where
  "parseAlpacaData data =
     (if nullish data then Inl TypeError
      else if property data ''T'' = JStr ''t'' then
        Inr (Some \<lparr>MarketDataTick.symbol = Val (property data ''S''),
                   MarketDataTick.price = Val (property data ''p''),
                   bid = Sub (Val (property data ''p'')) (Lit (1 / 100)),
                   ask = Add (Val (property data ''p'')) (Lit (1 / 100)),
                   volume = Val (property data ''s''),
                   timestamp = DateGetTime (property data ''t''),
                   change = Lit 0,
                   changePercent = Lit 0\<rparr>)
      else Inr None)"

definition parsePolygonData :: "jsval \<Rightarrow> error + MarketDataTick option" where
  "parsePolygonData data =
     (if nullish data then Inl TypeError
      else if property data ''ev'' = JStr ''T'' then
        Inr (Some \<lparr>MarketDataTick.symbol = Val (property data ''sym''),
                   MarketDataTick.price = Val (property data ''p''),
                   bid = Sub (Val (property data ''p'')) (Lit (1 / 100)),
                   ask = Add (Val (property data ''p'')) (Lit (1 / 100)),
                   volume = Val (property data ''s''),
                   timestamp = Val (property data ''t''),
                   change = Lit 0,
                   changePercent = Lit 0\<rparr>)
      else Inr None)"

definition parseFinnhubData :: "jsval \<Rightarrow> error + MarketDataTick option" where
  "parseFinnhubData data =
     (if nullish data then Inl TypeError
      else if property data ''type'' = JStr ''trade'' then
        Inr (Some \<lparr>MarketDataTick.symbol = Val (property data ''s''),
                   MarketDataTick.price = Val (property data ''p''),
                   bid = Sub (Val (property data ''p'')) (Lit (1 / 100)),
                   ask = Add (Val (property data ''p'')) (Lit (1 / 100)),
                   volume = Val (property data ''v''),
                   timestamp = Val (property data ''t''),
                   change = Lit 0,
                   changePercent = Lit 0\<rparr>)
      else Inr None)"

text \<open>
  The \<open>switch\<close> of \<open>handleMarketDataMessage\<close>: the parser of the configured venue, and
  no tick for a name it has no case for.
\<close>

definition TradingAPI_normalize :: "BrokerConfig \<Rightarrow> jsval \<Rightarrow> error + MarketDataTick option" where
  "TradingAPI_normalize c data =
     (if BrokerConfig.name c = ''alpaca'' then parseAlpacaData data
      else if BrokerConfig.name c = ''polygon'' then parsePolygonData data
      else if BrokerConfig.name c = ''finnhub'' then parseFinnhubData data
      else Inr None)"

definition TradingAPI_handleMarketDataMessage :: "jsval \<Rightarrow> TradingAPI \<Rightarrow> (error + unit) \<times> TradingAPI" where
  "TradingAPI_handleMarketDataMessage data this =
     (case config this of
        None \<Rightarrow> (Inr (), this)
      | Some c \<Rightarrow>
          (case TradingAPI_normalize c data of
             Inl e \<Rightarrow> (Inl e, this)
           | Inr None \<Rightarrow> (Inr (), this)
           | Inr (Some marketTick) \<Rightarrow> invoke (marketDataCallbacks this) marketTick this))"

definition TradingAPI_handleReconnection :: "string list \<Rightarrow> TradingAPI \<Rightarrow> TradingAPI" where
  "TradingAPI_handleReconnection symbols this =
     (if reconnectAttempts this < maxReconnectAttempts then
        let this1 = this\<lparr>reconnectAttempts := reconnectAttempts this + 1\<rparr>;
            delay = 2 ^ reconnectAttempts this1 * 1000
        in setTimeout delay symbols this1
      else this)"

text \<open>
  The handlers \<open>connectMarketData\<close> attaches.  \<open>onmessage\<close> catches whatever
  \<open>JSON.parse\<close>, the message handler or a callback throws, and logs it; what the
  handler did before the throw stays done.
\<close>

definition TradingAPI_onopen :: "string list \<Rightarrow> TradingAPI \<Rightarrow> (error + unit) \<times> TradingAPI" where
  "TradingAPI_onopen symbols this = TradingAPI_subscribeToSymbols symbols (this\<lparr>reconnectAttempts := 0\<rparr>)"

definition TradingAPI_onmessage :: "frame \<Rightarrow> TradingAPI \<Rightarrow> TradingAPI" where
  "TradingAPI_onmessage f this =
     (case JSON_parse f of
        Inl e \<Rightarrow> this
      | Inr data \<Rightarrow> snd (TradingAPI_handleMarketDataMessage data this))"

definition TradingAPI_onclose :: "string list \<Rightarrow> TradingAPI \<Rightarrow> TradingAPI" where
  "TradingAPI_onclose symbols this = TradingAPI_handleReconnection symbols this"

definition TradingAPI_onMarketData :: "MarketDataTick callback \<Rightarrow> TradingAPI \<Rightarrow> TradingAPI" where
  "TradingAPI_onMarketData callback this = this\<lparr>marketDataCallbacks := marketDataCallbacks this @ [callback]\<rparr>"

definition TradingAPI_onOrderUpdate :: "OrderStatus callback \<Rightarrow> TradingAPI \<Rightarrow> TradingAPI" where
  "TradingAPI_onOrderUpdate callback this = this\<lparr>orderUpdateCallbacks := orderUpdateCallbacks this @ [callback]\<rparr>"

text \<open>
  The order as \<open>JSON.stringify\<close> writes it: a field that is \<open>undefined\<close> is left out.
\<close>

definition optional :: "string \<Rightarrow> ('a \<Rightarrow> jsval) \<Rightarrow> 'a option \<Rightarrow> (string \<times> jsval) list" where
  "optional k f v = (case v of None \<Rightarrow> [] | Some x \<Rightarrow> [(k, f x)])"

fun sideStr :: "Side \<Rightarrow> string" where
  "sideStr BUY = ''BUY''"
| "sideStr SELL = ''SELL''"

fun orderTypeStr :: "OrderType \<Rightarrow> string" where
  "orderTypeStr MARKET = ''MARKET''"
| "orderTypeStr LIMIT = ''LIMIT''"
| "orderTypeStr STOP = ''STOP''"
| "orderTypeStr STOP_LIMIT = ''STOP_LIMIT''"

fun timeInForceStr :: "TimeInForce \<Rightarrow> string" where
  "timeInForceStr DAY = ''DAY''"
| "timeInForceStr GTC = ''GTC''"
| "timeInForceStr IOC = ''IOC''"
| "timeInForceStr FOK = ''FOK''"

definition orderJSON :: "OrderRequest \<Rightarrow> jsval" where
  "orderJSON order =
     JObj ([(''symbol'', JStr (OrderRequest.symbol order)),
            (''side'', JStr (sideStr (OrderRequest.side order))),
            (''quantity'', JNum (OrderRequest.quantity order)),
            (''orderType'', JStr (orderTypeStr (OrderRequest.orderType order)))]
           @ optional ''price'' JNum (OrderRequest.price order)
           @ optional ''stopPrice'' JNum (stopPrice order)
           @ [(''timeInForce'', JStr (timeInForceStr (OrderRequest.timeInForce order)))]
           @ optional ''strategy'' JStr (strategy order)
           @ optional ''notes'' JStr (order_notes order))"

definition TradingAPI_getAuthHeaders :: "TradingAPI \<Rightarrow> error + (string \<times> string) list" where
  "TradingAPI_getAuthHeaders this =
     (case config this of
        None \<Rightarrow> Inl (Error ''Trading API not configured'')
      | Some c \<Rightarrow>
          if BrokerConfig.name c = ''alpaca'' then
            Inr [(''APCA-API-KEY-ID'', apiKey c),
                 (''APCA-API-SECRET-KEY'', case secretKey c of None \<Rightarrow> [] | Some k \<Rightarrow> k)]
          else if BrokerConfig.name c = ''polygon'' then
            Inr [(''Authorization'', ''Bearer '' @ apiKey c)]
          else if BrokerConfig.name c = ''finnhub'' then
            Inr [(''X-Finnhub-Token'', apiKey c)]
          else Inl (Error (''Unsupported broker: '' @ BrokerConfig.name c)))"

text \<open>
  \<open>makeApiRequest\<close>: one \<open>fetch\<close>, whose outcome is \<open>reply\<close>.  Nothing of the adapter is
  read or written after the request has left.
\<close>

definition TradingAPI_makeApiRequest ::
  "string \<Rightarrow> string \<Rightarrow> jsval option \<Rightarrow> reply \<Rightarrow> TradingAPI \<Rightarrow> (error + jsval) \<times> TradingAPI" where
  "TradingAPI_makeApiRequest meth endpoint payload reply this =
     (case config this of
        None \<Rightarrow> (Inl (Error ''Trading API not configured''), this)
      | Some c \<Rightarrow>
          (case TradingAPI_getAuthHeaders this of
             Inl e \<Rightarrow> (Inl e, this)
           | Inr hs \<Rightarrow>
               let this1 = fetch \<lparr>input = baseUrl c @ endpoint, http_method = meth,
                                  headers = (''Content-Type'', ''application/json'') # hs,
                                  body = payload\<rparr> this
               in (case reply of
                     Rejected \<Rightarrow> (Inl TypeError, this1)
                   | Responded response \<Rightarrow>
                       if \<not> ok response then
                         (Inl (Error (''API request failed: '' @ toString (Response.status response)
                                      @ '' '' @ bodyText response)), this1)
                       else (case parsed response of
                               None \<Rightarrow> (Inl SyntaxError, this1)
                             | Some j \<Rightarrow> (Inr j, this1)))))"

definition TradingAPI_parseOrderResponse :: "jsval \<Rightarrow> error + OrderStatus" where
  "TradingAPI_parseOrderResponse response =
     (if nullish response then Inl TypeError
      else Inr \<lparr>orderId = jsOr (property response ''id'') (property response ''order_id''),
                OrderStatus.symbol = property response ''symbol'',
                OrderStatus.side = property response ''side'',
                OrderStatus.quantity = jsOr (property response ''qty'') (property response ''quantity''),
                filledQuantity = jsOr (jsOr (property response ''filled_qty'') (property response ''filled_quantity'')) (JNum 0),
                avgFillPrice = jsOr (jsOr (property response ''filled_avg_price'') (property response ''avg_fill_price'')) (JNum 0),
                OrderStatus.status = property response ''status'',
                OrderStatus.orderType = jsOr (property response ''order_type'') (property response ''type''),
                OrderStatus.timeInForce = property response ''time_in_force'',
                submittedAt = jsOr (property response ''submitted_at'') (property response ''created_at''),
                filledAt = property response ''filled_at'',
                canceledAt = property response ''canceled_at''\<rparr>)"

definition TradingAPI_parseAccountResponse :: "jsval \<Rightarrow> error + Account" where
  "TradingAPI_parseAccountResponse response =
     (if nullish response then Inl TypeError
      else Inr \<lparr>Account.accountId = Val (jsOr (property response ''account_number'') (property response ''id'')),
                totalValue = ParseFloat (jsOr (property response ''portfolio_value'') (property response ''equity'')),
                buyingPower = ParseFloat (property response ''buying_power''),
                dayTradingBuyingPower = ParseFloat (jsOr (property response ''daytrading_buying_power'') (property response ''buying_power'')),
                equity = ParseFloat (jsOr (property response ''equity'') (property response ''portfolio_value'')),
                cash = ParseFloat (property response ''cash''),
                marginUsed = ParseFloat (jsOr (property response ''initial_margin'') (JNum 0)),
                dayTradeCount = ParseInt (jsOr (property response ''daytrade_count'') (JNum 0)),
                patternDayTrader = Val (jsOr (property response ''pattern_day_trader'') (JBool False))\<rparr>)"

text \<open>\<open>xs.map(f)\<close> where \<open>f\<close> may throw: the first throw ends it.\<close>

fun mapE :: "('a \<Rightarrow> error + 'b) \<Rightarrow> 'a list \<Rightarrow> error + 'b list" where
  "mapE f [] = Inr []"
| "mapE f (x # xs) =
     (case f x of
        Inl e \<Rightarrow> Inl e
      | Inr y \<Rightarrow> (case mapE f xs of Inl e \<Rightarrow> Inl e | Inr ys \<Rightarrow> Inr (y # ys)))"

definition TradingAPI_parsePosition :: "jsval \<Rightarrow> error + Position" where
  "TradingAPI_parsePosition pos =
     (if nullish pos then Inl TypeError
      else Inr \<lparr>Position.symbol = Val (property pos ''symbol''),
                Position.quantity = ParseInt (jsOr (property pos ''qty'') (property pos ''quantity'')),
                avgPrice = ParseFloat (jsOr (property pos ''avg_entry_price'') (property pos ''avg_price'')),
                marketValue = ParseFloat (property pos ''market_value''),
                unrealizedPnL = ParseFloat (jsOr (property pos ''unrealized_pl'') (property pos ''unrealized_pnl'')),
                realizedPnL = ParseFloat (jsOr (jsOr (property pos ''realized_pl'') (property pos ''realized_pnl'')) (JNum 0)),
                Position.side = Cond (Gt (ParseInt (jsOr (property pos ''qty'') (property pos ''quantity''))) (Lit 0))
                                     (Val (JStr ''LONG'')) (Val (JStr ''SHORT''))\<rparr>)"

text \<open>A response that is not an array has no \<open>map\<close> to call.\<close>

definition TradingAPI_parsePositionsResponse :: "jsval \<Rightarrow> error + Position list" where
  "TradingAPI_parsePositionsResponse response =
     (case response of JArr xs \<Rightarrow> mapE TradingAPI_parsePosition xs | _ \<Rightarrow> Inl TypeError)"

definition TradingAPI_parseOrdersResponse :: "jsval \<Rightarrow> error + OrderStatus list" where
  "TradingAPI_parseOrdersResponse response =
     (case response of JArr xs \<Rightarrow> mapE TradingAPI_parseOrderResponse xs | _ \<Rightarrow> Inl TypeError)"

text \<open>
  The REST methods.  Each catches what \<open>makeApiRequest\<close> or the parser throws, logs it,
  and throws it again: \<open>andThen\<close> passes the error on as it is.
\<close>

definition andThen :: "(error + 'a) \<times> 's \<Rightarrow> ('a \<Rightarrow> error + 'b) \<Rightarrow> (error + 'b) \<times> 's" where
  "andThen m f = (case m of (Inl e, s) \<Rightarrow> (Inl e, s) | (Inr x, s) \<Rightarrow> (f x, s))"

definition TradingAPI_placeOrder :: "OrderRequest \<Rightarrow> reply \<Rightarrow> TradingAPI \<Rightarrow> (error + OrderStatus) \<times> TradingAPI" where
  "TradingAPI_placeOrder order reply this =
     (case config this of
        None \<Rightarrow> (Inl (Error ''Trading API not configured''), this)
      | Some c \<Rightarrow>
          andThen (TradingAPI_makeApiRequest ''POST'' ''/orders'' (Some (orderJSON order)) reply this)
            TradingAPI_parseOrderResponse)"

definition TradingAPI_cancelOrder :: "string \<Rightarrow> reply \<Rightarrow> TradingAPI \<Rightarrow> (error + unit) \<times> TradingAPI" where
  "TradingAPI_cancelOrder order_id reply this =
     (case config this of
        None \<Rightarrow> (Inl (Error ''Trading API not configured''), this)
      | Some c \<Rightarrow>
          andThen (TradingAPI_makeApiRequest ''DELETE'' (''/orders/'' @ order_id) None reply this)
            (\<lambda>response. Inr ()))"

definition TradingAPI_getAccount :: "reply \<Rightarrow> TradingAPI \<Rightarrow> (error + Account) \<times> TradingAPI" where
  "TradingAPI_getAccount reply this =
     (case config this of
        None \<Rightarrow> (Inl (Error ''Trading API not configured''), this)
      | Some c \<Rightarrow>
          andThen (TradingAPI_makeApiRequest ''GET'' ''/account'' None reply this) TradingAPI_parseAccountResponse)"

definition TradingAPI_getPositions :: "reply \<Rightarrow> TradingAPI \<Rightarrow> (error + Position list) \<times> TradingAPI" where
  "TradingAPI_getPositions reply this =
     (case config this of
        None \<Rightarrow> (Inl (Error ''Trading API not configured''), this)
      | Some c \<Rightarrow>
          andThen (TradingAPI_makeApiRequest ''GET'' ''/positions'' None reply this) TradingAPI_parsePositionsResponse)"

text \<open>The status filter is used when it is a non-empty string.\<close>

definition TradingAPI_getOrders :: "string option \<Rightarrow> reply \<Rightarrow> TradingAPI \<Rightarrow> (error + OrderStatus list) \<times> TradingAPI" where
  "TradingAPI_getOrders filter_status reply this =
     (case config this of
        None \<Rightarrow> (Inl (Error ''Trading API not configured''), this)
      | Some c \<Rightarrow>
          let u = (case filter_status of
                     None \<Rightarrow> ''/orders''
                   | Some st \<Rightarrow> if st \<noteq> [] then ''/orders?status='' @ st else ''/orders'')
          in andThen (TradingAPI_makeApiRequest ''GET'' u None reply this) TradingAPI_parseOrdersResponse)"

definition TradingAPI_disconnect :: "TradingAPI \<Rightarrow> TradingAPI" where
  "TradingAPI_disconnect this =
     (case websocket this of
        None \<Rightarrow> this
      | Some h \<Rightarrow> (ws_close h this)\<lparr>websocket := None\<rparr>)
     \<lparr>marketDataCallbacks := [], orderUpdateCallbacks := []\<rparr>"

definition TradingAPI_isConnected :: "TradingAPI \<Rightarrow> bool" where
  "TradingAPI_isConnected this =
     (case websocket this of None \<Rightarrow> False | Some h \<Rightarrow> ws_readyState h this = OPEN)"

section \<open>CryptoAPI (src/lib/crypto-api.ts)\<close>

record CryptoMarketData =
  symbol :: jsexp
  price :: jsexp
  bid :: jsexp
  ask :: jsexp
  volume24h :: jsexp
  change24h :: jsexp
  changePercent24h :: jsexp
  high24h :: jsexp
  low24h :: jsexp
  timestamp :: jsexp

datatype MarginMode = ISOLATED | CROSS

text \<open>The interface leaves \<open>DAY\<close> out of a crypto order's \<open>timeInForce\<close>.\<close>

record CryptoOrderRequest =
  symbol :: string
  side :: Side
  type :: OrderType
  quantity :: rat
  price :: "rat option"
  stopPrice :: "rat option"
  timeInForce :: "TimeInForce option"
  leverage :: "rat option"
  marginMode :: "MarginMode option"

record CryptoPosition =
  symbol :: jsexp
  side :: jsexp
  position_size :: jsexp
  entryPrice :: jsexp
  markPrice :: jsexp
  unrealizedPnl :: jsexp
  leverage :: jsexp
  marginMode :: jsexp
  liquidationPrice :: jsexp

record CryptoAccount =
  totalBalance :: jsexp
  availableBalance :: jsexp
  marginBalance :: jsexp
  unrealizedPnl :: jsexp
  totalMarginBalance :: jsexp
  totalWalletBalance :: jsexp
  positions :: "CryptoPosition list"

record CryptoExchangeConfig =
  name :: string
  apiKey :: string
  secretKey :: string
  passphrase :: "string option"
  baseUrl :: string
  testnet :: bool
  leverage :: "rat option"

type_synonym CryptoAPI = "(CryptoExchangeConfig, CryptoMarketData, jsval) adapter"

definition cryptoAPI :: CryptoAPI where
  "cryptoAPI = \<lparr>sockets = [], timers = [], fetched = [], delivered = [],
     config = None, websocket = None, marketDataCallbacks = [], orderUpdateCallbacks = [],
     reconnectAttempts = 0\<rparr>"

definition CryptoAPI_configure :: "CryptoExchangeConfig \<Rightarrow> CryptoAPI \<Rightarrow> CryptoAPI" where
  "CryptoAPI_configure c this = this\<lparr>config := Some c, reconnectAttempts := 0\<rparr>"

definition CryptoAPI_getWebSocketUrl :: "CryptoAPI \<Rightarrow> error + string" where
  "CryptoAPI_getWebSocketUrl this =
     (case config this of
        None \<Rightarrow> Inl (Error ''No configuration'')
      | Some c \<Rightarrow>
          if CryptoExchangeConfig.name c = ''bybit'' then
            Inr (if testnet c then ''wss://stream-testnet.bybit.com/v5/public/linear''
                 else ''wss://stream.bybit.com/v5/public/linear'')
          else if CryptoExchangeConfig.name c = ''kucoin'' then
            Inr (if testnet c then ''wss://ws-api-sandbox.kucoin.com/'' else ''wss://ws-api-spot.kucoin.com/'')
          else if CryptoExchangeConfig.name c = ''kraken'' then Inr ''wss://ws.kraken.com''
          else if CryptoExchangeConfig.name c = ''crypto_com'' then
            Inr (if testnet c then ''wss://uat-stream.3ona.co/v2/market'' else ''wss://stream.crypto.com/v2/market'')
          else if CryptoExchangeConfig.name c = ''coinex'' then Inr ''wss://socket.coinex.com/''
          else if CryptoExchangeConfig.name c = ''bitget'' then
            Inr (if testnet c then ''wss://ws.bitgetapi.com/spot/v1/stream'' else ''wss://ws.bitgetapi.com/spot/v1/stream'')
          else Inl (Error (''Unsupported exchange: '' @ CryptoExchangeConfig.name c)))"

definition CryptoAPI_connectMarketData :: "string list \<Rightarrow> CryptoAPI \<Rightarrow> (error + unit) \<times> CryptoAPI" where
  "CryptoAPI_connectMarketData symbols this =
     (case config this of
        None \<Rightarrow> (Inl (Error ''Crypto API not configured''), this)
      | Some c \<Rightarrow>
          let this1 = (case websocket this of None \<Rightarrow> this | Some h \<Rightarrow> ws_close h this) in
          (case CryptoAPI_getWebSocketUrl this1 of
             Inl e \<Rightarrow> (Inl e, this1)
           | Inr wsUrl \<Rightarrow>
               if hasFragment wsUrl then (Inl SyntaxError, this1)
               else (Inr (), (ws_new wsUrl symbols this1)\<lparr>websocket := Some (length (sockets this1))\<rparr>)))"

text \<open>\<open>now\<close> is what \<open>Date.now()\<close> reads, in milliseconds.\<close>

definition CryptoAPI_createSubscriptionMessage :: "nat \<Rightarrow> string list \<Rightarrow> CryptoAPI \<Rightarrow> error + jsval" where
  "CryptoAPI_createSubscriptionMessage now symbols this =
     (case config this of
        None \<Rightarrow> Inl (Error ''No configuration'')
      | Some c \<Rightarrow>
          if CryptoExchangeConfig.name c = ''bybit'' then
            Inr (JObj [(''op'', JStr ''subscribe''),
                       (''args'', JArr (map (\<lambda>s. JStr (''tickers.'' @ s)) symbols))])
          else if CryptoExchangeConfig.name c = ''kucoin'' then
            Inr (JObj [(''id'', JNum (of_nat now)), (''type'', JStr ''subscribe''),
                       (''topic'', JStr ''/market/ticker:all''),
                       (''privateChannel'', JBool False), (''response'', JBool True)])
          else if CryptoExchangeConfig.name c = ''kraken'' then
            Inr (JObj [(''event'', JStr ''subscribe''), (''pair'', JArr (map JStr symbols)),
                       (''subscription'', JObj [(''name'', JStr ''ticker'')])])
          else if CryptoExchangeConfig.name c = ''crypto_com'' then
            Inr (JObj [(''method'', JStr ''subscribe''),
                       (''params'', JObj [(''channels'', JArr (map (\<lambda>s. JStr (''ticker.'' @ s)) symbols))])])
          else if CryptoExchangeConfig.name c = ''coinex'' then
            Inr (JObj [(''method'', JStr ''state.subscribe''), (''params'', JArr (map JStr symbols)),
                       (''id'', JNum (of_nat now))])
          else if CryptoExchangeConfig.name c = ''bitget'' then
            Inr (JObj [(''op'', JStr ''subscribe''),
                       (''args'', JArr (map (\<lambda>s. JObj [(''instType'', JStr ''sp''), (''channel'', JStr ''ticker''),
                                                        (''instId'', JStr s)]) symbols))])
          else Inl (Error (''Unsupported exchange: '' @ CryptoExchangeConfig.name c)))"

definition CryptoAPI_subscribeToSymbols :: "nat \<Rightarrow> string list \<Rightarrow> CryptoAPI \<Rightarrow> (error + unit) \<times> CryptoAPI" where
  "CryptoAPI_subscribeToSymbols now symbols this =
     (case websocket this of
        None \<Rightarrow> (Inr (), this)
      | Some h \<Rightarrow>
          (case config this of
             None \<Rightarrow> (Inr (), this)
           | Some c \<Rightarrow>
               (case CryptoAPI_createSubscriptionMessage now symbols this of
                  Inl e \<Rightarrow> (Inl e, this)
                | Inr m \<Rightarrow> (case ws_send h m this of Inl e \<Rightarrow> (Inl e, this) | Inr this' \<Rightarrow> (Inr (), this')))))"

definition bindE :: "error + 'a \<Rightarrow> ('a \<Rightarrow> error + 'b) \<Rightarrow> error + 'b" where
  "bindE m f = (case m of Inl e \<Rightarrow> Inl e | Inr x \<Rightarrow> f x)"

definition parseBybitData :: "jsval \<Rightarrow> error + CryptoMarketData option" where
  "parseBybitData data =
     (if nullish data then Inl TypeError
      else if \<not> truthy (property data ''topic'') then Inr None
      else bindE (startsWith (property data ''topic'') ''tickers.'') (\<lambda>starts.
        if starts \<and> truthy (property data ''data'') then
          let ticker = property data ''data'' in
          Inr (Some \<lparr>CryptoMarketData.symbol = Val (property ticker ''symbol''),
                     CryptoMarketData.price = ParseFloat (property ticker ''lastPrice''),
                     bid = ParseFloat (property ticker ''bid1Price''),
                     ask = ParseFloat (property ticker ''ask1Price''),
                     volume24h = ParseFloat (property ticker ''volume24h''),
                     change24h = Mul (ParseFloat (property ticker ''price24hPcnt'')) (ParseFloat (property ticker ''lastPrice'')),
                     changePercent24h = Mul (ParseFloat (property ticker ''price24hPcnt'')) (Lit 100),
                     high24h = ParseFloat (property ticker ''highPrice24h''),
                     low24h = ParseFloat (property ticker ''lowPrice24h''),
                     timestamp = ParseInt (property ticker ''time'')\<rparr>)
        else Inr None))"

definition parseKuCoinData :: "jsval \<Rightarrow> error + CryptoMarketData option" where
  "parseKuCoinData data =
     (if nullish data then Inl TypeError
      else if property data ''type'' = JStr ''message'' \<and> property data ''topic'' = JStr ''/market/ticker:all''
              \<and> truthy (property data ''data'') then
        let ticker = property data ''data'' in
        Inr (Some \<lparr>CryptoMarketData.symbol = Val (property ticker ''symbol''),
                   CryptoMarketData.price = ParseFloat (property ticker ''price''),
                   bid = ParseFloat (property ticker ''bestBid''),
                   ask = ParseFloat (property ticker ''bestAsk''),
                   volume24h = ParseFloat (property ticker ''vol''),
                   change24h = ParseFloat (property ticker ''changePrice''),
                   changePercent24h = Mul (ParseFloat (property ticker ''changeRate'')) (Lit 100),
                   high24h = ParseFloat (property ticker ''high''),
                   low24h = ParseFloat (property ticker ''low''),
                   timestamp = Val (property ticker ''time'')\<rparr>)
      else Inr None)"

text \<open>
  Kraken's ticker fields are arrays: \<open>ticker.c[0]\<close> throws when the frame has no \<open>c\<close>.
\<close>

definition parseKrakenData :: "nat \<Rightarrow> jsval \<Rightarrow> error + CryptoMarketData option" where
  "parseKrakenData now data =
     (if isArray data \<and> truthy (element data 1) \<and> element data 2 = JStr ''ticker'' then
        let ticker = element data 1; sym = element data 3 in
        bindE (getIdx (property ticker ''c'') 0) (\<lambda>c0.
        bindE (getIdx (property ticker ''b'') 0) (\<lambda>b0.
        bindE (getIdx (property ticker ''a'') 0) (\<lambda>a0.
        bindE (getIdx (property ticker ''v'') 1) (\<lambda>v1.
        bindE (getIdx (property ticker ''p'') 1) (\<lambda>p1.
        bindE (getIdx (property ticker ''h'') 1) (\<lambda>h1.
        bindE (getIdx (property ticker ''l'') 1) (\<lambda>l1.
          Inr (Some \<lparr>CryptoMarketData.symbol = Val sym,
                     CryptoMarketData.price = ParseFloat c0,
                     bid = ParseFloat b0,
                     ask = ParseFloat a0,
                     volume24h = ParseFloat v1,
                     change24h = ParseFloat p1,
                     changePercent24h = Mul (Div (ParseFloat p1) (ParseFloat c0)) (Lit 100),
                     high24h = ParseFloat h1,
                     low24h = ParseFloat l1,
                     timestamp = Lit (of_nat now)\<rparr>))))))))
      else Inr None)"

definition parseCryptoComData :: "jsval \<Rightarrow> error + CryptoMarketData option" where
  "parseCryptoComData data =
     (if nullish data then Inl TypeError
      else if property data ''method'' = JStr ''subscribe'' \<and> truthy (property data ''result'')
              \<and> truthy (property (property data ''result'') ''data'') then
        let ticker = property (property data ''result'') ''data'' in
        Inr (Some \<lparr>CryptoMarketData.symbol = Val (property ticker ''i''),
                   CryptoMarketData.price = ParseFloat (property ticker ''a''),
                   bid = ParseFloat (property ticker ''b''),
                   ask = ParseFloat (property ticker ''k''),
                   volume24h = ParseFloat (property ticker ''v''),
                   change24h = ParseFloat (property ticker ''c''),
                   changePercent24h = Mul (Div (ParseFloat (property ticker ''c'')) (ParseFloat (property ticker ''a''))) (Lit 100),
                   high24h = ParseFloat (property ticker ''h''),
                   low24h = ParseFloat (property ticker ''l''),
                   timestamp = Val (property ticker ''t'')\<rparr>)
      else Inr None)"

text \<open>\<open>params[1]\<close> may be missing; reading \<open>ticker.last\<close> then throws.\<close>

definition parseCoinExData :: "nat \<Rightarrow> jsval \<Rightarrow> error + CryptoMarketData option" where
  "parseCoinExData now data =
     (if nullish data then Inl TypeError
      else if property data ''method'' = JStr ''state.update'' \<and> truthy (property data ''params'') then
        let sym = element (property data ''params'') 0;
            ticker = element (property data ''params'') 1 in
        if nullish ticker then Inl TypeError
        else
          Inr (Some \<lparr>CryptoMarketData.symbol = Val sym,
                     CryptoMarketData.price = ParseFloat (property ticker ''last''),
                     bid = ParseFloat (property ticker ''bid''),
                     ask = ParseFloat (property ticker ''ask''),
                     volume24h = ParseFloat (property ticker ''vol''),
                     change24h = ParseFloat (property ticker ''change''),
                     changePercent24h = Mul (Div (ParseFloat (property ticker ''change'')) (ParseFloat (property ticker ''last''))) (Lit 100),
                     high24h = ParseFloat (property ticker ''high''),
                     low24h = ParseFloat (property ticker ''low''),
                     timestamp = Lit (of_nat now)\<rparr>)
      else Inr None)"

definition parseBitgetData :: "jsval \<Rightarrow> error + CryptoMarketData option" where
  "parseBitgetData data =
     (if nullish data then Inl TypeError
      else if property data ''action'' = JStr ''snapshot'' \<and> truthy (property data ''arg'')
              \<and> truthy (property data ''data'') then
        let ticker = element (property data ''data'') 0 in
        if nullish ticker then Inl TypeError
        else
          Inr (Some \<lparr>CryptoMarketData.symbol = Val (property (property data ''arg'') ''instId''),
                     CryptoMarketData.price = ParseFloat (property ticker ''last''),
                     bid = ParseFloat (property ticker ''bidPx''),
                     ask = ParseFloat (property ticker ''askPx''),
                     volume24h = ParseFloat (property ticker ''baseVolume''),
                     change24h = ParseFloat (property ticker ''change24h''),
                     changePercent24h = Mul (ParseFloat (property ticker ''changeUtc24h'')) (Lit 100),
                     high24h = ParseFloat (property ticker ''high24h''),
                     low24h = ParseFloat (property ticker ''low24h''),
                     timestamp = ParseInt (property ticker ''ts'')\<rparr>)
      else Inr None)"

text \<open>The \<open>switch\<close> of \<open>handleMarketDataMessage\<close>.\<close>

definition CryptoAPI_normalize :: "nat \<Rightarrow> CryptoExchangeConfig \<Rightarrow> jsval \<Rightarrow> error + CryptoMarketData option" where
  "CryptoAPI_normalize now c data =
     (if CryptoExchangeConfig.name c = ''bybit'' then parseBybitData data
      else if CryptoExchangeConfig.name c = ''kucoin'' then parseKuCoinData data
      else if CryptoExchangeConfig.name c = ''kraken'' then parseKrakenData now data
      else if CryptoExchangeConfig.name c = ''crypto_com'' then parseCryptoComData data
      else if CryptoExchangeConfig.name c = ''coinex'' then parseCoinExData now data
      else if CryptoExchangeConfig.name c = ''bitget'' then parseBitgetData data
      else Inr None)"

definition CryptoAPI_handleMarketDataMessage :: "nat \<Rightarrow> jsval \<Rightarrow> CryptoAPI \<Rightarrow> (error + unit) \<times> CryptoAPI" where
  "CryptoAPI_handleMarketDataMessage now data this =
     (case config this of
        None \<Rightarrow> (Inr (), this)
      | Some c \<Rightarrow>
          (case CryptoAPI_normalize now c data of
             Inl e \<Rightarrow> (Inl e, this)
           | Inr None \<Rightarrow> (Inr (), this)
           | Inr (Some marketData) \<Rightarrow> invoke (marketDataCallbacks this) marketData this))"

definition CryptoAPI_handleReconnection :: "string list \<Rightarrow> CryptoAPI \<Rightarrow> CryptoAPI" where
  "CryptoAPI_handleReconnection symbols this =
     (if reconnectAttempts this < maxReconnectAttempts then
        let this1 = this\<lparr>reconnectAttempts := reconnectAttempts this + 1\<rparr>;
            delay = 2 ^ reconnectAttempts this1 * 1000
        in setTimeout delay symbols this1
      else this)"

definition CryptoAPI_onopen :: "nat \<Rightarrow> string list \<Rightarrow> CryptoAPI \<Rightarrow> (error + unit) \<times> CryptoAPI" where
  "CryptoAPI_onopen now symbols this = CryptoAPI_subscribeToSymbols now symbols (this\<lparr>reconnectAttempts := 0\<rparr>)"

definition CryptoAPI_onmessage :: "nat \<Rightarrow> frame \<Rightarrow> CryptoAPI \<Rightarrow> CryptoAPI" where
  "CryptoAPI_onmessage now f this =
     (case JSON_parse f of
        Inl e \<Rightarrow> this
      | Inr data \<Rightarrow> snd (CryptoAPI_handleMarketDataMessage now data this))"

definition CryptoAPI_onclose :: "string list \<Rightarrow> CryptoAPI \<Rightarrow> CryptoAPI" where
  "CryptoAPI_onclose symbols this = CryptoAPI_handleReconnection symbols this"

definition CryptoAPI_onMarketData :: "CryptoMarketData callback \<Rightarrow> CryptoAPI \<Rightarrow> CryptoAPI" where
  "CryptoAPI_onMarketData callback this = this\<lparr>marketDataCallbacks := marketDataCallbacks this @ [callback]\<rparr>"

definition CryptoAPI_onOrderUpdate :: "jsval callback \<Rightarrow> CryptoAPI \<Rightarrow> CryptoAPI" where
  "CryptoAPI_onOrderUpdate callback this = this\<lparr>orderUpdateCallbacks := orderUpdateCallbacks this @ [callback]\<rparr>"

fun marginModeStr :: "MarginMode \<Rightarrow> string" where
  "marginModeStr ISOLATED = ''ISOLATED''"
| "marginModeStr CROSS = ''CROSS''"

definition cryptoOrderJSON :: "CryptoOrderRequest \<Rightarrow> jsval" where
  "cryptoOrderJSON order =
     JObj ([(''symbol'', JStr (CryptoOrderRequest.symbol order)),
            (''side'', JStr (sideStr (CryptoOrderRequest.side order))),
            (''type'', JStr (orderTypeStr (CryptoOrderRequest.type order))),
            (''quantity'', JNum (CryptoOrderRequest.quantity order))]
           @ optional ''price'' JNum (CryptoOrderRequest.price order)
           @ optional ''stopPrice'' JNum (CryptoOrderRequest.stopPrice order)
           @ optional ''timeInForce'' (\<lambda>t. JStr (timeInForceStr t)) (CryptoOrderRequest.timeInForce order)
           @ optional ''leverage'' JNum (CryptoOrderRequest.leverage order)
           @ optional ''marginMode'' (\<lambda>m. JStr (marginModeStr m)) (CryptoOrderRequest.marginMode order))"

text \<open>
  \<open>getAuthHeaders(method, endpoint, timestamp, body)\<close> reads only the configuration and
  the timestamp.
\<close>

definition CryptoAPI_getAuthHeaders ::
  "string \<Rightarrow> string \<Rightarrow> string \<Rightarrow> jsval option \<Rightarrow> CryptoAPI \<Rightarrow> error + (string \<times> string) list" where
  "CryptoAPI_getAuthHeaders meth endpoint stamp payload this =
     (case config this of
        None \<Rightarrow> Inl (Error ''Crypto API not configured'')
      | Some c \<Rightarrow>
          if CryptoExchangeConfig.name c = ''bybit'' then
            Inr [(''X-BAPI-API-KEY'', CryptoExchangeConfig.apiKey c), (''X-BAPI-TIMESTAMP'', stamp),
                 (''X-BAPI-RECV-WINDOW'', ''5000'')]
          else if CryptoExchangeConfig.name c = ''kucoin'' then
            Inr [(''KC-API-KEY'', CryptoExchangeConfig.apiKey c), (''KC-API-TIMESTAMP'', stamp),
                 (''KC-API-PASSPHRASE'', case passphrase c of None \<Rightarrow> [] | Some p \<Rightarrow> p)]
          else if CryptoExchangeConfig.name c = ''kraken'' then
            Inr [(''API-Key'', CryptoExchangeConfig.apiKey c)]
          else if CryptoExchangeConfig.name c = ''crypto_com'' then
            Inr [(''X-CRO-API-KEY'', CryptoExchangeConfig.apiKey c)]
          else if CryptoExchangeConfig.name c = ''coinex'' then
            Inr [(''AccessId'', CryptoExchangeConfig.apiKey c), (''Tonce'', stamp)]
          else if CryptoExchangeConfig.name c = ''bitget'' then
            Inr [(''ACCESS-KEY'', CryptoExchangeConfig.apiKey c), (''ACCESS-TIMESTAMP'', stamp)]
          else Inl (Error (''Unsupported exchange: '' @ CryptoExchangeConfig.name c)))"

definition CryptoAPI_makeApiRequest ::
  "nat \<Rightarrow> string \<Rightarrow> string \<Rightarrow> jsval option \<Rightarrow> reply \<Rightarrow> CryptoAPI \<Rightarrow> (error + jsval) \<times> CryptoAPI" where
  "CryptoAPI_makeApiRequest now meth endpoint payload reply this =
     (case config this of
        None \<Rightarrow> (Inl (Error ''Crypto API not configured''), this)
      | Some c \<Rightarrow>
          (case CryptoAPI_getAuthHeaders meth endpoint (toString now) payload this of
             Inl e \<Rightarrow> (Inl e, this)
           | Inr hs \<Rightarrow>
               let this1 = fetch \<lparr>input = CryptoExchangeConfig.baseUrl c @ endpoint, http_method = meth,
                                  headers = (''Content-Type'', ''application/json'') # hs,
                                  body = payload\<rparr> this
               in (case reply of
                     Rejected \<Rightarrow> (Inl TypeError, this1)
                   | Responded response \<Rightarrow>
                       if \<not> ok response then
                         (Inl (Error (''API request failed: '' @ toString (Response.status response)
                                      @ '' '' @ bodyText response)), this1)
                       else (case parsed response of
                               None \<Rightarrow> (Inl SyntaxError, this1)
                             | Some j \<Rightarrow> (Inr j, this1)))))"

definition CryptoAPI_parseAccountResponse :: "jsval \<Rightarrow> error + CryptoAccount" where
  "CryptoAPI_parseAccountResponse response =
     (if nullish response then Inl TypeError
      else Inr \<lparr>totalBalance = ParseFloat (jsOr (jsOr (property response ''totalBalance'') (property response ''total'')) (JNum 0)),
                availableBalance = ParseFloat (jsOr (jsOr (property response ''availableBalance'') (property response ''available'')) (JNum 0)),
                marginBalance = ParseFloat (jsOr (property response ''marginBalance'') (JNum 0)),
                CryptoAccount.unrealizedPnl = ParseFloat (jsOr (property response ''unrealizedPnl'') (JNum 0)),
                totalMarginBalance = ParseFloat (jsOr (property response ''totalMarginBalance'') (JNum 0)),
                totalWalletBalance = ParseFloat (jsOr (property response ''totalWalletBalance'') (JNum 0)),
                positions = []\<rparr>)"

definition CryptoAPI_parsePosition :: "jsval \<Rightarrow> error + CryptoPosition" where
  "CryptoAPI_parsePosition pos =
     (if nullish pos then Inl TypeError
      else Inr \<lparr>CryptoPosition.symbol = Val (property pos ''symbol''),
                CryptoPosition.side = Val (property pos ''side''),
                position_size = ParseFloat (jsOr (property pos ''size'') (property pos ''quantity'')),
                entryPrice = ParseFloat (jsOr (property pos ''entryPrice'') (property pos ''avgPrice'')),
                markPrice = ParseFloat (jsOr (property pos ''markPrice'') (property pos ''currentPrice'')),
                CryptoPosition.unrealizedPnl = ParseFloat (jsOr (property pos ''unrealizedPnl'') (JNum 0)),
                CryptoPosition.leverage = ParseFloat (jsOr (property pos ''leverage'') (JNum 1)),
                CryptoPosition.marginMode = Val (jsOr (property pos ''marginMode'') (JStr ''CROSS'')),
                liquidationPrice = ParseFloat (jsOr (property pos ''liquidationPrice'') (JNum 0))\<rparr>)"

definition CryptoAPI_parsePositionsResponse :: "jsval \<Rightarrow> error + CryptoPosition list" where
  "CryptoAPI_parsePositionsResponse response =
     (case response of JArr xs \<Rightarrow> mapE CryptoAPI_parsePosition xs | _ \<Rightarrow> Inl TypeError)"

definition CryptoAPI_placeOrder :: "nat \<Rightarrow> CryptoOrderRequest \<Rightarrow> reply \<Rightarrow> CryptoAPI \<Rightarrow> (error + jsval) \<times> CryptoAPI" where
  "CryptoAPI_placeOrder now order reply this =
     (case config this of
        None \<Rightarrow> (Inl (Error ''Crypto API not configured''), this)
      | Some c \<Rightarrow>
          andThen (CryptoAPI_makeApiRequest now ''POST'' ''/order'' (Some (cryptoOrderJSON order)) reply this) Inr)"

definition CryptoAPI_getAccount :: "nat \<Rightarrow> reply \<Rightarrow> CryptoAPI \<Rightarrow> (error + CryptoAccount) \<times> CryptoAPI" where
  "CryptoAPI_getAccount now reply this =
     (case config this of
        None \<Rightarrow> (Inl (Error ''Crypto API not configured''), this)
      | Some c \<Rightarrow>
          andThen (CryptoAPI_makeApiRequest now ''GET'' ''/account'' None reply this) CryptoAPI_parseAccountResponse)"

definition CryptoAPI_getPositions :: "nat \<Rightarrow> reply \<Rightarrow> CryptoAPI \<Rightarrow> (error + CryptoPosition list) \<times> CryptoAPI" where
  "CryptoAPI_getPositions now reply this =
     (case config this of
        None \<Rightarrow> (Inl (Error ''Crypto API not configured''), this)
      | Some c \<Rightarrow>
          andThen (CryptoAPI_makeApiRequest now ''GET'' ''/positions'' None reply this) CryptoAPI_parsePositionsResponse)"

definition CryptoAPI_disconnect :: "CryptoAPI \<Rightarrow> CryptoAPI" where
  "CryptoAPI_disconnect this =
     (case websocket this of
        None \<Rightarrow> this
      | Some h \<Rightarrow> (ws_close h this)\<lparr>websocket := None\<rparr>)
     \<lparr>marketDataCallbacks := [], orderUpdateCallbacks := []\<rparr>"

definition CryptoAPI_isConnected :: "CryptoAPI \<Rightarrow> bool" where
  "CryptoAPI_isConnected this =
     (case websocket this of None \<Rightarrow> False | Some h \<Rightarrow> ws_readyState h this = OPEN)"

section \<open>RithmicAPI (src/lib/rithmic-api.ts)\<close>

datatype Environment = test | live

record RithmicConfig =
  username :: string
  password :: string
  systemName :: string
  appName :: string
  appVersion :: string
  environment :: Environment
  gateway :: string

record RithmicMarketData =
  symbol :: jsexp
  exchange :: jsexp
  lastPrice :: jsexp
  bidPrice :: jsexp
  askPrice :: jsexp
  bidSize :: jsexp
  askSize :: jsexp
  volume :: jsexp
  openPrice :: jsexp
  highPrice :: jsexp
  lowPrice :: jsexp
  settlementPrice :: jsexp
  timestamp :: jsexp

record RithmicOrderRequest =
  symbol :: string
  exchange :: string
  side :: Side
  quantity :: rat
  orderType :: OrderType
  price :: "rat option"
  stopPrice :: "rat option"
  timeInForce :: TimeInForce
  account :: "string option"

record RithmicAccount =
  accountId :: jsexp
  netLiquidationValue :: jsexp
  totalCashValue :: jsexp
  buyingPower :: jsexp
  maintenanceMargin :: jsexp
  initialMargin :: jsexp
  availableFunds :: jsexp
  excessLiquidity :: jsexp

text \<open>What a Rithmic callback is invoked with, by the list it was registered in.\<close>

datatype RithmicUpdate =
    MarketData RithmicMarketData
  | AccountUpdate RithmicAccount
  | OrderUpdate jsval

record RithmicAPI = "(RithmicConfig, RithmicUpdate, RithmicUpdate) adapter" +
  accountUpdateCallbacks :: "RithmicUpdate callback list"
  connected :: bool

definition rithmicAPI :: RithmicAPI where
  "rithmicAPI = \<lparr>sockets = [], timers = [], fetched = [], delivered = [],
     config = None, websocket = None, marketDataCallbacks = [], orderUpdateCallbacks = [],
     reconnectAttempts = 0, accountUpdateCallbacks = [], connected = False\<rparr>"

definition RithmicAPI_configure :: "RithmicConfig \<Rightarrow> RithmicAPI \<Rightarrow> RithmicAPI" where
  "RithmicAPI_configure c this = this\<lparr>config := Some c, reconnectAttempts := 0\<rparr>"

definition RithmicAPI_getWebSocketUrl :: "RithmicAPI \<Rightarrow> error + string" where
  "RithmicAPI_getWebSocketUrl this =
     (case config this of
        None \<Rightarrow> Inl (Error ''No configuration'')
      | Some c \<Rightarrow>
          let base = (if environment c = test then ''wss://rituz00100.rithmic.com:443''
                      else ''wss://rituz00100.rithmic.com:443'')
          in Inr (base @ ''/'' @ gateway c))"

text \<open>
  \<open>connect\<close> without its handlers, which are \<open>RithmicAPI_onopen\<close>,
  \<open>RithmicAPI_onmessage\<close> and \<open>RithmicAPI_onclose\<close> below.  They capture nothing.
\<close>

definition RithmicAPI_connect :: "RithmicAPI \<Rightarrow> (error + unit) \<times> RithmicAPI" where
  "RithmicAPI_connect this =
     (case config this of
        None \<Rightarrow> (Inl (Error ''Rithmic API not configured''), this)
      | Some c \<Rightarrow>
          let this1 = (case websocket this of None \<Rightarrow> this | Some h \<Rightarrow> ws_close h this) in
          (case RithmicAPI_getWebSocketUrl this1 of
             Inl e \<Rightarrow> (Inl e, this1)
           | Inr wsUrl \<Rightarrow>
               if hasFragment wsUrl then (Inl SyntaxError, this1)
               else (Inr (), (ws_new wsUrl [] this1)\<lparr>websocket := Some (length (sockets this1))\<rparr>)))"

text \<open>\<open>sendMessage\<close> sends on an open socket, where \<open>send\<close> does not throw, and otherwise does nothing.\<close>

definition RithmicAPI_sendMessage :: "jsval \<Rightarrow> RithmicAPI \<Rightarrow> RithmicAPI" where
  "RithmicAPI_sendMessage message this =
     (case websocket this of
        None \<Rightarrow> this
      | Some h \<Rightarrow>
          if ws_readyState h this = OPEN then
            (case ws_send h message this of Inl e \<Rightarrow> this | Inr this' \<Rightarrow> this')
          else this)"

definition RithmicAPI_authenticate :: "RithmicAPI \<Rightarrow> RithmicAPI" where
  "RithmicAPI_authenticate this =
     (case websocket this of
        None \<Rightarrow> this
      | Some h \<Rightarrow>
          (case config this of
             None \<Rightarrow> this
           | Some c \<Rightarrow>
               RithmicAPI_sendMessage
                 (JObj [(''template_id'', JNum 10),
                        (''user_msg'', JArr [JStr (username c), JStr (password c), JStr (systemName c),
                                             JStr (appName c), JStr (appVersion c)])])
                 this))"

text \<open>
  \<open>parseMessage\<close>: a string is parsed as JSON; of an \<open>ArrayBuffer\<close> the first two bytes
  are the template id, little-endian (\<open>getUint16\<close> throws on a shorter buffer).
\<close>

definition parseMessage :: "frame \<Rightarrow> error + jsval" where
  "parseMessage f =
     (case f of
        Text p \<Rightarrow> JSON_parse f
      | Binary bs \<Rightarrow>
          if length bs < 2 then Inl RangeError
          else Inr (JObj [(''template_id'', JNum (of_nat (unat (bs ! 0) + 256 * unat (bs ! 1)))),
                          (''data'', JBuffer bs)]))"

definition requestAccountInfo :: "RithmicAPI \<Rightarrow> RithmicAPI" where
  "requestAccountInfo this =
     RithmicAPI_sendMessage (JObj [(''template_id'', JNum 200), (''user_msg'', JArr [])]) this"

definition handleLoginResponse :: "jsval \<Rightarrow> RithmicAPI \<Rightarrow> (error + unit) \<times> RithmicAPI" where
  "handleLoginResponse message this =
     (if truthy (property message ''rp_code'') \<and> element (property message ''rp_code'') 0 = JStr ''0'' then
        (Inr (), requestAccountInfo (this\<lparr>connected := True, reconnectAttempts := 0\<rparr>))
      else (Inl (Error ''Authentication failed''), this))"

text \<open>The object \<open>handleMarketDataUpdate\<close> builds from a message.\<close>

definition marketDataOf :: "nat \<Rightarrow> jsval \<Rightarrow> RithmicMarketData" where
  "marketDataOf now message =
        \<lparr>RithmicMarketData.symbol = Val (jsOr (property message ''symbol'') (JStr [])),
         RithmicMarketData.exchange = Val (jsOr (property message ''exchange'') (JStr [])),
         lastPrice = ParseFloat (jsOr (property message ''last_trade_price'') (JNum 0)),
         bidPrice = ParseFloat (jsOr (property message ''best_bid_price'') (JNum 0)),
         askPrice = ParseFloat (jsOr (property message ''best_ask_price'') (JNum 0)),
         bidSize = ParseInt (jsOr (property message ''best_bid_quantity'') (JNum 0)),
         askSize = ParseInt (jsOr (property message ''best_ask_quantity'') (JNum 0)),
         RithmicMarketData.volume = ParseInt (jsOr (property message ''total_volume'') (JNum 0)),
         openPrice = ParseFloat (jsOr (property message ''open_price'') (JNum 0)),
         highPrice = ParseFloat (jsOr (property message ''high_price'') (JNum 0)),
         lowPrice = ParseFloat (jsOr (property message ''low_price'') (JNum 0)),
         settlementPrice = ParseFloat (jsOr (property message ''settlement_price'') (JNum 0)),
         RithmicMarketData.timestamp = Lit (of_nat now)\<rparr>"

definition handleMarketDataUpdate :: "nat \<Rightarrow> jsval \<Rightarrow> RithmicAPI \<Rightarrow> (error + unit) \<times> RithmicAPI" where
  "handleMarketDataUpdate now message this =
     (let marketData = marketDataOf now message
      in invoke (marketDataCallbacks this) (MarketData marketData) this)"

definition handleAccountUpdate :: "jsval \<Rightarrow> RithmicAPI \<Rightarrow> (error + unit) \<times> RithmicAPI" where
  "handleAccountUpdate message this =
     (let acct =
        \<lparr>RithmicAccount.accountId = Val (jsOr (property message ''account_id'') (JStr [])),
         netLiquidationValue = ParseFloat (jsOr (property message ''net_liquidation_value'') (JNum 0)),
         totalCashValue = ParseFloat (jsOr (property message ''total_cash_value'') (JNum 0)),
         RithmicAccount.buyingPower = ParseFloat (jsOr (property message ''buying_power'') (JNum 0)),
         maintenanceMargin = ParseFloat (jsOr (property message ''maintenance_margin'') (JNum 0)),
         initialMargin = ParseFloat (jsOr (property message ''initial_margin'') (JNum 0)),
         availableFunds = ParseFloat (jsOr (property message ''available_funds'') (JNum 0)),
         excessLiquidity = ParseFloat (jsOr (property message ''excess_liquidity'') (JNum 0))\<rparr>
      in invoke (accountUpdateCallbacks this) (AccountUpdate acct) this)"

definition handleOrderUpdate :: "jsval \<Rightarrow> RithmicAPI \<Rightarrow> (error + unit) \<times> RithmicAPI" where
  "handleOrderUpdate message this = invoke (orderUpdateCallbacks this) (OrderUpdate message) this"

text \<open>\<open>handlePositionUpdate\<close> only logs.\<close>

definition handlePositionUpdate :: "jsval \<Rightarrow> RithmicAPI \<Rightarrow> RithmicAPI" where
  "handlePositionUpdate message this = this"

definition handleMessage :: "nat \<Rightarrow> jsval \<Rightarrow> RithmicAPI \<Rightarrow> (error + unit) \<times> RithmicAPI" where
  "handleMessage now message this =
     (if nullish message then (Inl TypeError, this)
      else if property message ''template_id'' = JNum 11 then handleLoginResponse message this
      else if property message ''template_id'' = JNum 150 then handleMarketDataUpdate now message this
      else if property message ''template_id'' = JNum 101 then handleAccountUpdate message this
      else if property message ''template_id'' = JNum 102 then handleOrderUpdate message this
      else if property message ''template_id'' = JNum 103 then (Inr (), handlePositionUpdate message this)
      else (Inr (), this))"

definition RithmicAPI_subscribeMarketData :: "string \<Rightarrow> string \<Rightarrow> RithmicAPI \<Rightarrow> (error + unit) \<times> RithmicAPI" where
  "RithmicAPI_subscribeMarketData smb exch this =
     (if \<not> connected this then (Inl (Error ''Not connected to Rithmic''), this)
      else (Inr (), RithmicAPI_sendMessage
                      (JObj [(''template_id'', JNum 100), (''user_msg'', JArr [JStr smb, JStr exch])]) this))"

text \<open>
  \<open>numberToString\<close> is the runtime's rendering of a number (\<open>quantity.toString()\<close>); it
  is a parameter.  A missing price is the empty string, as a rendering that is empty
  would be.  The object \<open>placeOrder\<close> returns has the one property \<open>orderId\<close>.
\<close>

definition orderMessage :: "(rat \<Rightarrow> string) \<Rightarrow> RithmicOrderRequest \<Rightarrow> jsval" where
  "orderMessage numberToString order =
     JObj [(''template_id'', JNum 300),
           (''user_msg'', JArr [JStr (RithmicOrderRequest.symbol order),
                                JStr (RithmicOrderRequest.exchange order),
                                JStr (sideStr (RithmicOrderRequest.side order)),
                                JStr (numberToString (RithmicOrderRequest.quantity order)),
                                JStr (orderTypeStr (RithmicOrderRequest.orderType order)),
                                JStr (case RithmicOrderRequest.price order of None \<Rightarrow> [] | Some p \<Rightarrow> numberToString p),
                                JStr (case RithmicOrderRequest.stopPrice order of None \<Rightarrow> [] | Some p \<Rightarrow> numberToString p),
                                JStr (timeInForceStr (RithmicOrderRequest.timeInForce order)),
                                JStr (case account order of None \<Rightarrow> [] | Some a \<Rightarrow> a)])]"

definition RithmicAPI_placeOrder ::
  "(rat \<Rightarrow> string) \<Rightarrow> nat \<Rightarrow> RithmicOrderRequest \<Rightarrow> RithmicAPI \<Rightarrow> (error + jsval) \<times> RithmicAPI" where
  "RithmicAPI_placeOrder numberToString now order this =
     (if \<not> connected this then (Inl (Error ''Not connected to Rithmic''), this)
      else (Inr (JObj [(''orderId'', JStr (toString now))]),
            RithmicAPI_sendMessage (orderMessage numberToString order) this))"

definition RithmicAPI_cancelOrder :: "string \<Rightarrow> RithmicAPI \<Rightarrow> (error + unit) \<times> RithmicAPI" where
  "RithmicAPI_cancelOrder order_id this =
     (if \<not> connected this then (Inl (Error ''Not connected to Rithmic''), this)
      else (Inr (), RithmicAPI_sendMessage
                      (JObj [(''template_id'', JNum 301), (''user_msg'', JArr [JStr order_id])]) this))"

definition RithmicAPI_handleReconnection :: "RithmicAPI \<Rightarrow> RithmicAPI" where
  "RithmicAPI_handleReconnection this =
     (if reconnectAttempts this < maxReconnectAttempts then
        let this1 = this\<lparr>reconnectAttempts := reconnectAttempts this + 1\<rparr>;
            delay = 2 ^ reconnectAttempts this1 * 1000
        in setTimeout delay [] this1
      else this)"

definition RithmicAPI_onopen :: "RithmicAPI \<Rightarrow> RithmicAPI" where
  "RithmicAPI_onopen this = RithmicAPI_authenticate this"

definition RithmicAPI_onmessage :: "nat \<Rightarrow> frame \<Rightarrow> RithmicAPI \<Rightarrow> RithmicAPI" where
  "RithmicAPI_onmessage now f this =
     (case parseMessage f of
        Inl e \<Rightarrow> this
      | Inr data \<Rightarrow> snd (handleMessage now data this))"

definition RithmicAPI_onclose :: "RithmicAPI \<Rightarrow> RithmicAPI" where
  "RithmicAPI_onclose this = RithmicAPI_handleReconnection (this\<lparr>connected := False\<rparr>)"

definition RithmicAPI_onAccountUpdate :: "RithmicUpdate callback \<Rightarrow> RithmicAPI \<Rightarrow> RithmicAPI" where
  "RithmicAPI_onAccountUpdate callback this = this\<lparr>accountUpdateCallbacks := accountUpdateCallbacks this @ [callback]\<rparr>"

definition RithmicAPI_onMarketData :: "RithmicUpdate callback \<Rightarrow> RithmicAPI \<Rightarrow> RithmicAPI" where
  "RithmicAPI_onMarketData callback this = this\<lparr>marketDataCallbacks := marketDataCallbacks this @ [callback]\<rparr>"

definition RithmicAPI_onOrderUpdate :: "RithmicUpdate callback \<Rightarrow> RithmicAPI \<Rightarrow> RithmicAPI" where
  "RithmicAPI_onOrderUpdate callback this = this\<lparr>orderUpdateCallbacks := orderUpdateCallbacks this @ [callback]\<rparr>"

definition RithmicAPI_disconnect :: "RithmicAPI \<Rightarrow> RithmicAPI" where
  "RithmicAPI_disconnect this =
     (case websocket this of
        None \<Rightarrow> this
      | Some h \<Rightarrow> (ws_close h this)\<lparr>websocket := None\<rparr>)
     \<lparr>connected := False, accountUpdateCallbacks := [], marketDataCallbacks := [], orderUpdateCallbacks := []\<rparr>"

definition RithmicAPI_isConnected :: "RithmicAPI \<Rightarrow> bool" where
  "RithmicAPI_isConnected this = connected this"

section \<open>Events\<close>

text \<open>
  What the browser does to an adapter between its method calls.  A socket opens only
  while it is connecting, delivers a frame only while it is open, and closes once; its
  handler runs after the change of state.  A pending timeout may fire: it is removed and
  its function reconnects.  Time is not modelled, so any pending timeout may be the next
  to fire.  An error event only reaches \<open>onerror\<close>, which logs.  What a handler throws is
  reported and lost; what it did before stays done.
\<close>

datatype browser_event =
    SocketOpen nat
  | SocketMessage nat frame
  | SocketClose nat
  | SocketError nat
  | TimerFires nat

definition ws_set :: "nat \<Rightarrow> readyState \<Rightarrow> ('ev, 'z) browser_scheme \<Rightarrow> ('ev, 'z) browser_scheme" where
  "ws_set h r w = w\<lparr>sockets := (sockets w)[h := (sockets w ! h)\<lparr>readyState := r\<rparr>]\<rparr>"

definition fired :: "nat \<Rightarrow> ('ev, 'z) browser_scheme \<Rightarrow> ('ev, 'z) browser_scheme" where
  "fired i w = w\<lparr>timers := take i (timers w) @ drop (Suc i) (timers w)\<rparr>"

definition TradingAPI_event :: "browser_event \<Rightarrow> TradingAPI \<Rightarrow> TradingAPI" where
  "TradingAPI_event e this =
     (case e of
        SocketOpen h \<Rightarrow>
          if ws_readyState h this = CONNECTING
          then snd (TradingAPI_onopen (captured (sockets this ! h)) (ws_set h OPEN this)) else this
      | SocketMessage h f \<Rightarrow>
          if ws_readyState h this = OPEN then TradingAPI_onmessage f this else this
      | SocketClose h \<Rightarrow>
          if ws_readyState h this \<noteq> CLOSED
          then TradingAPI_onclose (captured (sockets this ! h)) (ws_set h CLOSED this) else this
      | SocketError h \<Rightarrow> this
      | TimerFires i \<Rightarrow>
          if i < length (timers this)
          then snd (TradingAPI_connectMarketData (snd (timers this ! i)) (fired i this)) else this)"

definition CryptoAPI_event :: "nat \<Rightarrow> browser_event \<Rightarrow> CryptoAPI \<Rightarrow> CryptoAPI" where
  "CryptoAPI_event now e this =
     (case e of
        SocketOpen h \<Rightarrow>
          if ws_readyState h this = CONNECTING
          then snd (CryptoAPI_onopen now (captured (sockets this ! h)) (ws_set h OPEN this)) else this
      | SocketMessage h f \<Rightarrow>
          if ws_readyState h this = OPEN then CryptoAPI_onmessage now f this else this
      | SocketClose h \<Rightarrow>
          if ws_readyState h this \<noteq> CLOSED
          then CryptoAPI_onclose (captured (sockets this ! h)) (ws_set h CLOSED this) else this
      | SocketError h \<Rightarrow> this
      | TimerFires i \<Rightarrow>
          if i < length (timers this)
          then snd (CryptoAPI_connectMarketData (snd (timers this ! i)) (fired i this)) else this)"

definition RithmicAPI_event :: "nat \<Rightarrow> browser_event \<Rightarrow> RithmicAPI \<Rightarrow> RithmicAPI" where
  "RithmicAPI_event now e this =
     (case e of
        SocketOpen h \<Rightarrow>
          if ws_readyState h this = CONNECTING then RithmicAPI_onopen (ws_set h OPEN this) else this
      | SocketMessage h f \<Rightarrow>
          if ws_readyState h this = OPEN then RithmicAPI_onmessage now f this else this
      | SocketClose h \<Rightarrow>
          if ws_readyState h this \<noteq> CLOSED then RithmicAPI_onclose (ws_set h CLOSED this) else this
      | SocketError h \<Rightarrow> this
      | TimerFires i \<Rightarrow>
          if i < length (timers this) then snd (RithmicAPI_connect (fired i this)) else this)"

text \<open>
  The states an adapter can be in: the module's instance, after any number of method
  calls by the UI and events of the browser, in any order.
\<close>

inductive TradingAPI_reachable :: "TradingAPI \<Rightarrow> bool" where
  T_new: "TradingAPI_reachable tradingAPI"
| T_configure: "TradingAPI_reachable s \<Longrightarrow> TradingAPI_reachable (TradingAPI_configure c s)"
| T_connectMarketData: "TradingAPI_reachable s \<Longrightarrow> TradingAPI_reachable (snd (TradingAPI_connectMarketData symbols s))"
| T_onMarketData: "TradingAPI_reachable s \<Longrightarrow> TradingAPI_reachable (TradingAPI_onMarketData callback s)"
| T_onOrderUpdate: "TradingAPI_reachable s \<Longrightarrow> TradingAPI_reachable (TradingAPI_onOrderUpdate callback s)"
| T_placeOrder: "TradingAPI_reachable s \<Longrightarrow> TradingAPI_reachable (snd (TradingAPI_placeOrder order reply s))"
| T_cancelOrder: "TradingAPI_reachable s \<Longrightarrow> TradingAPI_reachable (snd (TradingAPI_cancelOrder order_id reply s))"
| T_getAccount: "TradingAPI_reachable s \<Longrightarrow> TradingAPI_reachable (snd (TradingAPI_getAccount reply s))"
| T_getPositions: "TradingAPI_reachable s \<Longrightarrow> TradingAPI_reachable (snd (TradingAPI_getPositions reply s))"
| T_getOrders: "TradingAPI_reachable s \<Longrightarrow> TradingAPI_reachable (snd (TradingAPI_getOrders filter_status reply s))"
| T_disconnect: "TradingAPI_reachable s \<Longrightarrow> TradingAPI_reachable (TradingAPI_disconnect s)"
| T_event: "TradingAPI_reachable s \<Longrightarrow> TradingAPI_reachable (TradingAPI_event e s)"

inductive CryptoAPI_reachable :: "CryptoAPI \<Rightarrow> bool" where
  C_new: "CryptoAPI_reachable cryptoAPI"
| C_configure: "CryptoAPI_reachable s \<Longrightarrow> CryptoAPI_reachable (CryptoAPI_configure c s)"
| C_connectMarketData: "CryptoAPI_reachable s \<Longrightarrow> CryptoAPI_reachable (snd (CryptoAPI_connectMarketData symbols s))"
| C_onMarketData: "CryptoAPI_reachable s \<Longrightarrow> CryptoAPI_reachable (CryptoAPI_onMarketData callback s)"
| C_onOrderUpdate: "CryptoAPI_reachable s \<Longrightarrow> CryptoAPI_reachable (CryptoAPI_onOrderUpdate callback s)"
| C_placeOrder: "CryptoAPI_reachable s \<Longrightarrow> CryptoAPI_reachable (snd (CryptoAPI_placeOrder now order reply s))"
| C_getAccount: "CryptoAPI_reachable s \<Longrightarrow> CryptoAPI_reachable (snd (CryptoAPI_getAccount now reply s))"
| C_getPositions: "CryptoAPI_reachable s \<Longrightarrow> CryptoAPI_reachable (snd (CryptoAPI_getPositions now reply s))"
| C_disconnect: "CryptoAPI_reachable s \<Longrightarrow> CryptoAPI_reachable (CryptoAPI_disconnect s)"
| C_event: "CryptoAPI_reachable s \<Longrightarrow> CryptoAPI_reachable (CryptoAPI_event now e s)"

inductive RithmicAPI_reachable :: "RithmicAPI \<Rightarrow> bool" where
  R_new: "RithmicAPI_reachable rithmicAPI"
| R_configure: "RithmicAPI_reachable s \<Longrightarrow> RithmicAPI_reachable (RithmicAPI_configure c s)"
| R_connect: "RithmicAPI_reachable s \<Longrightarrow> RithmicAPI_reachable (snd (RithmicAPI_connect s))"
| R_subscribeMarketData: "RithmicAPI_reachable s \<Longrightarrow> RithmicAPI_reachable (snd (RithmicAPI_subscribeMarketData smb exch s))"
| R_placeOrder: "RithmicAPI_reachable s \<Longrightarrow> RithmicAPI_reachable (snd (RithmicAPI_placeOrder numberToString now order s))"
| R_cancelOrder: "RithmicAPI_reachable s \<Longrightarrow> RithmicAPI_reachable (snd (RithmicAPI_cancelOrder order_id s))"
| R_onAccountUpdate: "RithmicAPI_reachable s \<Longrightarrow> RithmicAPI_reachable (RithmicAPI_onAccountUpdate callback s)"
| R_onMarketData: "RithmicAPI_reachable s \<Longrightarrow> RithmicAPI_reachable (RithmicAPI_onMarketData callback s)"
| R_onOrderUpdate: "RithmicAPI_reachable s \<Longrightarrow> RithmicAPI_reachable (RithmicAPI_onOrderUpdate callback s)"
| R_disconnect: "RithmicAPI_reachable s \<Longrightarrow> RithmicAPI_reachable (RithmicAPI_disconnect s)"
| R_event: "RithmicAPI_reachable s \<Longrightarrow> RithmicAPI_reachable (RithmicAPI_event now e s)"

text \<open>The handles of the sockets that are connecting or open.\<close>

definition alive :: "WebSocket \<Rightarrow> bool" where
  "alive k = (readyState k = CONNECTING \<or> readyState k = OPEN)"

definition live_sessions :: "('ev, 'z) browser_scheme \<Rightarrow> nat list" where
  "live_sessions w = filter (\<lambda>h. alive (sockets w ! h)) [0..<length (sockets w)]"

text \<open>Every socket that is connecting or open is the one the adapter holds.\<close>

definition sole_session :: "('cfg, 'ev, 'ou, 'z) adapter_scheme \<Rightarrow> bool" where
  "sole_session s = (\<forall>h < length (sockets s). alive (sockets s ! h) \<longrightarrow> websocket s = Some h)"

section \<open>Scenarios\<close>

text \<open>
  \<open>n\<close> connection failures in a row: the close handler runs, the delay it asked
  \<open>setTimeout\<close> for (if it asked) is recorded, and that timeout fires, which reconnects;
  no socket opens in between.  The result is the delays asked for, in order, and the
  state after the last failure.
\<close>

fun TradingAPI_failures :: "nat \<Rightarrow> string list \<Rightarrow> TradingAPI \<Rightarrow> nat list \<times> TradingAPI" where
  "TradingAPI_failures 0 symbols s = ([], s)"
| "TradingAPI_failures (Suc n) symbols s =
     (let s1 = TradingAPI_onclose symbols s;
          asked = map fst (drop (length (timers s)) (timers s1));
          s2 = TradingAPI_event (TimerFires (length (timers s))) s1;
          r = TradingAPI_failures n symbols s2
      in (asked @ fst r, snd r))"

fun CryptoAPI_failures :: "nat \<Rightarrow> nat \<Rightarrow> string list \<Rightarrow> CryptoAPI \<Rightarrow> nat list \<times> CryptoAPI" where
  "CryptoAPI_failures 0 now symbols s = ([], s)"
| "CryptoAPI_failures (Suc n) now symbols s =
     (let s1 = CryptoAPI_onclose symbols s;
          asked = map fst (drop (length (timers s)) (timers s1));
          s2 = CryptoAPI_event now (TimerFires (length (timers s))) s1;
          r = CryptoAPI_failures n now symbols s2
      in (asked @ fst r, snd r))"

fun RithmicAPI_failures :: "nat \<Rightarrow> nat \<Rightarrow> RithmicAPI \<Rightarrow> nat list \<times> RithmicAPI" where
  "RithmicAPI_failures 0 now s = ([], s)"
| "RithmicAPI_failures (Suc n) now s =
     (let s1 = RithmicAPI_onclose s;
          asked = map fst (drop (length (timers s)) (timers s1));
          s2 = RithmicAPI_event now (TimerFires (length (timers s))) s1;
          r = RithmicAPI_failures n now s2
      in (asked @ fst r, snd r))"

text \<open>
  The delays of \<open>n\<close> failures in a row starting at attempt counter \<open>k\<close>:
  \<open>2 ^ attempt * 1000\<close> for the attempts \<open>k + 1\<close> to \<open>k + n\<close>, none beyond the fifth.
\<close>

definition backoff :: "nat \<Rightarrow> nat \<Rightarrow> nat list" where
  "backoff k n = map (\<lambda>attempt. 2 ^ attempt * 1000) [Suc k ..< Suc (min (k + n) 5)]"

text \<open>
  Configurations the examples use: entries of \<open>BROKER_CONFIGS\<close> and \<open>CRYPTO_CONFIGS\<close>
  (src/lib/broker-configs.ts) with credentials filled in, and a Rithmic login.
\<close>

definition alpaca_paper :: BrokerConfig where
  "alpaca_paper = \<lparr>BrokerConfig.name = ''alpaca'', BrokerConfig.apiKey = ''PK1'',
     BrokerConfig.secretKey = Some ''s3cr3t'', BrokerConfig.baseUrl = ''https://paper-api.alpaca.markets/v2'',
     sandbox = True, BrokerConfig.accountId = None\<rparr>"

definition polygon_live :: BrokerConfig where
  "polygon_live = \<lparr>BrokerConfig.name = ''polygon'', BrokerConfig.apiKey = ''PG1'',
     BrokerConfig.secretKey = None, BrokerConfig.baseUrl = ''https://api.polygon.io/v2'',
     sandbox = False, BrokerConfig.accountId = None\<rparr>"

definition bybit_testnet :: CryptoExchangeConfig where
  "bybit_testnet = \<lparr>CryptoExchangeConfig.name = ''bybit'', CryptoExchangeConfig.apiKey = ''BB1'',
     CryptoExchangeConfig.secretKey = ''s3cr3t'', passphrase = None,
     CryptoExchangeConfig.baseUrl = ''https://api-testnet.bybit.com'', testnet = True,
     CryptoExchangeConfig.leverage = None\<rparr>"

definition rithmic_login :: "string \<Rightarrow> RithmicConfig" where
  "rithmic_login gw = \<lparr>username = ''trader'', password = ''pw'', systemName = ''Rithmic Test'',
     appName = ''NEXUS'', appVersion = ''1.0'', environment = test, gateway = gw\<rparr>"

text \<open>
  Callbacks to register: one that returns on every event, and one that throws on every
  event.
\<close>

definition listener :: "nat \<Rightarrow> 'ev callback" where
  "listener k = \<lparr>ident = k, throws = (\<lambda>ev. None)\<rparr>"

definition faulty :: "nat \<Rightarrow> 'ev callback" where
  "faulty k = \<lparr>ident = k, throws = (\<lambda>ev. Some (Error ''listener failed''))\<rparr>"

text \<open>
  The callbacks of a list that a \<open>forEach\<close> over it reaches with an event: those before
  the first one that throws on that event, and that one.
\<close>

definition reached :: "'ev \<Rightarrow> 'ev callback list \<Rightarrow> 'ev callback list" where
  "reached ev cs = takeWhile (\<lambda>c. throws c ev = None) cs @ take 1 (dropWhile (\<lambda>c. throws c ev = None) cs)"

text \<open>
  The frames of a venue that its parser takes for data: the condition of the parser's
  \<open>if\<close>, read on a frame where reading it does not throw.  \<open>unreadable\<close> are the frames
  on which evaluating that condition throws: \<open>null\<close> and \<open>undefined\<close> have no
  properties (Kraken's parser asks \<open>Array.isArray\<close> first and reads no property of
  them), and Bybit's parser calls \<open>startsWith\<close> on whatever truthy \<open>topic\<close> it finds.
\<close>

definition isString :: "jsval \<Rightarrow> bool" where
  "isString v = (case v of JStr s \<Rightarrow> True | _ \<Rightarrow> False)"

definition dataFrame :: "string \<Rightarrow> jsval \<Rightarrow> bool" where
  "dataFrame venue d =
     (if venue = ''alpaca'' then property d ''T'' = JStr ''t''
      else if venue = ''polygon'' then property d ''ev'' = JStr ''T''
      else if venue = ''finnhub'' then property d ''type'' = JStr ''trade''
      else if venue = ''bybit'' then
        (case property d ''topic'' of JStr topic \<Rightarrow> take (length ''tickers.'') topic = ''tickers.'' | _ \<Rightarrow> False)
        \<and> truthy (property d ''data'')
      else if venue = ''kucoin'' then
        property d ''type'' = JStr ''message'' \<and> property d ''topic'' = JStr ''/market/ticker:all''
        \<and> truthy (property d ''data'')
      else if venue = ''kraken'' then
        isArray d \<and> truthy (element d 1) \<and> element d 2 = JStr ''ticker''
      else if venue = ''crypto_com'' then
        property d ''method'' = JStr ''subscribe'' \<and> truthy (property d ''result'')
        \<and> truthy (property (property d ''result'') ''data'')
      else if venue = ''coinex'' then
        property d ''method'' = JStr ''state.update'' \<and> truthy (property d ''params'')
      else if venue = ''bitget'' then
        property d ''action'' = JStr ''snapshot'' \<and> truthy (property d ''arg'') \<and> truthy (property d ''data'')
      else False)"

definition unreadable :: "string \<Rightarrow> jsval \<Rightarrow> bool" where
  "unreadable venue d =
     (if venue = ''bybit'' then
        nullish d \<or> (truthy (property d ''topic'') \<and> \<not> isString (property d ''topic''))
      else if venue = ''alpaca'' \<or> venue = ''polygon'' \<or> venue = ''finnhub'' \<or> venue = ''kucoin''
              \<or> venue = ''crypto_com'' \<or> venue = ''coinex'' \<or> venue = ''bitget'' then nullish d
      else False)"

text \<open>The key set of the header object \<open>getAuthHeaders\<close> returns; none when it throws.\<close>

definition keySet :: "error + (string \<times> string) list \<Rightarrow> string set option" where
  "keySet r = (case r of Inl e \<Rightarrow> None | Inr hs \<Rightarrow> Some (fst ` set hs))"

section \<open>The socket store\<close>

lemma ws_close_fields [simp]:
  "timers (ws_close h w) = timers w" "fetched (ws_close h w) = fetched w" "delivered (ws_close h w) = delivered w"
  "length (sockets (ws_close h w)) = length (sockets w)"
  by (simp_all add: ws_close_def)

lemma ws_close_adapter [simp]:
  "config (ws_close h s) = config s" "websocket (ws_close h s) = websocket s"
  "marketDataCallbacks (ws_close h s) = marketDataCallbacks s"
  "orderUpdateCallbacks (ws_close h s) = orderUpdateCallbacks s"
  "reconnectAttempts (ws_close h s) = reconnectAttempts s"
  by (simp_all add: ws_close_def)

lemma ws_close_rithmic [simp]:
  "connected (ws_close h r) = connected r" "accountUpdateCallbacks (ws_close h r) = accountUpdateCallbacks r"
  by (simp_all add: ws_close_def)

lemma ws_new_fields [simp]:
  "timers (ws_new u y w) = timers w" "fetched (ws_new u y w) = fetched w" "delivered (ws_new u y w) = delivered w"
  "length (sockets (ws_new u y w)) = Suc (length (sockets w))"
  by (simp_all add: ws_new_def)

lemma ws_new_adapter [simp]:
  "config (ws_new u y s) = config s" "websocket (ws_new u y s) = websocket s"
  "marketDataCallbacks (ws_new u y s) = marketDataCallbacks s"
  "orderUpdateCallbacks (ws_new u y s) = orderUpdateCallbacks s"
  "reconnectAttempts (ws_new u y s) = reconnectAttempts s"
  by (simp_all add: ws_new_def)

lemma ws_new_rithmic [simp]:
  "connected (ws_new u y r) = connected r" "accountUpdateCallbacks (ws_new u y r) = accountUpdateCallbacks r"
  by (simp_all add: ws_new_def)

lemma ws_send_keeps:
  "ws_send h m s = Inr s' \<Longrightarrow>
     timers s' = timers s \<and> fetched s' = fetched s \<and> delivered s' = delivered s
     \<and> length (sockets s') = length (sockets s)
     \<and> config s' = config s \<and> websocket s' = websocket s
     \<and> marketDataCallbacks s' = marketDataCallbacks s \<and> orderUpdateCallbacks s' = orderUpdateCallbacks s
     \<and> reconnectAttempts s' = reconnectAttempts s"
  by (auto simp: ws_send_def split: if_splits readyState.splits)

section \<open>Backoff\<close>

lemma T_connect_keeps [simp]:
  "reconnectAttempts (snd (TradingAPI_connectMarketData y s)) = reconnectAttempts s"
  "timers (snd (TradingAPI_connectMarketData y s)) = timers s"
  by (simp_all add: TradingAPI_connectMarketData_def Let_def split: option.splits sum.splits)

lemma T_onclose_cases:
  "reconnectAttempts s < 5 \<Longrightarrow>
     timers (TradingAPI_onclose y s) = timers s @ [(2 ^ Suc (reconnectAttempts s) * 1000, y)] \<and>
     reconnectAttempts (TradingAPI_onclose y s) = Suc (reconnectAttempts s)"
  "\<not> reconnectAttempts s < 5 \<Longrightarrow>
     timers (TradingAPI_onclose y s) = timers s \<and> reconnectAttempts (TradingAPI_onclose y s) = reconnectAttempts s"
  by (simp_all add: TradingAPI_onclose_def TradingAPI_handleReconnection_def maxReconnectAttempts_def
      setTimeout_def Let_def)

lemma T_timer_fires:
  "reconnectAttempts (TradingAPI_event (TimerFires i) s) = reconnectAttempts s"
  "timers s = ts @ [x] \<Longrightarrow> timers (TradingAPI_event (TimerFires (length ts)) s) = ts"
  "timers s = ts \<Longrightarrow> timers (TradingAPI_event (TimerFires (length ts)) s) = ts"
  by (simp_all add: TradingAPI_event_def fired_def)

lemma T_failure_step:
  "TradingAPI_failures (Suc n) y s =
     ((if reconnectAttempts s < 5 then [2 ^ Suc (reconnectAttempts s) * 1000] else [])
        @ fst (TradingAPI_failures n y (TradingAPI_event (TimerFires (length (timers s))) (TradingAPI_onclose y s))),
      snd (TradingAPI_failures n y (TradingAPI_event (TimerFires (length (timers s))) (TradingAPI_onclose y s))))"
  by (simp add: Let_def T_onclose_cases)

lemma T_failures_backoff:
  "reconnectAttempts s = k \<Longrightarrow> k \<le> 5 \<Longrightarrow>
     fst (TradingAPI_failures n y s) = backoff k n
     \<and> reconnectAttempts (snd (TradingAPI_failures n y s)) = min (k + n) 5
     \<and> timers (snd (TradingAPI_failures n y s)) = timers s"
proof (induction n arbitrary: s k)
  case 0
  then show ?case by (simp add: backoff_def)
next
  case (Suc n)
  let ?s2 = "TradingAPI_event (TimerFires (length (timers s))) (TradingAPI_onclose y s)"
  show ?case
  proof (cases "k < 5")
    case True
    have c: "reconnectAttempts ?s2 = Suc k"
      using True Suc.prems by (simp add: T_timer_fires T_onclose_cases)
    have t: "timers ?s2 = timers s"
      using True Suc.prems by (simp add: T_timer_fires(2) T_onclose_cases)
    have le: "Suc k \<le> 5" using True by simp
    have ih: "fst (TradingAPI_failures n y ?s2) = backoff (Suc k) n
              \<and> reconnectAttempts (snd (TradingAPI_failures n y ?s2)) = min (Suc k + n) 5
              \<and> timers (snd (TradingAPI_failures n y ?s2)) = timers ?s2"
      by (rule Suc.IH [OF c le])
    have b: "backoff k (Suc n) = 2 ^ Suc k * 1000 # backoff (Suc k) n"
    proof -
      have lt: "Suc k < Suc (min (Suc k + n) 5)" using True by simp
      have "[Suc k ..< Suc (min (Suc k + n) 5)] = Suc k # [Suc (Suc k) ..< Suc (min (Suc k + n) 5)]"
        by (rule upt_conv_Cons [OF lt])
      then show ?thesis unfolding backoff_def by simp
    qed
    show ?thesis
      using True Suc.prems ih b t unfolding T_failure_step by simp
  next
    case False
    with Suc.prems have k5: "k = 5" by simp
    have c: "reconnectAttempts ?s2 = 5"
      using k5 Suc.prems by (simp add: T_timer_fires T_onclose_cases)
    have t: "timers ?s2 = timers s"
      using k5 Suc.prems by (simp add: T_timer_fires(3) T_onclose_cases)
    have ih: "fst (TradingAPI_failures n y ?s2) = backoff 5 n
              \<and> reconnectAttempts (snd (TradingAPI_failures n y ?s2)) = min (5 + n) 5
              \<and> timers (snd (TradingAPI_failures n y ?s2)) = timers ?s2"
      by (rule Suc.IH [OF c]) simp
    show ?thesis
      using k5 Suc.prems ih t unfolding T_failure_step by (simp add: backoff_def)
  qed
qed

lemma C_connect_keeps [simp]:
  "reconnectAttempts (snd (CryptoAPI_connectMarketData y s)) = reconnectAttempts s"
  "timers (snd (CryptoAPI_connectMarketData y s)) = timers s"
  by (simp_all add: CryptoAPI_connectMarketData_def Let_def split: option.splits sum.splits)

lemma C_onclose_cases:
  "reconnectAttempts s < 5 \<Longrightarrow>
     timers (CryptoAPI_onclose y s) = timers s @ [(2 ^ Suc (reconnectAttempts s) * 1000, y)] \<and>
     reconnectAttempts (CryptoAPI_onclose y s) = Suc (reconnectAttempts s)"
  "\<not> reconnectAttempts s < 5 \<Longrightarrow>
     timers (CryptoAPI_onclose y s) = timers s \<and> reconnectAttempts (CryptoAPI_onclose y s) = reconnectAttempts s"
  by (simp_all add: CryptoAPI_onclose_def CryptoAPI_handleReconnection_def maxReconnectAttempts_def
      setTimeout_def Let_def)

lemma C_timer_fires:
  "reconnectAttempts (CryptoAPI_event now (TimerFires i) s) = reconnectAttempts s"
  "timers s = ts @ [x] \<Longrightarrow> timers (CryptoAPI_event now (TimerFires (length ts)) s) = ts"
  "timers s = ts \<Longrightarrow> timers (CryptoAPI_event now (TimerFires (length ts)) s) = ts"
  by (simp_all add: CryptoAPI_event_def fired_def)

lemma C_failure_step:
  "CryptoAPI_failures (Suc n) now y s =
     ((if reconnectAttempts s < 5 then [2 ^ Suc (reconnectAttempts s) * 1000] else [])
        @ fst (CryptoAPI_failures n now y (CryptoAPI_event now (TimerFires (length (timers s))) (CryptoAPI_onclose y s))),
      snd (CryptoAPI_failures n now y (CryptoAPI_event now (TimerFires (length (timers s))) (CryptoAPI_onclose y s))))"
  by (simp add: Let_def C_onclose_cases)

lemma C_failures_backoff:
  "reconnectAttempts s = k \<Longrightarrow> k \<le> 5 \<Longrightarrow>
     fst (CryptoAPI_failures n now y s) = backoff k n
     \<and> reconnectAttempts (snd (CryptoAPI_failures n now y s)) = min (k + n) 5
     \<and> timers (snd (CryptoAPI_failures n now y s)) = timers s"
proof (induction n arbitrary: s k)
  case 0
  then show ?case by (simp add: backoff_def)
next
  case (Suc n)
  let ?s2 = "CryptoAPI_event now (TimerFires (length (timers s))) (CryptoAPI_onclose y s)"
  show ?case
  proof (cases "k < 5")
    case True
    have c: "reconnectAttempts ?s2 = Suc k"
      using True Suc.prems by (simp add: C_timer_fires C_onclose_cases)
    have t: "timers ?s2 = timers s"
      using True Suc.prems by (simp add: C_timer_fires(2) C_onclose_cases)
    have le: "Suc k \<le> 5" using True by simp
    have ih: "fst (CryptoAPI_failures n now y ?s2) = backoff (Suc k) n
              \<and> reconnectAttempts (snd (CryptoAPI_failures n now y ?s2)) = min (Suc k + n) 5
              \<and> timers (snd (CryptoAPI_failures n now y ?s2)) = timers ?s2"
      by (rule Suc.IH [OF c le])
    have b: "backoff k (Suc n) = 2 ^ Suc k * 1000 # backoff (Suc k) n"
    proof -
      have lt: "Suc k < Suc (min (Suc k + n) 5)" using True by simp
      have "[Suc k ..< Suc (min (Suc k + n) 5)] = Suc k # [Suc (Suc k) ..< Suc (min (Suc k + n) 5)]"
        by (rule upt_conv_Cons [OF lt])
      then show ?thesis unfolding backoff_def by simp
    qed
    show ?thesis
      using True Suc.prems ih b t unfolding C_failure_step by simp
  next
    case False
    with Suc.prems have k5: "k = 5" by simp
    have c: "reconnectAttempts ?s2 = 5"
      using k5 Suc.prems by (simp add: C_timer_fires C_onclose_cases)
    have t: "timers ?s2 = timers s"
      using k5 Suc.prems by (simp add: C_timer_fires(3) C_onclose_cases)
    have ih: "fst (CryptoAPI_failures n now y ?s2) = backoff 5 n
              \<and> reconnectAttempts (snd (CryptoAPI_failures n now y ?s2)) = min (5 + n) 5
              \<and> timers (snd (CryptoAPI_failures n now y ?s2)) = timers ?s2"
      by (rule Suc.IH [OF c]) simp
    show ?thesis
      using k5 Suc.prems ih t unfolding C_failure_step by (simp add: backoff_def)
  qed
qed

lemma R_connect_keeps [simp]:
  "reconnectAttempts (snd (RithmicAPI_connect s)) = reconnectAttempts s"
  "timers (snd (RithmicAPI_connect s)) = timers s"
  by (simp_all add: RithmicAPI_connect_def Let_def split: option.splits sum.splits)

lemma R_onclose_cases:
  "reconnectAttempts s < 5 \<Longrightarrow>
     timers (RithmicAPI_onclose s) = timers s @ [(2 ^ Suc (reconnectAttempts s) * 1000, [])] \<and>
     reconnectAttempts (RithmicAPI_onclose s) = Suc (reconnectAttempts s)"
  "\<not> reconnectAttempts s < 5 \<Longrightarrow>
     timers (RithmicAPI_onclose s) = timers s \<and> reconnectAttempts (RithmicAPI_onclose s) = reconnectAttempts s"
  by (simp_all add: RithmicAPI_onclose_def RithmicAPI_handleReconnection_def maxReconnectAttempts_def
      setTimeout_def Let_def)

lemma R_timer_fires:
  "reconnectAttempts (RithmicAPI_event now (TimerFires i) s) = reconnectAttempts s"
  "timers s = ts @ [x] \<Longrightarrow> timers (RithmicAPI_event now (TimerFires (length ts)) s) = ts"
  "timers s = ts \<Longrightarrow> timers (RithmicAPI_event now (TimerFires (length ts)) s) = ts"
  by (simp_all add: RithmicAPI_event_def fired_def)

lemma R_failure_step:
  "RithmicAPI_failures (Suc n) now s =
     ((if reconnectAttempts s < 5 then [2 ^ Suc (reconnectAttempts s) * 1000] else [])
        @ fst (RithmicAPI_failures n now (RithmicAPI_event now (TimerFires (length (timers s))) (RithmicAPI_onclose s))),
      snd (RithmicAPI_failures n now (RithmicAPI_event now (TimerFires (length (timers s))) (RithmicAPI_onclose s))))"
  by (simp add: Let_def R_onclose_cases)

lemma R_failures_backoff:
  "reconnectAttempts s = k \<Longrightarrow> k \<le> 5 \<Longrightarrow>
     fst (RithmicAPI_failures n now s) = backoff k n
     \<and> reconnectAttempts (snd (RithmicAPI_failures n now s)) = min (k + n) 5
     \<and> timers (snd (RithmicAPI_failures n now s)) = timers s"
proof (induction n arbitrary: s k)
  case 0
  then show ?case by (simp add: backoff_def)
next
  case (Suc n)
  let ?s2 = "RithmicAPI_event now (TimerFires (length (timers s))) (RithmicAPI_onclose s)"
  show ?case
  proof (cases "k < 5")
    case True
    have c: "reconnectAttempts ?s2 = Suc k"
      using True Suc.prems by (simp add: R_timer_fires R_onclose_cases)
    have t: "timers ?s2 = timers s"
      using True Suc.prems by (simp add: R_timer_fires(2) R_onclose_cases)
    have le: "Suc k \<le> 5" using True by simp
    have ih: "fst (RithmicAPI_failures n now ?s2) = backoff (Suc k) n
              \<and> reconnectAttempts (snd (RithmicAPI_failures n now ?s2)) = min (Suc k + n) 5
              \<and> timers (snd (RithmicAPI_failures n now ?s2)) = timers ?s2"
      by (rule Suc.IH [OF c le])
    have b: "backoff k (Suc n) = 2 ^ Suc k * 1000 # backoff (Suc k) n"
    proof -
      have lt: "Suc k < Suc (min (Suc k + n) 5)" using True by simp
      have "[Suc k ..< Suc (min (Suc k + n) 5)] = Suc k # [Suc (Suc k) ..< Suc (min (Suc k + n) 5)]"
        by (rule upt_conv_Cons [OF lt])
      then show ?thesis unfolding backoff_def by simp
    qed
    show ?thesis
      using True Suc.prems ih b t unfolding R_failure_step by simp
  next
    case False
    with Suc.prems have k5: "k = 5" by simp
    have c: "reconnectAttempts ?s2 = 5"
      using k5 Suc.prems by (simp add: R_timer_fires R_onclose_cases)
    have t: "timers ?s2 = timers s"
      using k5 Suc.prems by (simp add: R_timer_fires(3) R_onclose_cases)
    have ih: "fst (RithmicAPI_failures n now ?s2) = backoff 5 n
              \<and> reconnectAttempts (snd (RithmicAPI_failures n now ?s2)) = min (5 + n) 5
              \<and> timers (snd (RithmicAPI_failures n now ?s2)) = timers ?s2"
      by (rule Suc.IH [OF c]) simp
    show ?thesis
      using k5 Suc.prems ih t unfolding R_failure_step by (simp add: backoff_def)
  qed
qed

lemma backoff_take: "backoff 0 n = take n [2000, 4000, 8000, 16000, 32000]"
proof -
  consider "n = 0" | "n = 1" | "n = 2" | "n = 3" | "n = 4" | "5 \<le> n" by linarith
  then show ?thesis
    by cases (simp_all add: backoff_def upt_rec)
qed

lemma T_onopen_resets: "reconnectAttempts (snd (TradingAPI_onopen y s)) = 0"
  by (auto simp: TradingAPI_onopen_def TradingAPI_subscribeToSymbols_def dest: ws_send_keeps
      split: option.splits sum.splits)

lemma C_onopen_resets: "reconnectAttempts (snd (CryptoAPI_onopen now y s)) = 0"
  by (auto simp: CryptoAPI_onopen_def CryptoAPI_subscribeToSymbols_def dest: ws_send_keeps
      split: option.splits sum.splits)

lemma R_sendMessage_keeps [simp]:
  "reconnectAttempts (RithmicAPI_sendMessage m s) = reconnectAttempts s"
  "timers (RithmicAPI_sendMessage m s) = timers s"
  "config (RithmicAPI_sendMessage m s) = config s"
  "websocket (RithmicAPI_sendMessage m s) = websocket s"
  "connected (RithmicAPI_sendMessage m s) = connected s"
  "delivered (RithmicAPI_sendMessage m s) = delivered s"
  "fetched (RithmicAPI_sendMessage m s) = fetched s"
  "marketDataCallbacks (RithmicAPI_sendMessage m s) = marketDataCallbacks s"
  "orderUpdateCallbacks (RithmicAPI_sendMessage m s) = orderUpdateCallbacks s"
  "accountUpdateCallbacks (RithmicAPI_sendMessage m s) = accountUpdateCallbacks s"
  "length (sockets (RithmicAPI_sendMessage m s)) = length (sockets s)"
  by (auto simp: RithmicAPI_sendMessage_def ws_send_def split: option.splits sum.splits readyState.splits)

lemma R_login_resets:
  "reconnectAttempts (RithmicAPI_onmessage now
      (Text (Some (JObj [(''template_id'', JNum 11), (''rp_code'', JStr ''0'')]))) s) = 0"
  by (simp add: RithmicAPI_onmessage_def parseMessage_def JSON_parse_def handleMessage_def
      handleLoginResponse_def requestAccountInfo_def)

section \<open>The claims\<close>

text \<open>
  C1.  In each of the three adapters, connection failures in a row, counted from a state
  whose attempt counter is zero (as \<open>configure\<close> and a successful open leave it), ask for
  the delays 2000, 4000, 8000, 16000, 32000 ms, in that order: \<open>n\<close> failures ask for the
  first \<open>n\<close> of them, so the sixth failure and every later one ask for nothing.  After
  the fifth, a close sets no timeout and none is left pending, so nothing reconnects by
  itself.  A call of \<open>connectMarketData\<close> (\<open>connect\<close>) whose socket opens (for
  Rithmic: whose login is accepted) starts the sequence again.
\<close>

theorem reconnection_backoff:
  assumes "reconnectAttempts t = 0" and "reconnectAttempts c = 0" and "reconnectAttempts r = 0"
  shows
    "(fst (TradingAPI_failures n y t) = take n [2000, 4000, 8000, 16000, 32000]
      \<and> fst (CryptoAPI_failures n now y c) = take n [2000, 4000, 8000, 16000, 32000]
      \<and> fst (RithmicAPI_failures n now r) = take n [2000, 4000, 8000, 16000, 32000])
     \<and> (5 \<le> n \<longrightarrow>
          timers (TradingAPI_onclose y (snd (TradingAPI_failures n y t))) = timers t
          \<and> timers (CryptoAPI_onclose y (snd (CryptoAPI_failures n now y c))) = timers c
          \<and> timers (RithmicAPI_onclose (snd (RithmicAPI_failures n now r))) = timers r)
     \<and> (fst (TradingAPI_failures m y'
               (snd (TradingAPI_onopen y'
                  (snd (TradingAPI_connectMarketData y' (snd (TradingAPI_failures n y t)))))))
           = take m [2000, 4000, 8000, 16000, 32000]
         \<and> fst (CryptoAPI_failures m now y'
               (snd (CryptoAPI_onopen now y'
                  (snd (CryptoAPI_connectMarketData y' (snd (CryptoAPI_failures n now y c)))))))
           = take m [2000, 4000, 8000, 16000, 32000]
         \<and> fst (RithmicAPI_failures m now
               (RithmicAPI_onmessage now (Text (Some (JObj [(''template_id'', JNum 11), (''rp_code'', JStr ''0'')])))
                  (RithmicAPI_onopen (snd (RithmicAPI_connect (snd (RithmicAPI_failures n now r)))))))
           = take m [2000, 4000, 8000, 16000, 32000])"
proof -
  note T = T_failures_backoff [OF assms(1), of n y, simplified]
  note C = C_failures_backoff [OF assms(2), of n now y, simplified]
  note R = R_failures_backoff [OF assms(3), of n now, simplified]
  have delays: "fst (TradingAPI_failures n y t) = take n [2000, 4000, 8000, 16000, 32000]
      \<and> fst (CryptoAPI_failures n now y c) = take n [2000, 4000, 8000, 16000, 32000]
      \<and> fst (RithmicAPI_failures n now r) = take n [2000, 4000, 8000, 16000, 32000]"
    using T C R by (simp add: backoff_take)
  have spent: "5 \<le> n \<longrightarrow>
          timers (TradingAPI_onclose y (snd (TradingAPI_failures n y t))) = timers t
          \<and> timers (CryptoAPI_onclose y (snd (CryptoAPI_failures n now y c))) = timers c
          \<and> timers (RithmicAPI_onclose (snd (RithmicAPI_failures n now r))) = timers r"
    using T C R by (simp add: T_onclose_cases(2) C_onclose_cases(2) R_onclose_cases(2))
  have again: "fst (TradingAPI_failures m y' s1) = take m [2000, 4000, 8000, 16000, 32000]"
    if "reconnectAttempts s1 = 0" for s1
    using T_failures_backoff [OF that, of m y'] by (simp add: backoff_take)
  have againC: "fst (CryptoAPI_failures m now y' s1) = take m [2000, 4000, 8000, 16000, 32000]"
    if "reconnectAttempts s1 = 0" for s1
    using C_failures_backoff [OF that, of m now y'] by (simp add: backoff_take)
  have againR: "fst (RithmicAPI_failures m now s1) = take m [2000, 4000, 8000, 16000, 32000]"
    if "reconnectAttempts s1 = 0" for s1
    using R_failures_backoff [OF that, of m now] by (simp add: backoff_take)
  show ?thesis
    using delays spent again [OF T_onopen_resets] againC [OF C_onopen_resets] againR [OF R_login_resets]
    by blast
qed

theorem reconnection_backoff_witness:
  "reconnectAttempts (TradingAPI_configure alpaca_paper tradingAPI) = 0
   \<and> reconnectAttempts (CryptoAPI_configure bybit_testnet cryptoAPI) = 0
   \<and> reconnectAttempts (RithmicAPI_configure (rithmic_login ''login_agent_pnl'') rithmicAPI) = 0
   \<and> fst (TradingAPI_failures 6 [''SPY''] (TradingAPI_configure alpaca_paper tradingAPI))
       = [2000, 4000, 8000, 16000, 32000]
   \<and> fst (CryptoAPI_failures 6 1700000000000 [''SPY''] (CryptoAPI_configure bybit_testnet cryptoAPI))
       = [2000, 4000, 8000, 16000, 32000]
   \<and> fst (RithmicAPI_failures 6 1700000000000 (RithmicAPI_configure (rithmic_login ''login_agent_pnl'') rithmicAPI))
       = [2000, 4000, 8000, 16000, 32000]"
proof -
  have t: "reconnectAttempts (TradingAPI_configure alpaca_paper tradingAPI) = 0"
    by (simp add: TradingAPI_configure_def)
  have c: "reconnectAttempts (CryptoAPI_configure bybit_testnet cryptoAPI) = 0"
    by (simp add: CryptoAPI_configure_def)
  have r: "reconnectAttempts (RithmicAPI_configure (rithmic_login ''login_agent_pnl'') rithmicAPI) = 0"
    by (simp add: RithmicAPI_configure_def)
  show ?thesis
    using reconnection_backoff [OF t c r, where n = 6 and y = "[''SPY'']" and now = 1700000000000] t c r
    by simp
qed

section \<open>Disconnect\<close>

text \<open>
  What \<open>forEach\<close> leaves behind: the callbacks up to and including the first that throws
  have been invoked, in order, and nothing else of the state has changed.
\<close>

lemma snd_invoke:
  "snd (invoke cs ev w)
     = w\<lparr>delivered := delivered w @ map (\<lambda>c. (ident c, ev))
           (takeWhile (\<lambda>c. throws c ev = None) cs @ take 1 (dropWhile (\<lambda>c. throws c ev = None) cs))\<rparr>"
  by (induction cs arbitrary: w) (simp_all add: Let_def split: option.splits)

lemma fst_invoke:
  "fst (invoke cs ev w)
     = (case dropWhile (\<lambda>c. throws c ev = None) cs of [] \<Rightarrow> Inr () | c # _ \<Rightarrow> Inl (the (throws c ev)))"
  by (induction cs arbitrary: w) (simp_all add: Let_def split: option.splits)

lemma invoke_returns:
  "\<forall>c \<in> set cs. throws c ev = None \<Longrightarrow>
     invoke cs ev w = (Inr (), w\<lparr>delivered := delivered w @ map (\<lambda>c. (ident c, ev)) cs\<rparr>)"
  by (induction cs arbitrary: w) (simp_all add: Let_def)

lemma T_onmessage_nobody: "marketDataCallbacks s = [] \<Longrightarrow> TradingAPI_onmessage f s = s"
  by (simp add: TradingAPI_onmessage_def TradingAPI_handleMarketDataMessage_def
      split: sum.splits option.splits)

lemma C_onmessage_nobody: "marketDataCallbacks s = [] \<Longrightarrow> CryptoAPI_onmessage now f s = s"
  by (simp add: CryptoAPI_onmessage_def CryptoAPI_handleMarketDataMessage_def
      split: sum.splits option.splits)

lemma R_onmessage_nobody:
  "marketDataCallbacks s = [] \<Longrightarrow> orderUpdateCallbacks s = [] \<Longrightarrow> accountUpdateCallbacks s = [] \<Longrightarrow>
     delivered (RithmicAPI_onmessage now f s) = delivered s"
  by (simp add: RithmicAPI_onmessage_def handleMessage_def handleLoginResponse_def requestAccountInfo_def
      handleMarketDataUpdate_def handleAccountUpdate_def handleOrderUpdate_def
      handlePositionUpdate_def Let_def split: sum.splits)

text \<open>
  C2, as the code has it.  After \<open>disconnect()\<close>, in each of the three adapters: the
  socket the adapter held has been told to close (it is closing or closed) and the handle
  is cleared, \<open>isConnected()\<close> is false, every callback list is empty, and a frame that
  still arrives is delivered to no callback.  The attempt counter is left as it was:
  \<open>disconnect\<close> does not assign it.
\<close>

theorem disconnect_clears:
  "(websocket (TradingAPI_disconnect t) = None
    \<and> \<not> TradingAPI_isConnected (TradingAPI_disconnect t)
    \<and> (case websocket t of
          None \<Rightarrow> sockets (TradingAPI_disconnect t) = sockets t
        | Some h \<Rightarrow> ws_readyState h (TradingAPI_disconnect t) = CLOSING
                    \<or> ws_readyState h (TradingAPI_disconnect t) = CLOSED)
    \<and> marketDataCallbacks (TradingAPI_disconnect t) = []
    \<and> orderUpdateCallbacks (TradingAPI_disconnect t) = []
    \<and> delivered (TradingAPI_onmessage f (TradingAPI_disconnect t)) = delivered t
    \<and> reconnectAttempts (TradingAPI_disconnect t) = reconnectAttempts t)
   \<and> (websocket (CryptoAPI_disconnect c) = None
    \<and> \<not> CryptoAPI_isConnected (CryptoAPI_disconnect c)
    \<and> (case websocket c of
          None \<Rightarrow> sockets (CryptoAPI_disconnect c) = sockets c
        | Some h \<Rightarrow> ws_readyState h (CryptoAPI_disconnect c) = CLOSING
                    \<or> ws_readyState h (CryptoAPI_disconnect c) = CLOSED)
    \<and> marketDataCallbacks (CryptoAPI_disconnect c) = []
    \<and> orderUpdateCallbacks (CryptoAPI_disconnect c) = []
    \<and> delivered (CryptoAPI_onmessage now f (CryptoAPI_disconnect c)) = delivered c
    \<and> reconnectAttempts (CryptoAPI_disconnect c) = reconnectAttempts c)
   \<and> (websocket (RithmicAPI_disconnect r) = None
    \<and> \<not> RithmicAPI_isConnected (RithmicAPI_disconnect r)
    \<and> (case websocket r of
          None \<Rightarrow> sockets (RithmicAPI_disconnect r) = sockets r
        | Some h \<Rightarrow> ws_readyState h (RithmicAPI_disconnect r) = CLOSING
                    \<or> ws_readyState h (RithmicAPI_disconnect r) = CLOSED)
    \<and> marketDataCallbacks (RithmicAPI_disconnect r) = []
    \<and> orderUpdateCallbacks (RithmicAPI_disconnect r) = []
    \<and> accountUpdateCallbacks (RithmicAPI_disconnect r) = []
    \<and> delivered (RithmicAPI_onmessage now f (RithmicAPI_disconnect r)) = delivered r
    \<and> reconnectAttempts (RithmicAPI_disconnect r) = reconnectAttempts r)"
proof -
  have T: "websocket (TradingAPI_disconnect t) = None"
    "\<not> TradingAPI_isConnected (TradingAPI_disconnect t)"
    "marketDataCallbacks (TradingAPI_disconnect t) = []"
    "orderUpdateCallbacks (TradingAPI_disconnect t) = []"
    "delivered (TradingAPI_disconnect t) = delivered t"
    "reconnectAttempts (TradingAPI_disconnect t) = reconnectAttempts t"
    by (simp_all add: TradingAPI_disconnect_def TradingAPI_isConnected_def split: option.splits)
  have Ts: "case websocket t of
          None \<Rightarrow> sockets (TradingAPI_disconnect t) = sockets t
        | Some h \<Rightarrow> ws_readyState h (TradingAPI_disconnect t) = CLOSING
                    \<or> ws_readyState h (TradingAPI_disconnect t) = CLOSED"
    by (simp add: TradingAPI_disconnect_def ws_readyState_def ws_close_def closing_def split: option.splits)
  have C: "websocket (CryptoAPI_disconnect c) = None"
    "\<not> CryptoAPI_isConnected (CryptoAPI_disconnect c)"
    "marketDataCallbacks (CryptoAPI_disconnect c) = []"
    "orderUpdateCallbacks (CryptoAPI_disconnect c) = []"
    "delivered (CryptoAPI_disconnect c) = delivered c"
    "reconnectAttempts (CryptoAPI_disconnect c) = reconnectAttempts c"
    by (simp_all add: CryptoAPI_disconnect_def CryptoAPI_isConnected_def split: option.splits)
  have Cs: "case websocket c of
          None \<Rightarrow> sockets (CryptoAPI_disconnect c) = sockets c
        | Some h \<Rightarrow> ws_readyState h (CryptoAPI_disconnect c) = CLOSING
                    \<or> ws_readyState h (CryptoAPI_disconnect c) = CLOSED"
    by (simp add: CryptoAPI_disconnect_def ws_readyState_def ws_close_def closing_def split: option.splits)
  have R: "websocket (RithmicAPI_disconnect r) = None"
    "\<not> RithmicAPI_isConnected (RithmicAPI_disconnect r)"
    "marketDataCallbacks (RithmicAPI_disconnect r) = []"
    "orderUpdateCallbacks (RithmicAPI_disconnect r) = []"
    "accountUpdateCallbacks (RithmicAPI_disconnect r) = []"
    "delivered (RithmicAPI_disconnect r) = delivered r"
    "reconnectAttempts (RithmicAPI_disconnect r) = reconnectAttempts r"
    by (simp_all add: RithmicAPI_disconnect_def RithmicAPI_isConnected_def split: option.splits)
  have Rs: "case websocket r of
          None \<Rightarrow> sockets (RithmicAPI_disconnect r) = sockets r
        | Some h \<Rightarrow> ws_readyState h (RithmicAPI_disconnect r) = CLOSING
                    \<or> ws_readyState h (RithmicAPI_disconnect r) = CLOSED"
    by (simp add: RithmicAPI_disconnect_def ws_readyState_def ws_close_def closing_def split: option.splits)
  show ?thesis
    using T Ts C Cs R Rs
    by (simp add: T_onmessage_nobody C_onmessage_nobody R_onmessage_nobody)
qed

text \<open>
  C2 as stated fails on the counter.  Alpaca is configured and connected, the socket
  closes once (one reconnection is scheduled, the counter is 1), and the UI disconnects:
  the counter is still 1.  The same holds for the other two adapters.
\<close>

theorem disconnect_counter_counterexample:
  "reconnectAttempts (TradingAPI_disconnect (TradingAPI_event (SocketClose 0)
      (snd (TradingAPI_connectMarketData [''SPY''] (TradingAPI_configure alpaca_paper tradingAPI))))) = 1
   \<and> reconnectAttempts (CryptoAPI_disconnect (CryptoAPI_event 1700000000000 (SocketClose 0)
      (snd (CryptoAPI_connectMarketData [''BTCUSDT''] (CryptoAPI_configure bybit_testnet cryptoAPI))))) = 1
   \<and> reconnectAttempts (RithmicAPI_disconnect (RithmicAPI_event 1700000000000 (SocketClose 0)
      (snd (RithmicAPI_connect (RithmicAPI_configure (rithmic_login ''login_agent_pnl'') rithmicAPI))))) = 1"
  by (simp add: TradingAPI_disconnect_def TradingAPI_event_def TradingAPI_connectMarketData_def
      TradingAPI_configure_def tradingAPI_def TradingAPI_getWebSocketUrl_def alpaca_paper_def
      TradingAPI_onclose_def TradingAPI_handleReconnection_def
      CryptoAPI_disconnect_def CryptoAPI_event_def CryptoAPI_connectMarketData_def
      CryptoAPI_configure_def cryptoAPI_def CryptoAPI_getWebSocketUrl_def bybit_testnet_def
      CryptoAPI_onclose_def CryptoAPI_handleReconnection_def
      RithmicAPI_disconnect_def RithmicAPI_event_def RithmicAPI_connect_def
      RithmicAPI_configure_def rithmicAPI_def RithmicAPI_getWebSocketUrl_def rithmic_login_def
      RithmicAPI_onclose_def RithmicAPI_handleReconnection_def
      maxReconnectAttempts_def setTimeout_def hasFragment_def ws_new_def ws_close_def ws_set_def ws_readyState_def Let_def)

section \<open>One session at a time\<close>

lemma sole_same:
  "sockets s' = sockets s \<Longrightarrow> websocket s' = websocket s \<Longrightarrow> sole_session s \<Longrightarrow> sole_session s'"
  by (simp add: sole_session_def)

lemma sole_ws_close: "sole_session s \<Longrightarrow> sole_session (ws_close h s)"
  by (auto simp: sole_session_def ws_close_def closing_def alive_def nth_list_update)

lemma sole_ws_send: "ws_send h m s = Inr s' \<Longrightarrow> sole_session s \<Longrightarrow> sole_session s'"
  by (auto simp: sole_session_def ws_send_def alive_def nth_list_update split: if_splits readyState.splits)

lemma sole_ws_open:
  assumes "ws_readyState h s = CONNECTING" and "sole_session s"
  shows "sole_session (ws_set h OPEN s)"
  unfolding sole_session_def
proof (intro allI impI)
  fix k
  assume k: "k < length (sockets (ws_set h OPEN s))" and l: "alive (sockets (ws_set h OPEN s) ! k)"
  have hl: "h < length (sockets s)" "alive (sockets s ! h)"
    using assms(1) by (auto simp: ws_readyState_def alive_def split: if_splits)
  have "alive (sockets s ! k)"
    using k l hl by (cases "k = h") (auto simp: ws_set_def)
  then show "websocket (ws_set h OPEN s) = Some k"
    using assms(2) k by (simp add: sole_session_def ws_set_def)
qed

lemma sole_ws_closed:
  assumes "sole_session s"
  shows "sole_session (ws_set h CLOSED s)"
  unfolding sole_session_def
proof (intro allI impI)
  fix k
  assume k: "k < length (sockets (ws_set h CLOSED s))" and l: "alive (sockets (ws_set h CLOSED s) ! k)"
  have "alive (sockets s ! k)"
    using k l by (cases "k = h") (auto simp: ws_set_def alive_def)
  then show "websocket (ws_set h CLOSED s) = Some k"
    using assms k by (simp add: sole_session_def ws_set_def)
qed

lemma held_closed:
  assumes "sole_session s" and "websocket s = Some h" and "k < length (sockets s)"
  shows "\<not> alive (sockets (ws_close h s) ! k)"
proof (cases "k = h")
  case True
  then show ?thesis using assms(3) by (simp add: ws_close_def closing_def alive_def)
next
  case False
  have "\<not> alive (sockets s ! k)"
    using assms False by (auto simp: sole_session_def)
  then show ?thesis using False by (simp add: ws_close_def)
qed

lemma sole_reopen_held:
  assumes "sole_session s" and "websocket s = Some h"
  shows "sole_session ((ws_new u y (ws_close h s))\<lparr>websocket := Some (length (sockets s))\<rparr>)"
  unfolding sole_session_def
proof (intro allI impI)
  fix k
  let ?s' = "(ws_new u y (ws_close h s))\<lparr>websocket := Some (length (sockets s))\<rparr>"
  assume k: "k < length (sockets ?s')" and l: "alive (sockets ?s' ! k)"
  have "k = length (sockets s)"
  proof (rule ccontr)
    assume "k \<noteq> length (sockets s)"
    with k have lt: "k < length (sockets s)" by simp
    then have "sockets ?s' ! k = sockets (ws_close h s) ! k"
      by (simp add: ws_new_def nth_append)
    with l held_closed [OF assms lt] show False by simp
  qed
  then show "websocket ?s' = Some k" by simp
qed

lemma sole_reopen_none:
  assumes "sole_session s" and "websocket s = None"
  shows "sole_session ((ws_new u y s)\<lparr>websocket := Some (length (sockets s))\<rparr>)"
  unfolding sole_session_def
proof (intro allI impI)
  fix k
  let ?s' = "(ws_new u y s)\<lparr>websocket := Some (length (sockets s))\<rparr>"
  assume k: "k < length (sockets ?s')" and l: "alive (sockets ?s' ! k)"
  have "k = length (sockets s)"
  proof (rule ccontr)
    assume "k \<noteq> length (sockets s)"
    with k have lt: "k < length (sockets s)" by simp
    then have "sockets ?s' ! k = sockets s ! k"
      by (simp add: ws_new_def nth_append)
    with l assms lt show False by (auto simp: sole_session_def)
  qed
  then show "websocket ?s' = Some k" by simp
qed

lemma sole_released:
  assumes "sole_session s"
  shows "sole_session (case websocket s of None \<Rightarrow> s | Some h \<Rightarrow> (ws_close h s)\<lparr>websocket := None\<rparr>)"
proof (cases "websocket s")
  case None
  then show ?thesis using assms by simp
next
  case (Some h)
  have "\<forall>k < length (sockets s). \<not> alive (sockets (ws_close h s) ! k)"
    using held_closed [OF assms Some] by blast
  then show ?thesis using Some by (simp add: sole_session_def)
qed

lemma sole_live_sessions:
  assumes "sole_session s"
  shows "length (live_sessions s) \<le> 1 \<and> set (live_sessions s) \<subseteq> set_option (websocket s)"
proof -
  have sub: "set (live_sessions s) \<subseteq> set_option (websocket s)"
    using assms by (auto simp: live_sessions_def sole_session_def)
  have d: "distinct (live_sessions s)"
    by (simp add: live_sessions_def)
  have "card (set (live_sessions s)) \<le> 1"
  proof (cases "websocket s")
    case None
    with sub show ?thesis by simp
  next
    case (Some h)
    with sub have "set (live_sessions s) \<subseteq> {h}" by simp
    then have "card (set (live_sessions s)) \<le> card {h}" by (intro card_mono) simp_all
    then show ?thesis by simp
  qed
  with d have "length (live_sessions s) \<le> 1" by (simp add: distinct_card)
  with sub show ?thesis by simp
qed

lemma T_url_only_config:
  "config s' = config s \<Longrightarrow> TradingAPI_getWebSocketUrl s' = TradingAPI_getWebSocketUrl s"
  by (simp add: TradingAPI_getWebSocketUrl_def)

lemma T_connect_sole:
  assumes "sole_session s"
  shows "sole_session (snd (TradingAPI_connectMarketData y s))"
proof (cases "config s")
  case None
  then show ?thesis using assms by (simp add: TradingAPI_connectMarketData_def)
next
  case (Some c)
  show ?thesis
  proof (cases "websocket s")
    case None
    show ?thesis
    proof (cases "TradingAPI_getWebSocketUrl s")
      case (Inl e)
      then show ?thesis using assms Some None by (simp add: TradingAPI_connectMarketData_def)
    next
      case (Inr u)
      then show ?thesis
        using assms Some None sole_reopen_none [OF assms None] by (simp add: TradingAPI_connectMarketData_def)
    qed
  next
    case (Some h)
    have u: "TradingAPI_getWebSocketUrl (ws_close h s) = TradingAPI_getWebSocketUrl s"
      by (rule T_url_only_config) simp
    show ?thesis
    proof (cases "TradingAPI_getWebSocketUrl s")
      case (Inl e)
      then show ?thesis
        using \<open>config s = Some c\<close> Some u sole_ws_close [OF assms]
        by (simp add: TradingAPI_connectMarketData_def)
    next
      case (Inr v)
      then show ?thesis
        using \<open>config s = Some c\<close> Some u sole_ws_close [OF assms] sole_reopen_held [OF assms Some]
        by (simp add: TradingAPI_connectMarketData_def Let_def)
    qed
  qed
qed

lemma C_url_only_config:
  "config s' = config s \<Longrightarrow> CryptoAPI_getWebSocketUrl s' = CryptoAPI_getWebSocketUrl s"
  by (simp add: CryptoAPI_getWebSocketUrl_def)

lemma C_connect_sole:
  assumes "sole_session s"
  shows "sole_session (snd (CryptoAPI_connectMarketData y s))"
proof (cases "config s")
  case None
  then show ?thesis using assms by (simp add: CryptoAPI_connectMarketData_def)
next
  case (Some c)
  show ?thesis
  proof (cases "websocket s")
    case None
    show ?thesis
    proof (cases "CryptoAPI_getWebSocketUrl s")
      case (Inl e)
      then show ?thesis using assms Some None by (simp add: CryptoAPI_connectMarketData_def)
    next
      case (Inr u)
      then show ?thesis
        using assms Some None sole_reopen_none [OF assms None] by (simp add: CryptoAPI_connectMarketData_def)
    qed
  next
    case (Some h)
    have u: "CryptoAPI_getWebSocketUrl (ws_close h s) = CryptoAPI_getWebSocketUrl s"
      by (rule C_url_only_config) simp
    show ?thesis
    proof (cases "CryptoAPI_getWebSocketUrl s")
      case (Inl e)
      then show ?thesis
        using \<open>config s = Some c\<close> Some u sole_ws_close [OF assms]
        by (simp add: CryptoAPI_connectMarketData_def)
    next
      case (Inr v)
      then show ?thesis
        using \<open>config s = Some c\<close> Some u sole_ws_close [OF assms] sole_reopen_held [OF assms Some]
        by (simp add: CryptoAPI_connectMarketData_def Let_def)
    qed
  qed
qed

lemma R_url_only_config:
  "config s' = config s \<Longrightarrow> RithmicAPI_getWebSocketUrl s' = RithmicAPI_getWebSocketUrl s"
  by (simp add: RithmicAPI_getWebSocketUrl_def)

lemma R_connect_sole:
  assumes "sole_session s"
  shows "sole_session (snd (RithmicAPI_connect s))"
proof (cases "config s")
  case None
  then show ?thesis using assms by (simp add: RithmicAPI_connect_def)
next
  case (Some c)
  show ?thesis
  proof (cases "websocket s")
    case None
    show ?thesis
    proof (cases "RithmicAPI_getWebSocketUrl s")
      case (Inl e)
      then show ?thesis using assms Some None by (simp add: RithmicAPI_connect_def)
    next
      case (Inr u)
      then show ?thesis
        using assms Some None sole_reopen_none [OF assms None] by (simp add: RithmicAPI_connect_def)
    qed
  next
    case (Some h)
    have u: "RithmicAPI_getWebSocketUrl (ws_close h s) = RithmicAPI_getWebSocketUrl s"
      by (rule R_url_only_config) simp
    show ?thesis
    proof (cases "RithmicAPI_getWebSocketUrl s")
      case (Inl e)
      then show ?thesis
        using \<open>config s = Some c\<close> Some u sole_ws_close [OF assms]
        by (simp add: RithmicAPI_connect_def)
    next
      case (Inr v)
      then show ?thesis
        using \<open>config s = Some c\<close> Some u sole_ws_close [OF assms] sole_reopen_held [OF assms Some]
        by (simp add: RithmicAPI_connect_def Let_def)
    qed
  qed
qed

lemma T_subscribe_sole:
  assumes "sole_session s"
  shows "sole_session (snd (TradingAPI_subscribeToSymbols y s))"
proof (cases "TradingAPI_subscribeToSymbols y s = (Inr (), s) \<or> (\<exists>e. TradingAPI_subscribeToSymbols y s = (Inl e, s))")
  case True
  then show ?thesis using assms by auto
next
  case False
  then obtain h m s' where "ws_send h m s = Inr s'" and "snd (TradingAPI_subscribeToSymbols y s) = s'"
    by (auto simp: TradingAPI_subscribeToSymbols_def split: option.splits sum.splits)
  then show ?thesis using sole_ws_send assms by metis
qed

lemma T_onopen_sole: "sole_session s \<Longrightarrow> sole_session (snd (TradingAPI_onopen y s))"
  unfolding TradingAPI_onopen_def
  by (rule T_subscribe_sole) (simp add: sole_session_def)

lemma T_onmessage_keeps:
  "sockets (TradingAPI_onmessage f s) = sockets s \<and> websocket (TradingAPI_onmessage f s) = websocket s"
  by (simp add: TradingAPI_onmessage_def TradingAPI_handleMarketDataMessage_def snd_invoke
      split: sum.splits option.splits)

lemma T_onclose_keeps:
  "sockets (TradingAPI_onclose y s) = sockets s \<and> websocket (TradingAPI_onclose y s) = websocket s"
  by (simp add: TradingAPI_onclose_def TradingAPI_handleReconnection_def setTimeout_def Let_def)

lemma T_request_fetches:
  "snd (TradingAPI_makeApiRequest meth endpoint payload reply s) = s
   \<or> (\<exists>c. snd (TradingAPI_makeApiRequest meth endpoint payload reply s) = fetch c s)"
  by (auto simp: TradingAPI_makeApiRequest_def Let_def split: option.splits sum.splits reply.splits)

lemma T_request_keeps:
  "sockets (snd (TradingAPI_makeApiRequest meth endpoint payload reply s)) = sockets s
   \<and> websocket (snd (TradingAPI_makeApiRequest meth endpoint payload reply s)) = websocket s"
  using T_request_fetches [of meth endpoint payload reply s] by (auto simp: fetch_def)

lemma T_disconnect_sole: "sole_session s \<Longrightarrow> sole_session (TradingAPI_disconnect s)"
  unfolding TradingAPI_disconnect_def
  by (rule sole_same [OF _ _ sole_released]) simp_all

lemma T_event_sole:
  assumes "sole_session s"
  shows "sole_session (TradingAPI_event e s)"
proof (cases e)
  case (SocketOpen h)
  then show ?thesis
    using assms by (simp add: TradingAPI_event_def T_onopen_sole sole_ws_open)
next
  case (SocketMessage h f)
  then show ?thesis
    using assms T_onmessage_keeps [of f s] by (simp add: TradingAPI_event_def sole_session_def)
next
  case (SocketClose h)
  have "sole_session (TradingAPI_onclose y' (ws_set h CLOSED s))" for y'
    using T_onclose_keeps [of y' "ws_set h CLOSED s"] sole_ws_closed [OF assms, of h]
    by (simp add: sole_session_def)
  with SocketClose show ?thesis
    using assms by (simp add: TradingAPI_event_def)
next
  case (SocketError h)
  then show ?thesis using assms by (simp add: TradingAPI_event_def)
next
  case (TimerFires i)
  have "sole_session (fired i s)"
    using assms by (simp add: sole_session_def fired_def)
  then show ?thesis
    using TimerFires assms by (simp add: TradingAPI_event_def T_connect_sole)
qed

lemma C_subscribe_sole:
  assumes "sole_session s"
  shows "sole_session (snd (CryptoAPI_subscribeToSymbols now y s))"
proof (cases "CryptoAPI_subscribeToSymbols now y s = (Inr (), s) \<or> (\<exists>e. CryptoAPI_subscribeToSymbols now y s = (Inl e, s))")
  case True
  then show ?thesis using assms by auto
next
  case False
  then obtain h m s' where "ws_send h m s = Inr s'" and "snd (CryptoAPI_subscribeToSymbols now y s) = s'"
    by (auto simp: CryptoAPI_subscribeToSymbols_def split: option.splits sum.splits)
  then show ?thesis using sole_ws_send assms by metis
qed

lemma C_onopen_sole: "sole_session s \<Longrightarrow> sole_session (snd (CryptoAPI_onopen now y s))"
  unfolding CryptoAPI_onopen_def
  by (rule C_subscribe_sole) (simp add: sole_session_def)

lemma C_onmessage_keeps:
  "sockets (CryptoAPI_onmessage now f s) = sockets s \<and> websocket (CryptoAPI_onmessage now f s) = websocket s"
  by (simp add: CryptoAPI_onmessage_def CryptoAPI_handleMarketDataMessage_def snd_invoke
      split: sum.splits option.splits)

lemma C_onclose_keeps:
  "sockets (CryptoAPI_onclose y s) = sockets s \<and> websocket (CryptoAPI_onclose y s) = websocket s"
  by (simp add: CryptoAPI_onclose_def CryptoAPI_handleReconnection_def setTimeout_def Let_def)

lemma C_request_fetches:
  "snd (CryptoAPI_makeApiRequest now meth endpoint payload reply s) = s
   \<or> (\<exists>c. snd (CryptoAPI_makeApiRequest now meth endpoint payload reply s) = fetch c s)"
  by (auto simp: CryptoAPI_makeApiRequest_def Let_def split: option.splits sum.splits reply.splits)

lemma C_request_keeps:
  "sockets (snd (CryptoAPI_makeApiRequest now meth endpoint payload reply s)) = sockets s
   \<and> websocket (snd (CryptoAPI_makeApiRequest now meth endpoint payload reply s)) = websocket s"
  using C_request_fetches [of now meth endpoint payload reply s] by (auto simp: fetch_def)

lemma C_disconnect_sole: "sole_session s \<Longrightarrow> sole_session (CryptoAPI_disconnect s)"
  unfolding CryptoAPI_disconnect_def
  by (rule sole_same [OF _ _ sole_released]) simp_all

lemma C_event_sole:
  assumes "sole_session s"
  shows "sole_session (CryptoAPI_event now e s)"
proof (cases e)
  case (SocketOpen h)
  then show ?thesis
    using assms by (simp add: CryptoAPI_event_def C_onopen_sole sole_ws_open)
next
  case (SocketMessage h f)
  then show ?thesis
    using assms C_onmessage_keeps [of now f s] by (simp add: CryptoAPI_event_def sole_session_def)
next
  case (SocketClose h)
  have "sole_session (CryptoAPI_onclose y' (ws_set h CLOSED s))" for y'
    using C_onclose_keeps [of y' "ws_set h CLOSED s"] sole_ws_closed [OF assms, of h]
    by (simp add: sole_session_def)
  with SocketClose show ?thesis
    using assms by (simp add: CryptoAPI_event_def)
next
  case (SocketError h)
  then show ?thesis using assms by (simp add: CryptoAPI_event_def)
next
  case (TimerFires i)
  have "sole_session (fired i s)"
    using assms by (simp add: sole_session_def fired_def)
  then show ?thesis
    using TimerFires assms by (simp add: CryptoAPI_event_def C_connect_sole)
qed

lemma R_sendMessage_sole:
  assumes "sole_session s"
  shows "sole_session (RithmicAPI_sendMessage m s)"
proof (cases "RithmicAPI_sendMessage m s = s")
  case True
  then show ?thesis using assms by simp
next
  case False
  then obtain h s' where "ws_send h m s = Inr s'" and "RithmicAPI_sendMessage m s = s'"
    by (auto simp: RithmicAPI_sendMessage_def split: option.splits sum.splits if_splits)
  then show ?thesis using sole_ws_send assms by metis
qed

lemma R_onopen_sole: "sole_session s \<Longrightarrow> sole_session (RithmicAPI_onopen s)"
  by (simp add: RithmicAPI_onopen_def RithmicAPI_authenticate_def R_sendMessage_sole
      split: option.splits)

lemma R_login_sole: "sole_session s \<Longrightarrow> sole_session (snd (handleLoginResponse m s))"
proof -
  assume a: "sole_session s"
  have "sole_session (s\<lparr>connected := True, reconnectAttempts := 0\<rparr>)"
    using a by (simp add: sole_session_def)
  then show ?thesis
    using a by (simp add: handleLoginResponse_def requestAccountInfo_def R_sendMessage_sole)
qed

lemma R_handleMessage_sole: "sole_session s \<Longrightarrow> sole_session (snd (handleMessage now m s))"
  by (simp add: handleMessage_def R_login_sole handleMarketDataUpdate_def handleAccountUpdate_def
      handleOrderUpdate_def handlePositionUpdate_def Let_def)
     (simp add: sole_session_def snd_invoke)

lemma R_onmessage_sole: "sole_session s \<Longrightarrow> sole_session (RithmicAPI_onmessage now f s)"
  by (simp add: RithmicAPI_onmessage_def R_handleMessage_sole split: sum.splits)

lemma R_onclose_keeps:
  "sockets (RithmicAPI_onclose s) = sockets s \<and> websocket (RithmicAPI_onclose s) = websocket s"
  by (simp add: RithmicAPI_onclose_def RithmicAPI_handleReconnection_def setTimeout_def Let_def)

lemma R_disconnect_sole: "sole_session s \<Longrightarrow> sole_session (RithmicAPI_disconnect s)"
  unfolding RithmicAPI_disconnect_def
  by (rule sole_same [OF _ _ sole_released]) simp_all

lemma R_event_sole:
  assumes "sole_session s"
  shows "sole_session (RithmicAPI_event now e s)"
proof (cases e)
  case (SocketOpen h)
  then show ?thesis
    using assms by (simp add: RithmicAPI_event_def R_onopen_sole sole_ws_open)
next
  case (SocketMessage h f)
  then show ?thesis
    using assms by (simp add: RithmicAPI_event_def R_onmessage_sole)
next
  case (SocketClose h)
  have "sole_session (RithmicAPI_onclose (ws_set h CLOSED s))"
    using R_onclose_keeps [of "ws_set h CLOSED s"] sole_ws_closed [OF assms, of h]
    by (simp add: sole_session_def)
  with SocketClose show ?thesis
    using assms by (simp add: RithmicAPI_event_def)
next
  case (SocketError h)
  then show ?thesis using assms by (simp add: RithmicAPI_event_def)
next
  case (TimerFires i)
  have "sole_session (fired i s)"
    using assms by (simp add: sole_session_def fired_def)
  then show ?thesis
    using TimerFires assms by (simp add: RithmicAPI_event_def R_connect_sole)
qed

lemma snd_andThen [simp]: "snd (andThen m f) = snd m"
  by (simp add: andThen_def split: prod.splits sum.splits)

lemma T_reachable_sole: "TradingAPI_reachable s \<Longrightarrow> sole_session s"
proof (induction rule: TradingAPI_reachable.induct)
  case T_new
  show ?case by (simp add: sole_session_def tradingAPI_def)
next
  case (T_configure s c)
  then show ?case by (simp add: sole_session_def TradingAPI_configure_def)
next
  case (T_connectMarketData s symbols)
  then show ?case by (simp add: T_connect_sole)
next
  case (T_onMarketData s callback)
  then show ?case by (simp add: sole_session_def TradingAPI_onMarketData_def)
next
  case (T_onOrderUpdate s callback)
  then show ?case by (simp add: sole_session_def TradingAPI_onOrderUpdate_def)
next
  case (T_placeOrder s order reply)
  then show ?case
    using T_request_keeps [of "''POST''" "''/orders''" "Some (orderJSON order)" reply s]
    by (simp add: sole_session_def TradingAPI_placeOrder_def split: option.splits)
next
  case (T_cancelOrder s order_id reply)
  then show ?case
    using T_request_keeps [of "''DELETE''" "''/orders/'' @ order_id" None reply s]
    by (simp add: sole_session_def TradingAPI_cancelOrder_def split: option.splits)
next
  case (T_getAccount s reply)
  then show ?case
    using T_request_keeps [of "''GET''" "''/account''" None reply s]
    by (simp add: sole_session_def TradingAPI_getAccount_def split: option.splits)
next
  case (T_getPositions s reply)
  then show ?case
    using T_request_keeps [of "''GET''" "''/positions''" None reply s]
    by (simp add: sole_session_def TradingAPI_getPositions_def split: option.splits)
next
  case (T_getOrders s filter_status reply)
  then show ?case
    using T_request_keeps [of "''GET''" _ None reply s]
    by (simp add: sole_session_def TradingAPI_getOrders_def Let_def split: option.splits)
next
  case (T_disconnect s)
  then show ?case by (simp add: T_disconnect_sole)
next
  case (T_event s e)
  then show ?case by (simp add: T_event_sole)
qed

lemma C_reachable_sole: "CryptoAPI_reachable s \<Longrightarrow> sole_session s"
proof (induction rule: CryptoAPI_reachable.induct)
  case C_new
  show ?case by (simp add: sole_session_def cryptoAPI_def)
next
  case (C_configure s c)
  then show ?case by (simp add: sole_session_def CryptoAPI_configure_def)
next
  case (C_connectMarketData s symbols)
  then show ?case by (simp add: C_connect_sole)
next
  case (C_onMarketData s callback)
  then show ?case by (simp add: sole_session_def CryptoAPI_onMarketData_def)
next
  case (C_onOrderUpdate s callback)
  then show ?case by (simp add: sole_session_def CryptoAPI_onOrderUpdate_def)
next
  case (C_placeOrder s now order reply)
  then show ?case
    using C_request_keeps [of now "''POST''" "''/order''" "Some (cryptoOrderJSON order)" reply s]
    by (simp add: sole_session_def CryptoAPI_placeOrder_def split: option.splits)
next
  case (C_getAccount s now reply)
  then show ?case
    using C_request_keeps [of now "''GET''" "''/account''" None reply s]
    by (simp add: sole_session_def CryptoAPI_getAccount_def split: option.splits)
next
  case (C_getPositions s now reply)
  then show ?case
    using C_request_keeps [of now "''GET''" "''/positions''" None reply s]
    by (simp add: sole_session_def CryptoAPI_getPositions_def split: option.splits)
next
  case (C_disconnect s)
  then show ?case by (simp add: C_disconnect_sole)
next
  case (C_event s now e)
  then show ?case by (simp add: C_event_sole)
qed

lemma R_reachable_sole: "RithmicAPI_reachable s \<Longrightarrow> sole_session s"
proof (induction rule: RithmicAPI_reachable.induct)
  case R_new
  show ?case by (simp add: sole_session_def rithmicAPI_def)
next
  case (R_configure s c)
  then show ?case by (simp add: sole_session_def RithmicAPI_configure_def)
next
  case (R_connect s)
  then show ?case by (simp add: R_connect_sole)
next
  case (R_subscribeMarketData s smb exch)
  then show ?case by (simp add: RithmicAPI_subscribeMarketData_def R_sendMessage_sole)
next
  case (R_placeOrder s numberToString now order)
  then show ?case by (simp add: RithmicAPI_placeOrder_def R_sendMessage_sole)
next
  case (R_cancelOrder s order_id)
  then show ?case by (simp add: RithmicAPI_cancelOrder_def R_sendMessage_sole)
next
  case (R_onAccountUpdate s callback)
  then show ?case by (simp add: sole_session_def RithmicAPI_onAccountUpdate_def)
next
  case (R_onMarketData s callback)
  then show ?case by (simp add: sole_session_def RithmicAPI_onMarketData_def)
next
  case (R_onOrderUpdate s callback)
  then show ?case by (simp add: sole_session_def RithmicAPI_onOrderUpdate_def)
next
  case (R_disconnect s)
  then show ?case by (simp add: R_disconnect_sole)
next
  case (R_event s now e)
  then show ?case by (simp add: R_event_sole)
qed
lemma none_alive: "\<forall>k < length (sockets w). \<not> alive (sockets w ! k) \<Longrightarrow> live_sessions w = []"
  by (simp add: live_sessions_def filter_empty_conv)

lemma live_new:
  assumes "\<forall>k < length (sockets w). \<not> alive (sockets w ! k)"
  shows "live_sessions ((ws_new u y w)\<lparr>websocket := x\<rparr>) = [length (sockets w)]"
proof -
  have "filter (\<lambda>h. alive ((sockets w @ [\<lparr>url = u, readyState = CONNECTING, captured = y, sent = []\<rparr>]) ! h))
          [0..<length (sockets w)] = []"
    using assms by (simp add: filter_empty_conv nth_append)
  then show ?thesis
    by (simp add: live_sessions_def ws_new_def alive_def)
qed

lemma T_connect_live:
  assumes "sole_session s" and "config s = Some c"
  shows "live_sessions (snd (TradingAPI_connectMarketData y s))
         = (if fst (TradingAPI_connectMarketData y s) = Inr () then [length (sockets s)] else [])"
proof -
  define s1 where "s1 = (case websocket s of None \<Rightarrow> s | Some h \<Rightarrow> ws_close h s)"
  have len: "length (sockets s1) = length (sockets s)"
    by (simp add: s1_def split: option.splits)
  have dead: "\<forall>k < length (sockets s1). \<not> alive (sockets s1 ! k)"
  proof (cases "websocket s")
    case None
    then show ?thesis using assms(1) by (auto simp: s1_def sole_session_def)
  next
    case (Some h)
    then show ?thesis using held_closed [OF assms(1) Some] by (simp add: s1_def)
  qed
  have u: "TradingAPI_getWebSocketUrl s1 = TradingAPI_getWebSocketUrl s"
    by (rule T_url_only_config) (simp add: s1_def split: option.splits)
  have "TradingAPI_connectMarketData y s =
      (case TradingAPI_getWebSocketUrl s1 of
         Inl e \<Rightarrow> (Inl e, s1)
       | Inr wsUrl \<Rightarrow>
           if hasFragment wsUrl then (Inl SyntaxError, s1)
           else (Inr (), (ws_new wsUrl y s1)\<lparr>websocket := Some (length (sockets s1))\<rparr>))"
    unfolding TradingAPI_connectMarketData_def Let_def s1_def using assms(2) by simp
  then have unfold: "TradingAPI_connectMarketData y s =
      (case TradingAPI_getWebSocketUrl s of
         Inl e \<Rightarrow> (Inl e, s1)
       | Inr wsUrl \<Rightarrow>
           if hasFragment wsUrl then (Inl SyntaxError, s1)
           else (Inr (), (ws_new wsUrl y s1)\<lparr>websocket := Some (length (sockets s))\<rparr>))"
    unfolding u len .
  show ?thesis
  proof (cases "TradingAPI_getWebSocketUrl s")
    case (Inl e)
    then show ?thesis using unfold none_alive [OF dead] by simp
  next
    case (Inr wsUrl)
    then show ?thesis
      using unfold none_alive [OF dead] live_new [OF dead, where u = wsUrl and y = "y"] len by simp
  qed
qed

lemma C_connect_live:
  assumes "sole_session s" and "config s = Some c"
  shows "live_sessions (snd (CryptoAPI_connectMarketData y s))
         = (if fst (CryptoAPI_connectMarketData y s) = Inr () then [length (sockets s)] else [])"
proof -
  define s1 where "s1 = (case websocket s of None \<Rightarrow> s | Some h \<Rightarrow> ws_close h s)"
  have len: "length (sockets s1) = length (sockets s)"
    by (simp add: s1_def split: option.splits)
  have dead: "\<forall>k < length (sockets s1). \<not> alive (sockets s1 ! k)"
  proof (cases "websocket s")
    case None
    then show ?thesis using assms(1) by (auto simp: s1_def sole_session_def)
  next
    case (Some h)
    then show ?thesis using held_closed [OF assms(1) Some] by (simp add: s1_def)
  qed
  have u: "CryptoAPI_getWebSocketUrl s1 = CryptoAPI_getWebSocketUrl s"
    by (rule C_url_only_config) (simp add: s1_def split: option.splits)
  have "CryptoAPI_connectMarketData y s =
      (case CryptoAPI_getWebSocketUrl s1 of
         Inl e \<Rightarrow> (Inl e, s1)
       | Inr wsUrl \<Rightarrow>
           if hasFragment wsUrl then (Inl SyntaxError, s1)
           else (Inr (), (ws_new wsUrl y s1)\<lparr>websocket := Some (length (sockets s1))\<rparr>))"
    unfolding CryptoAPI_connectMarketData_def Let_def s1_def using assms(2) by simp
  then have unfold: "CryptoAPI_connectMarketData y s =
      (case CryptoAPI_getWebSocketUrl s of
         Inl e \<Rightarrow> (Inl e, s1)
       | Inr wsUrl \<Rightarrow>
           if hasFragment wsUrl then (Inl SyntaxError, s1)
           else (Inr (), (ws_new wsUrl y s1)\<lparr>websocket := Some (length (sockets s))\<rparr>))"
    unfolding u len .
  show ?thesis
  proof (cases "CryptoAPI_getWebSocketUrl s")
    case (Inl e)
    then show ?thesis using unfold none_alive [OF dead] by simp
  next
    case (Inr wsUrl)
    then show ?thesis
      using unfold none_alive [OF dead] live_new [OF dead, where u = wsUrl and y = "y"] len by simp
  qed
qed

lemma R_connect_live:
  assumes "sole_session s" and "config s = Some c"
  shows "live_sessions (snd (RithmicAPI_connect s))
         = (if fst (RithmicAPI_connect s) = Inr () then [length (sockets s)] else [])"
proof -
  define s1 where "s1 = (case websocket s of None \<Rightarrow> s | Some h \<Rightarrow> ws_close h s)"
  have len: "length (sockets s1) = length (sockets s)"
    by (simp add: s1_def split: option.splits)
  have dead: "\<forall>k < length (sockets s1). \<not> alive (sockets s1 ! k)"
  proof (cases "websocket s")
    case None
    then show ?thesis using assms(1) by (auto simp: s1_def sole_session_def)
  next
    case (Some h)
    then show ?thesis using held_closed [OF assms(1) Some] by (simp add: s1_def)
  qed
  have u: "RithmicAPI_getWebSocketUrl s1 = RithmicAPI_getWebSocketUrl s"
    by (rule R_url_only_config) (simp add: s1_def split: option.splits)
  have "RithmicAPI_connect s =
      (case RithmicAPI_getWebSocketUrl s1 of
         Inl e \<Rightarrow> (Inl e, s1)
       | Inr wsUrl \<Rightarrow>
           if hasFragment wsUrl then (Inl SyntaxError, s1)
           else (Inr (), (ws_new wsUrl [] s1)\<lparr>websocket := Some (length (sockets s1))\<rparr>))"
    unfolding RithmicAPI_connect_def Let_def s1_def using assms(2) by simp
  then have unfold: "RithmicAPI_connect s =
      (case RithmicAPI_getWebSocketUrl s of
         Inl e \<Rightarrow> (Inl e, s1)
       | Inr wsUrl \<Rightarrow>
           if hasFragment wsUrl then (Inl SyntaxError, s1)
           else (Inr (), (ws_new wsUrl [] s1)\<lparr>websocket := Some (length (sockets s))\<rparr>))"
    unfolding u len .
  show ?thesis
  proof (cases "RithmicAPI_getWebSocketUrl s")
    case (Inl e)
    then show ?thesis using unfold none_alive [OF dead] by simp
  next
    case (Inr wsUrl)
    then show ?thesis
      using unfold none_alive [OF dead] live_new [OF dead, where u = wsUrl and y = "[]"] len by simp
  qed
qed

text \<open>
  C3, as the code has it.  In every state an adapter can reach, at most one of the
  sockets it created is connecting or open, and that one is the socket it holds.
  \<open>configure\<close> closes nothing: it leaves the sockets and the handle as they are.  It is
  the next \<open>connectMarketData\<close> (\<open>connect\<close>) of a configured adapter that closes the
  socket held before it creates the new one: afterwards the new socket is the only one
  that is connecting or open, and none is when the venue name has no URL.
\<close>

theorem one_session_at_a_time:
  assumes "TradingAPI_reachable t" and "CryptoAPI_reachable c" and "RithmicAPI_reachable r"
  shows
    "(length (live_sessions t) \<le> 1 \<and> set (live_sessions t) \<subseteq> set_option (websocket t)
      \<and> length (live_sessions c) \<le> 1 \<and> set (live_sessions c) \<subseteq> set_option (websocket c)
      \<and> length (live_sessions r) \<le> 1 \<and> set (live_sessions r) \<subseteq> set_option (websocket r))
     \<and> (sockets (TradingAPI_configure bc t) = sockets t \<and> websocket (TradingAPI_configure bc t) = websocket t
      \<and> sockets (CryptoAPI_configure cc c) = sockets c \<and> websocket (CryptoAPI_configure cc c) = websocket c
      \<and> sockets (RithmicAPI_configure rc r) = sockets r \<and> websocket (RithmicAPI_configure rc r) = websocket r)
     \<and> (config t \<noteq> None \<longrightarrow>
           live_sessions (snd (TradingAPI_connectMarketData y t))
           = (if fst (TradingAPI_connectMarketData y t) = Inr () then [length (sockets t)] else []))
     \<and> (config c \<noteq> None \<longrightarrow>
           live_sessions (snd (CryptoAPI_connectMarketData y c))
           = (if fst (CryptoAPI_connectMarketData y c) = Inr () then [length (sockets c)] else []))
     \<and> (config r \<noteq> None \<longrightarrow>
           live_sessions (snd (RithmicAPI_connect r))
           = (if fst (RithmicAPI_connect r) = Inr () then [length (sockets r)] else []))"
proof -
  note st = T_reachable_sole [OF assms(1)]
  note sc = C_reachable_sole [OF assms(2)]
  note sr = R_reachable_sole [OF assms(3)]
  have one: "length (live_sessions t) \<le> 1 \<and> set (live_sessions t) \<subseteq> set_option (websocket t)
      \<and> length (live_sessions c) \<le> 1 \<and> set (live_sessions c) \<subseteq> set_option (websocket c)
      \<and> length (live_sessions r) \<le> 1 \<and> set (live_sessions r) \<subseteq> set_option (websocket r)"
    using sole_live_sessions [OF st] sole_live_sessions [OF sc] sole_live_sessions [OF sr] by simp
  have conf: "sockets (TradingAPI_configure bc t) = sockets t \<and> websocket (TradingAPI_configure bc t) = websocket t
      \<and> sockets (CryptoAPI_configure cc c) = sockets c \<and> websocket (CryptoAPI_configure cc c) = websocket c
      \<and> sockets (RithmicAPI_configure rc r) = sockets r \<and> websocket (RithmicAPI_configure rc r) = websocket r"
    by (simp add: TradingAPI_configure_def CryptoAPI_configure_def RithmicAPI_configure_def)
  have ct: "config t \<noteq> None \<longrightarrow>
           live_sessions (snd (TradingAPI_connectMarketData y t))
           = (if fst (TradingAPI_connectMarketData y t) = Inr () then [length (sockets t)] else [])"
    using T_connect_live [OF st] by blast
  have cc: "config c \<noteq> None \<longrightarrow>
           live_sessions (snd (CryptoAPI_connectMarketData y c))
           = (if fst (CryptoAPI_connectMarketData y c) = Inr () then [length (sockets c)] else [])"
    using C_connect_live [OF sc] by blast
  have cr: "config r \<noteq> None \<longrightarrow>
           live_sessions (snd (RithmicAPI_connect r))
           = (if fst (RithmicAPI_connect r) = Inr () then [length (sockets r)] else [])"
    using R_connect_live [OF sr] by blast
  show ?thesis using one conf ct cc cr by blast
qed

text \<open>
  C3 as stated fails on \<open>configure\<close>.  Alpaca is configured and connected and its socket
  has opened; the UI then configures Polygon.  The Alpaca socket is still open, it is
  still the adapter's session, and \<open>isConnected()\<close> is still true.
\<close>

theorem configure_keeps_session_counterexample:
  "TradingAPI_isConnected
     (TradingAPI_configure polygon_live
        (TradingAPI_event (SocketOpen 0)
           (snd (TradingAPI_connectMarketData [''SPY''] (TradingAPI_configure alpaca_paper tradingAPI)))))
   \<and> live_sessions
        (TradingAPI_configure polygon_live
           (TradingAPI_event (SocketOpen 0)
              (snd (TradingAPI_connectMarketData [''SPY''] (TradingAPI_configure alpaca_paper tradingAPI))))) = [0]
   \<and> map url (sockets
        (TradingAPI_configure polygon_live
           (TradingAPI_event (SocketOpen 0)
              (snd (TradingAPI_connectMarketData [''SPY''] (TradingAPI_configure alpaca_paper tradingAPI))))))
       = [''wss://stream.data.sandbox.alpaca.markets/v2/iex'']"
  by (simp add: TradingAPI_isConnected_def TradingAPI_configure_def TradingAPI_event_def
      TradingAPI_connectMarketData_def TradingAPI_getWebSocketUrl_def TradingAPI_onopen_def
      TradingAPI_subscribeToSymbols_def TradingAPI_createSubscriptionMessage_def
      tradingAPI_def alpaca_paper_def polygon_live_def live_sessions_def alive_def
      hasFragment_def ws_new_def ws_set_def ws_send_def ws_readyState_def Let_def)

theorem one_session_at_a_time_witness:
  "TradingAPI_reachable
     (TradingAPI_event (SocketOpen 0)
        (snd (TradingAPI_connectMarketData [''SPY''] (TradingAPI_configure alpaca_paper tradingAPI))))
   \<and> CryptoAPI_reachable (CryptoAPI_configure bybit_testnet cryptoAPI)
   \<and> RithmicAPI_reachable (RithmicAPI_configure (rithmic_login ''login_agent_pnl'') rithmicAPI)
   \<and> live_sessions
        (TradingAPI_event (SocketOpen 0)
           (snd (TradingAPI_connectMarketData [''SPY''] (TradingAPI_configure alpaca_paper tradingAPI)))) = [0]
   \<and> live_sessions
        (snd (TradingAPI_connectMarketData [''QQQ'']
           (TradingAPI_event (SocketOpen 0)
              (snd (TradingAPI_connectMarketData [''SPY''] (TradingAPI_configure alpaca_paper tradingAPI)))))) = [1]
   \<and> live_sessions (snd (CryptoAPI_connectMarketData [''QQQ''] (CryptoAPI_configure bybit_testnet cryptoAPI))) = [0]
   \<and> live_sessions (snd (RithmicAPI_connect (RithmicAPI_configure (rithmic_login ''login_agent_pnl'') rithmicAPI))) = [0]"
proof -
  let ?t = "TradingAPI_event (SocketOpen 0)
        (snd (TradingAPI_connectMarketData [''SPY''] (TradingAPI_configure alpaca_paper tradingAPI)))"
  let ?c = "CryptoAPI_configure bybit_testnet cryptoAPI"
  let ?r = "RithmicAPI_configure (rithmic_login ''login_agent_pnl'') rithmicAPI"
  have t: "TradingAPI_reachable ?t"
    by (intro T_event T_connectMarketData T_configure T_new)
  have c: "CryptoAPI_reachable ?c"
    by (intro C_configure C_new)
  have r: "RithmicAPI_reachable ?r"
    by (intro R_configure R_new)
  have ev: "live_sessions ?t = [0] \<and> config ?t \<noteq> None \<and> sockets ?t \<noteq> [] \<and> length (sockets ?t) = 1
            \<and> fst (TradingAPI_connectMarketData [''QQQ''] ?t) = Inr ()"
    by (simp add: TradingAPI_configure_def TradingAPI_event_def
      TradingAPI_connectMarketData_def TradingAPI_getWebSocketUrl_def TradingAPI_onopen_def
      TradingAPI_subscribeToSymbols_def TradingAPI_createSubscriptionMessage_def
      tradingAPI_def alpaca_paper_def live_sessions_def alive_def
      hasFragment_def ws_new_def ws_set_def ws_send_def ws_close_def ws_readyState_def Let_def)
  have evc: "config ?c \<noteq> None \<and> sockets ?c = [] \<and> fst (CryptoAPI_connectMarketData [''QQQ''] ?c) = Inr ()"
    by (simp add: CryptoAPI_configure_def CryptoAPI_connectMarketData_def CryptoAPI_getWebSocketUrl_def
      cryptoAPI_def bybit_testnet_def hasFragment_def Let_def)
  have evr: "config ?r \<noteq> None \<and> sockets ?r = [] \<and> fst (RithmicAPI_connect ?r) = Inr ()"
    by (simp add: RithmicAPI_configure_def RithmicAPI_connect_def RithmicAPI_getWebSocketUrl_def
      rithmicAPI_def rithmic_login_def hasFragment_def Let_def)
  show ?thesis
    using one_session_at_a_time [OF t c r, where y = "[''QQQ'']"] t c r ev evc evr
    by simp
qed

section \<open>Calls before configure\<close>

lemma R_connect_config [simp]: "config (snd (RithmicAPI_connect s)) = config s"
  by (simp add: RithmicAPI_connect_def Let_def split: option.splits sum.splits)

lemma R_handleMessage_config [simp]: "config (snd (handleMessage now m s)) = config s"
  by (simp add: handleMessage_def handleLoginResponse_def requestAccountInfo_def
      handleMarketDataUpdate_def handleAccountUpdate_def handleOrderUpdate_def
      handlePositionUpdate_def snd_invoke Let_def)

lemma R_event_config [simp]: "config (RithmicAPI_event now e s) = config s"
  by (cases e)
     (simp_all add: RithmicAPI_event_def RithmicAPI_onopen_def RithmicAPI_authenticate_def
        RithmicAPI_onmessage_def RithmicAPI_onclose_def RithmicAPI_handleReconnection_def
        setTimeout_def ws_set_def fired_def Let_def split: option.splits sum.splits)

lemma no_socket_closed [simp]:
  "sockets w = [] \<Longrightarrow> ws_readyState h w = CLOSED"
  "sockets w = [] \<Longrightarrow> sockets (ws_close h w) = []"
  by (simp_all add: ws_readyState_def ws_close_def)

lemma R_event_unconfigured:
  assumes "config s = None" and "\<not> connected s" and "sockets s = []"
  shows "\<not> connected (RithmicAPI_event now e s) \<and> sockets (RithmicAPI_event now e s) = []"
  using assms
  by (cases e) (simp_all add: RithmicAPI_event_def RithmicAPI_connect_def fired_def)

lemma R_calls_config [simp]:
  "config (snd (RithmicAPI_subscribeMarketData smb exch s)) = config s"
  "config (snd (RithmicAPI_placeOrder numberToString now order s)) = config s"
  "config (snd (RithmicAPI_cancelOrder order_id s)) = config s"
  "config (RithmicAPI_onAccountUpdate callback s) = config s"
  "config (RithmicAPI_onMarketData callback s) = config s"
  "config (RithmicAPI_onOrderUpdate callback s) = config s"
  "config (RithmicAPI_disconnect s) = config s"
  by (simp_all add: RithmicAPI_subscribeMarketData_def RithmicAPI_placeOrder_def RithmicAPI_cancelOrder_def
      RithmicAPI_onAccountUpdate_def RithmicAPI_onMarketData_def RithmicAPI_onOrderUpdate_def
      RithmicAPI_disconnect_def split: option.splits)

lemma R_unconfigured:
  "RithmicAPI_reachable s \<Longrightarrow> config s = None \<Longrightarrow> \<not> connected s \<and> sockets s = []"
proof (induction rule: RithmicAPI_reachable.induct)
  case R_new
  show ?case by (simp add: rithmicAPI_def)
next
  case (R_configure s c)
  then show ?case by (simp add: RithmicAPI_configure_def)
next
  case (R_connect s)
  then have n: "config s = None" by simp
  with R_connect.IH have i: "\<not> connected s \<and> sockets s = []" by simp
  show ?case using n i by (simp add: RithmicAPI_connect_def split: option.splits)
next
  case (R_subscribeMarketData s smb exch)
  then have n: "config s = None" by simp
  with R_subscribeMarketData.IH have i: "\<not> connected s \<and> sockets s = []" by simp
  show ?case using n i by (simp add: RithmicAPI_subscribeMarketData_def split: option.splits)
next
  case (R_placeOrder s numberToString now order)
  then have n: "config s = None" by simp
  with R_placeOrder.IH have i: "\<not> connected s \<and> sockets s = []" by simp
  show ?case using n i by (simp add: RithmicAPI_placeOrder_def split: option.splits)
next
  case (R_cancelOrder s order_id)
  then have n: "config s = None" by simp
  with R_cancelOrder.IH have i: "\<not> connected s \<and> sockets s = []" by simp
  show ?case using n i by (simp add: RithmicAPI_cancelOrder_def split: option.splits)
next
  case (R_onAccountUpdate s callback)
  then have n: "config s = None" by simp
  with R_onAccountUpdate.IH have i: "\<not> connected s \<and> sockets s = []" by simp
  show ?case using n i by (simp add: RithmicAPI_onAccountUpdate_def split: option.splits)
next
  case (R_onMarketData s callback)
  then have n: "config s = None" by simp
  with R_onMarketData.IH have i: "\<not> connected s \<and> sockets s = []" by simp
  show ?case using n i by (simp add: RithmicAPI_onMarketData_def split: option.splits)
next
  case (R_onOrderUpdate s callback)
  then have n: "config s = None" by simp
  with R_onOrderUpdate.IH have i: "\<not> connected s \<and> sockets s = []" by simp
  show ?case using n i by (simp add: RithmicAPI_onOrderUpdate_def split: option.splits)
next
  case (R_disconnect s)
  then have n: "config s = None" by simp
  with R_disconnect.IH have i: "\<not> connected s \<and> sockets s = []" by simp
  show ?case using n i by (simp add: RithmicAPI_disconnect_def split: option.splits)
next
  case (R_event s now e)
  then have n: "config s = None" by simp
  with R_event.IH have i: "\<not> connected s \<and> sockets s = []" by simp
  show ?case using R_event_unconfigured [of s now e] n i by simp
qed

text \<open>
  C4, as the code has it.  While \<open>config\<close> is \<open>null\<close>, each method of TradingAPI and of
  CryptoAPI that contacts the venue, and RithmicAPI's \<open>connect\<close>, throws its "not
  configured" error and leaves the adapter and the browser exactly as they were: no socket
  is created and no request is fetched.  RithmicAPI's \<open>subscribeMarketData\<close>,
  \<open>placeOrder\<close> and \<open>cancelOrder\<close> do not read \<open>config\<close>: they test \<open>connected\<close>, which an
  adapter that was never configured cannot be, and throw "Not connected to Rithmic",
  changing nothing.  That is the error they throw in every state that is not connected,
  configured or not.
\<close>

theorem unconfigured_calls_fail:
  assumes "config t = None" and "config c = None" and "config r = None" and "RithmicAPI_reachable r"
    and "\<not> connected r'"
  shows
    "(TradingAPI_connectMarketData y t = (Inl (Error ''Trading API not configured''), t)
      \<and> TradingAPI_placeOrder order reply t = (Inl (Error ''Trading API not configured''), t)
      \<and> TradingAPI_cancelOrder order_id reply t = (Inl (Error ''Trading API not configured''), t)
      \<and> TradingAPI_getAccount reply t = (Inl (Error ''Trading API not configured''), t)
      \<and> TradingAPI_getPositions reply t = (Inl (Error ''Trading API not configured''), t)
      \<and> TradingAPI_getOrders filter_status reply t = (Inl (Error ''Trading API not configured''), t))
     \<and> (CryptoAPI_connectMarketData y c = (Inl (Error ''Crypto API not configured''), c)
      \<and> CryptoAPI_placeOrder now crypto_order reply c = (Inl (Error ''Crypto API not configured''), c)
      \<and> CryptoAPI_getAccount now reply c = (Inl (Error ''Crypto API not configured''), c)
      \<and> CryptoAPI_getPositions now reply c = (Inl (Error ''Crypto API not configured''), c))
     \<and> (RithmicAPI_connect r = (Inl (Error ''Rithmic API not configured''), r)
      \<and> RithmicAPI_subscribeMarketData smb exch r = (Inl (Error ''Not connected to Rithmic''), r)
      \<and> RithmicAPI_placeOrder numberToString now rithmic_order r = (Inl (Error ''Not connected to Rithmic''), r)
      \<and> RithmicAPI_cancelOrder order_id r = (Inl (Error ''Not connected to Rithmic''), r))
     \<and> (RithmicAPI_subscribeMarketData smb exch r' = (Inl (Error ''Not connected to Rithmic''), r')
      \<and> RithmicAPI_placeOrder numberToString now rithmic_order r' = (Inl (Error ''Not connected to Rithmic''), r')
      \<and> RithmicAPI_cancelOrder order_id r' = (Inl (Error ''Not connected to Rithmic''), r'))"
proof -
  have T: "TradingAPI_connectMarketData y t = (Inl (Error ''Trading API not configured''), t)
      \<and> TradingAPI_placeOrder order reply t = (Inl (Error ''Trading API not configured''), t)
      \<and> TradingAPI_cancelOrder order_id reply t = (Inl (Error ''Trading API not configured''), t)
      \<and> TradingAPI_getAccount reply t = (Inl (Error ''Trading API not configured''), t)
      \<and> TradingAPI_getPositions reply t = (Inl (Error ''Trading API not configured''), t)
      \<and> TradingAPI_getOrders filter_status reply t = (Inl (Error ''Trading API not configured''), t)"
    using assms(1)
    by (simp add: TradingAPI_connectMarketData_def TradingAPI_placeOrder_def TradingAPI_cancelOrder_def
        TradingAPI_getAccount_def TradingAPI_getPositions_def TradingAPI_getOrders_def)
  have C: "CryptoAPI_connectMarketData y c = (Inl (Error ''Crypto API not configured''), c)
      \<and> CryptoAPI_placeOrder now crypto_order reply c = (Inl (Error ''Crypto API not configured''), c)
      \<and> CryptoAPI_getAccount now reply c = (Inl (Error ''Crypto API not configured''), c)
      \<and> CryptoAPI_getPositions now reply c = (Inl (Error ''Crypto API not configured''), c)"
    using assms(2)
    by (simp add: CryptoAPI_connectMarketData_def CryptoAPI_placeOrder_def
        CryptoAPI_getAccount_def CryptoAPI_getPositions_def)
  have nc: "\<not> connected r"
    using R_unconfigured [OF assms(4) assms(3)] by simp
  have R: "RithmicAPI_connect r = (Inl (Error ''Rithmic API not configured''), r)
      \<and> RithmicAPI_subscribeMarketData smb exch r = (Inl (Error ''Not connected to Rithmic''), r)
      \<and> RithmicAPI_placeOrder numberToString now rithmic_order r = (Inl (Error ''Not connected to Rithmic''), r)
      \<and> RithmicAPI_cancelOrder order_id r = (Inl (Error ''Not connected to Rithmic''), r)"
    using assms(3) nc
    by (simp add: RithmicAPI_connect_def RithmicAPI_subscribeMarketData_def RithmicAPI_placeOrder_def
        RithmicAPI_cancelOrder_def)
  have R': "RithmicAPI_subscribeMarketData smb exch r' = (Inl (Error ''Not connected to Rithmic''), r')
      \<and> RithmicAPI_placeOrder numberToString now rithmic_order r' = (Inl (Error ''Not connected to Rithmic''), r')
      \<and> RithmicAPI_cancelOrder order_id r' = (Inl (Error ''Not connected to Rithmic''), r')"
    using assms(5)
    by (simp add: RithmicAPI_subscribeMarketData_def RithmicAPI_placeOrder_def RithmicAPI_cancelOrder_def)
  show ?thesis using T C R R' by blast
qed

text \<open>
  C4 as stated fails on RithmicAPI's \<open>placeOrder\<close>, \<open>cancelOrder\<close> and
  \<open>subscribeMarketData\<close>.  Called on the adapter as constructed, whose \<open>config\<close> is \<open>null\<close>,
  they throw "Not connected to Rithmic", not the configuration error that \<open>connect\<close>
  throws there; and they throw the same on an adapter that has been configured and is
  not connected, so the error does not tell that \<open>configure\<close> was not called.
\<close>

theorem rithmic_unconfigured_counterexample:
  "config rithmicAPI = None
   \<and> fst (RithmicAPI_connect rithmicAPI) = Inl (Error ''Rithmic API not configured'')
   \<and> fst (RithmicAPI_placeOrder (\<lambda>q. ''2'') 1700000000123
          \<lparr>RithmicOrderRequest.symbol = ''ESM4'', exchange = ''CME'', RithmicOrderRequest.side = BUY,
           RithmicOrderRequest.quantity = 2, RithmicOrderRequest.orderType = MARKET,
           RithmicOrderRequest.price = None, RithmicOrderRequest.stopPrice = None,
           RithmicOrderRequest.timeInForce = DAY, account = None\<rparr>
          rithmicAPI)
       = Inl (Error ''Not connected to Rithmic'')
   \<and> fst (RithmicAPI_cancelOrder ''1700000000123'' rithmicAPI) = Inl (Error ''Not connected to Rithmic'')
   \<and> fst (RithmicAPI_subscribeMarketData ''ESM4'' ''CME'' rithmicAPI) = Inl (Error ''Not connected to Rithmic'')
   \<and> Error ''Not connected to Rithmic'' \<noteq> Error ''Rithmic API not configured''
   \<and> config (RithmicAPI_configure (rithmic_login ''login_agent_op'') rithmicAPI)
       = Some (rithmic_login ''login_agent_op'')
   \<and> fst (RithmicAPI_cancelOrder ''1700000000123''
          (RithmicAPI_configure (rithmic_login ''login_agent_op'') rithmicAPI))
       = Inl (Error ''Not connected to Rithmic'')"
  by (simp add: rithmicAPI_def RithmicAPI_connect_def RithmicAPI_placeOrder_def RithmicAPI_cancelOrder_def
      RithmicAPI_subscribeMarketData_def RithmicAPI_configure_def)

theorem unconfigured_calls_fail_witness:
  "config tradingAPI = None \<and> config cryptoAPI = None \<and> config rithmicAPI = None
   \<and> RithmicAPI_reachable rithmicAPI
   \<and> \<not> connected (RithmicAPI_configure (rithmic_login ''login_agent_op'') rithmicAPI)
   \<and> TradingAPI_placeOrder
        \<lparr>OrderRequest.symbol = ''SPY'', OrderRequest.side = BUY, OrderRequest.quantity = 10,
         OrderRequest.orderType = MARKET, OrderRequest.price = None, OrderRequest.stopPrice = None,
         OrderRequest.timeInForce = DAY, strategy = None, order_notes = None\<rparr>
        (Responded \<lparr>Response.status = 200, bodyText = ''{}'', parsed = Some (JObj [])\<rparr>) tradingAPI
       = (Inl (Error ''Trading API not configured''), tradingAPI)
   \<and> CryptoAPI_getAccount 1700000000000 Rejected cryptoAPI
       = (Inl (Error ''Crypto API not configured''), cryptoAPI)
   \<and> RithmicAPI_connect rithmicAPI = (Inl (Error ''Rithmic API not configured''), rithmicAPI)
   \<and> RithmicAPI_cancelOrder ''1700000000123'' rithmicAPI
       = (Inl (Error ''Not connected to Rithmic''), rithmicAPI)
   \<and> RithmicAPI_cancelOrder ''1700000000123'' (RithmicAPI_configure (rithmic_login ''login_agent_op'') rithmicAPI)
       = (Inl (Error ''Not connected to Rithmic''), RithmicAPI_configure (rithmic_login ''login_agent_op'') rithmicAPI)
   \<and> fetched (snd (TradingAPI_getPositions Rejected tradingAPI)) = []
   \<and> sockets (snd (TradingAPI_connectMarketData [''SPY''] tradingAPI)) = []"
proof -
  have h: "config tradingAPI = None" "config cryptoAPI = None" "config rithmicAPI = None"
    by (simp_all add: tradingAPI_def cryptoAPI_def rithmicAPI_def)
  have n: "\<not> connected (RithmicAPI_configure (rithmic_login ''login_agent_op'') rithmicAPI)"
    by (simp add: RithmicAPI_configure_def rithmicAPI_def)
  have e: "fetched tradingAPI = []" "sockets tradingAPI = []"
    by (simp_all add: tradingAPI_def)
  show ?thesis
    using unconfigured_calls_fail [OF h R_new n, where y = "[''SPY'']" and reply = Rejected
        and now = 1700000000000 and order_id = "''1700000000123''"]
      unconfigured_calls_fail [OF h R_new n] h n e R_new
    by simp
qed

section \<open>REST failures\<close>

lemma T_request_fails:
  assumes "config s = Some bc"
    and "BrokerConfig.name bc = ''alpaca'' \<or> BrokerConfig.name bc = ''polygon'' \<or> BrokerConfig.name bc = ''finnhub''"
    and "\<not> ok response"
  shows "fst (TradingAPI_makeApiRequest meth endpoint payload (Responded response) s)
           = Inl (Error (''API request failed: '' @ toString (Response.status response) @ '' '' @ bodyText response))
         \<and> length (fetched (snd (TradingAPI_makeApiRequest meth endpoint payload (Responded response) s)))
           = Suc (length (fetched s))"
  using assms
  by (auto simp: TradingAPI_makeApiRequest_def TradingAPI_getAuthHeaders_def fetch_def Let_def)

lemma C_request_fails:
  assumes "config s = Some cc"
    and "CryptoExchangeConfig.name cc = ''bybit'' \<or> CryptoExchangeConfig.name cc = ''kucoin''
         \<or> CryptoExchangeConfig.name cc = ''kraken'' \<or> CryptoExchangeConfig.name cc = ''crypto_com''
         \<or> CryptoExchangeConfig.name cc = ''coinex'' \<or> CryptoExchangeConfig.name cc = ''bitget''"
    and "\<not> ok response"
  shows "fst (CryptoAPI_makeApiRequest now meth endpoint payload (Responded response) s)
           = Inl (Error (''API request failed: '' @ toString (Response.status response) @ '' '' @ bodyText response))
         \<and> length (fetched (snd (CryptoAPI_makeApiRequest now meth endpoint payload (Responded response) s)))
           = Suc (length (fetched s))"
  using assms
  by (auto simp: CryptoAPI_makeApiRequest_def CryptoAPI_getAuthHeaders_def fetch_def Let_def)

lemma fst_andThen_error [simp]: "fst m = Inl e \<Longrightarrow> fst (andThen m f) = Inl e"
  by (cases m) (simp add: andThen_def)

lemma T_request_once:
  "length (fetched (snd (TradingAPI_makeApiRequest meth endpoint payload reply s))) \<le> Suc (length (fetched s))"
  using T_request_fetches [of meth endpoint payload reply s] by (auto simp: fetch_def)

lemma C_request_once:
  "length (fetched (snd (CryptoAPI_makeApiRequest now meth endpoint payload reply s))) \<le> Suc (length (fetched s))"
  using C_request_fetches [of now meth endpoint payload reply s] by (auto simp: fetch_def)

text \<open>
  C5.  A REST method of a configured adapter whose venue answers with a status outside
  200..299 throws the error \<open>makeApiRequest\<close> made, whose message holds the status and
  the body text, and it has fetched exactly once.  Whatever the outcome of the fetch, no
  method fetches more than once: nothing is retried.
\<close>

theorem request_error_surfaces:
  assumes "config t = Some bc"
    and "BrokerConfig.name bc = ''alpaca'' \<or> BrokerConfig.name bc = ''polygon'' \<or> BrokerConfig.name bc = ''finnhub''"
    and "config c = Some cc"
    and "CryptoExchangeConfig.name cc = ''bybit'' \<or> CryptoExchangeConfig.name cc = ''kucoin''
         \<or> CryptoExchangeConfig.name cc = ''kraken'' \<or> CryptoExchangeConfig.name cc = ''crypto_com''
         \<or> CryptoExchangeConfig.name cc = ''coinex'' \<or> CryptoExchangeConfig.name cc = ''bitget''"
    and "\<not> ok response"
    and "failure = Error (''API request failed: '' @ toString (Response.status response) @ '' '' @ bodyText response)"
  shows
    "(fst (TradingAPI_makeApiRequest meth endpoint payload (Responded response) t) = Inl failure
       \<and> fst (TradingAPI_placeOrder order (Responded response) t) = Inl failure
       \<and> length (fetched (snd (TradingAPI_placeOrder order (Responded response) t))) = Suc (length (fetched t))
       \<and> fst (TradingAPI_cancelOrder order_id (Responded response) t) = Inl failure
       \<and> length (fetched (snd (TradingAPI_cancelOrder order_id (Responded response) t))) = Suc (length (fetched t))
       \<and> fst (TradingAPI_getAccount (Responded response) t) = Inl failure
       \<and> length (fetched (snd (TradingAPI_getAccount (Responded response) t))) = Suc (length (fetched t))
       \<and> fst (TradingAPI_getPositions (Responded response) t) = Inl failure
       \<and> length (fetched (snd (TradingAPI_getPositions (Responded response) t))) = Suc (length (fetched t))
       \<and> fst (TradingAPI_getOrders filter_status (Responded response) t) = Inl failure
       \<and> length (fetched (snd (TradingAPI_getOrders filter_status (Responded response) t))) = Suc (length (fetched t))
       \<and> fst (CryptoAPI_makeApiRequest now meth endpoint payload (Responded response) c) = Inl failure
       \<and> fst (CryptoAPI_placeOrder now crypto_order (Responded response) c) = Inl failure
       \<and> length (fetched (snd (CryptoAPI_placeOrder now crypto_order (Responded response) c))) = Suc (length (fetched c))
       \<and> fst (CryptoAPI_getAccount now (Responded response) c) = Inl failure
       \<and> length (fetched (snd (CryptoAPI_getAccount now (Responded response) c))) = Suc (length (fetched c))
       \<and> fst (CryptoAPI_getPositions now (Responded response) c) = Inl failure
       \<and> length (fetched (snd (CryptoAPI_getPositions now (Responded response) c))) = Suc (length (fetched c)))
     \<and> (length (fetched (snd (TradingAPI_placeOrder order reply t))) \<le> Suc (length (fetched t))
       \<and> length (fetched (snd (TradingAPI_cancelOrder order_id reply t))) \<le> Suc (length (fetched t))
       \<and> length (fetched (snd (TradingAPI_getAccount reply t))) \<le> Suc (length (fetched t))
       \<and> length (fetched (snd (TradingAPI_getPositions reply t))) \<le> Suc (length (fetched t))
       \<and> length (fetched (snd (TradingAPI_getOrders filter_status reply t))) \<le> Suc (length (fetched t))
       \<and> length (fetched (snd (CryptoAPI_placeOrder now crypto_order reply c))) \<le> Suc (length (fetched c))
       \<and> length (fetched (snd (CryptoAPI_getAccount now reply c))) \<le> Suc (length (fetched c))
       \<and> length (fetched (snd (CryptoAPI_getPositions now reply c))) \<le> Suc (length (fetched c)))"
proof -
  note T = T_request_fails [OF assms(1) assms(2) assms(5), folded assms(6)]
  note C = C_request_fails [OF assms(3) assms(4) assms(5), folded assms(6)]
  have failed: "(fst (TradingAPI_makeApiRequest meth endpoint payload (Responded response) t) = Inl failure
       \<and> fst (TradingAPI_placeOrder order (Responded response) t) = Inl failure
       \<and> length (fetched (snd (TradingAPI_placeOrder order (Responded response) t))) = Suc (length (fetched t))
       \<and> fst (TradingAPI_cancelOrder order_id (Responded response) t) = Inl failure
       \<and> length (fetched (snd (TradingAPI_cancelOrder order_id (Responded response) t))) = Suc (length (fetched t))
       \<and> fst (TradingAPI_getAccount (Responded response) t) = Inl failure
       \<and> length (fetched (snd (TradingAPI_getAccount (Responded response) t))) = Suc (length (fetched t))
       \<and> fst (TradingAPI_getPositions (Responded response) t) = Inl failure
       \<and> length (fetched (snd (TradingAPI_getPositions (Responded response) t))) = Suc (length (fetched t))
       \<and> fst (TradingAPI_getOrders filter_status (Responded response) t) = Inl failure
       \<and> length (fetched (snd (TradingAPI_getOrders filter_status (Responded response) t))) = Suc (length (fetched t))
       \<and> fst (CryptoAPI_makeApiRequest now meth endpoint payload (Responded response) c) = Inl failure
       \<and> fst (CryptoAPI_placeOrder now crypto_order (Responded response) c) = Inl failure
       \<and> length (fetched (snd (CryptoAPI_placeOrder now crypto_order (Responded response) c))) = Suc (length (fetched c))
       \<and> fst (CryptoAPI_getAccount now (Responded response) c) = Inl failure
       \<and> length (fetched (snd (CryptoAPI_getAccount now (Responded response) c))) = Suc (length (fetched c))
       \<and> fst (CryptoAPI_getPositions now (Responded response) c) = Inl failure
       \<and> length (fetched (snd (CryptoAPI_getPositions now (Responded response) c))) = Suc (length (fetched c)))"
    using assms(1) assms(3)
    by (simp add: T C TradingAPI_placeOrder_def TradingAPI_cancelOrder_def TradingAPI_getAccount_def
        TradingAPI_getPositions_def TradingAPI_getOrders_def CryptoAPI_placeOrder_def
        CryptoAPI_getAccount_def CryptoAPI_getPositions_def)
  have never_twice: "(length (fetched (snd (TradingAPI_placeOrder order reply t))) \<le> Suc (length (fetched t))
       \<and> length (fetched (snd (TradingAPI_cancelOrder order_id reply t))) \<le> Suc (length (fetched t))
       \<and> length (fetched (snd (TradingAPI_getAccount reply t))) \<le> Suc (length (fetched t))
       \<and> length (fetched (snd (TradingAPI_getPositions reply t))) \<le> Suc (length (fetched t))
       \<and> length (fetched (snd (TradingAPI_getOrders filter_status reply t))) \<le> Suc (length (fetched t))
       \<and> length (fetched (snd (CryptoAPI_placeOrder now crypto_order reply c))) \<le> Suc (length (fetched c))
       \<and> length (fetched (snd (CryptoAPI_getAccount now reply c))) \<le> Suc (length (fetched c))
       \<and> length (fetched (snd (CryptoAPI_getPositions now reply c))) \<le> Suc (length (fetched c)))"
    using assms(1) assms(3)
    by (simp add: T_request_once C_request_once TradingAPI_placeOrder_def TradingAPI_cancelOrder_def
        TradingAPI_getAccount_def TradingAPI_getPositions_def TradingAPI_getOrders_def CryptoAPI_placeOrder_def
        CryptoAPI_getAccount_def CryptoAPI_getPositions_def)
  show ?thesis using failed never_twice by blast
qed

lemma toString_422: "toString 422 = ''422''"
  by code_simp

theorem request_error_surfaces_witness:
  "config (TradingAPI_configure alpaca_paper tradingAPI) = Some alpaca_paper
   \<and> BrokerConfig.name alpaca_paper = ''alpaca''
   \<and> config (CryptoAPI_configure bybit_testnet cryptoAPI) = Some bybit_testnet
   \<and> CryptoExchangeConfig.name bybit_testnet = ''bybit''
   \<and> \<not> ok \<lparr>Response.status = 422, bodyText = ''insufficient buying power'', parsed = None\<rparr>
   \<and> fst (TradingAPI_cancelOrder ''o-17''
          (Responded \<lparr>Response.status = 422, bodyText = ''insufficient buying power'', parsed = None\<rparr>)
          (TradingAPI_configure alpaca_paper tradingAPI))
       = Inl (Error ''API request failed: 422 insufficient buying power'')
   \<and> length (fetched (snd (TradingAPI_cancelOrder ''o-17''
          (Responded \<lparr>Response.status = 422, bodyText = ''insufficient buying power'', parsed = None\<rparr>)
          (TradingAPI_configure alpaca_paper tradingAPI)))) = 1
   \<and> fst (CryptoAPI_getAccount 1700000000000
          (Responded \<lparr>Response.status = 422, bodyText = ''insufficient buying power'', parsed = None\<rparr>)
          (CryptoAPI_configure bybit_testnet cryptoAPI))
       = Inl (Error ''API request failed: 422 insufficient buying power'')"
proof -
  let ?resp = "\<lparr>Response.status = 422, bodyText = ''insufficient buying power'', parsed = None\<rparr>"
  have t: "config (TradingAPI_configure alpaca_paper tradingAPI) = Some alpaca_paper"
    by (simp add: TradingAPI_configure_def)
  have tn: "BrokerConfig.name alpaca_paper = ''alpaca''"
    by (simp add: alpaca_paper_def)
  have c: "config (CryptoAPI_configure bybit_testnet cryptoAPI) = Some bybit_testnet"
    by (simp add: CryptoAPI_configure_def)
  have cn: "CryptoExchangeConfig.name bybit_testnet = ''bybit''"
    by (simp add: bybit_testnet_def)
  have r: "\<not> ok ?resp"
    by (simp add: ok_def)
  have f: "Error ''API request failed: 422 insufficient buying power''
           = Error (''API request failed: '' @ toString (Response.status ?resp) @ '' '' @ bodyText ?resp)"
    by (simp add: toString_422)
  have e: "fetched (TradingAPI_configure alpaca_paper tradingAPI) = []"
    by (simp add: TradingAPI_configure_def tradingAPI_def)
  show ?thesis
    using request_error_surfaces [OF t disjI1 [OF tn] c disjI1 [OF cn] r f,
        where order_id = "''o-17''" and now = 1700000000000] t tn c cn r e
    by simp
qed

section \<open>Frames that are not data\<close>

lemma parseAlpacaData_not_data:
  "\<not> dataFrame ''alpaca'' d \<Longrightarrow> parseAlpacaData d = (if unreadable ''alpaca'' d then Inl TypeError else Inr None)"
  by (auto simp: parseAlpacaData_def dataFrame_def unreadable_def Let_def)

lemma parsePolygonData_not_data:
  "\<not> dataFrame ''polygon'' d \<Longrightarrow> parsePolygonData d = (if unreadable ''polygon'' d then Inl TypeError else Inr None)"
  by (auto simp: parsePolygonData_def dataFrame_def unreadable_def Let_def)

lemma parseFinnhubData_not_data:
  "\<not> dataFrame ''finnhub'' d \<Longrightarrow> parseFinnhubData d = (if unreadable ''finnhub'' d then Inl TypeError else Inr None)"
  by (auto simp: parseFinnhubData_def dataFrame_def unreadable_def Let_def)

lemma parseBybitData_not_data:
  "\<not> dataFrame ''bybit'' d \<Longrightarrow> parseBybitData d = (if unreadable ''bybit'' d then Inl TypeError else Inr None)"
  by (cases "property d ''topic''")
     (auto simp: parseBybitData_def dataFrame_def unreadable_def isString_def startsWith_def bindE_def Let_def)

lemma parseKuCoinData_not_data:
  "\<not> dataFrame ''kucoin'' d \<Longrightarrow> parseKuCoinData d = (if unreadable ''kucoin'' d then Inl TypeError else Inr None)"
  by (auto simp: parseKuCoinData_def dataFrame_def unreadable_def Let_def)

lemma parseKrakenData_not_data:
  "\<not> dataFrame ''kraken'' d \<Longrightarrow> parseKrakenData now d = (if unreadable ''kraken'' d then Inl TypeError else Inr None)"
  by (auto simp: parseKrakenData_def dataFrame_def unreadable_def Let_def)

lemma parseCryptoComData_not_data:
  "\<not> dataFrame ''crypto_com'' d \<Longrightarrow> parseCryptoComData d = (if unreadable ''crypto_com'' d then Inl TypeError else Inr None)"
  by (auto simp: parseCryptoComData_def dataFrame_def unreadable_def Let_def)

lemma parseCoinExData_not_data:
  "\<not> dataFrame ''coinex'' d \<Longrightarrow> parseCoinExData now d = (if unreadable ''coinex'' d then Inl TypeError else Inr None)"
  by (auto simp: parseCoinExData_def dataFrame_def unreadable_def Let_def)

lemma parseBitgetData_not_data:
  "\<not> dataFrame ''bitget'' d \<Longrightarrow> parseBitgetData d = (if unreadable ''bitget'' d then Inl TypeError else Inr None)"
  by (auto simp: parseBitgetData_def dataFrame_def unreadable_def Let_def)

lemma T_normalize_not_data:
  assumes "\<not> dataFrame (BrokerConfig.name bc) d"
  shows "TradingAPI_normalize bc d = Inr None \<or> TradingAPI_normalize bc d = Inl TypeError"
    and "\<not> unreadable (BrokerConfig.name bc) d \<Longrightarrow> TradingAPI_normalize bc d = Inr None"
  using assms
  by (auto simp: TradingAPI_normalize_def parseAlpacaData_not_data parsePolygonData_not_data
      parseFinnhubData_not_data)

lemma C_normalize_not_data:
  assumes "\<not> dataFrame (CryptoExchangeConfig.name cc) d"
  shows "CryptoAPI_normalize now cc d = Inr None \<or> CryptoAPI_normalize now cc d = Inl TypeError"
    and "\<not> unreadable (CryptoExchangeConfig.name cc) d \<Longrightarrow> CryptoAPI_normalize now cc d = Inr None"
  using assms
  by (auto simp: CryptoAPI_normalize_def parseBybitData_not_data parseKuCoinData_not_data
      parseKrakenData_not_data parseCryptoComData_not_data parseCoinExData_not_data
      parseBitgetData_not_data)

lemma T_handle_not_data:
  assumes "config s = Some bc" and "\<not> dataFrame (BrokerConfig.name bc) d"
  shows "snd (TradingAPI_handleMarketDataMessage d s) = s"
    and "\<not> unreadable (BrokerConfig.name bc) d \<Longrightarrow> TradingAPI_handleMarketDataMessage d s = (Inr (), s)"
  using assms(1) T_normalize_not_data [OF assms(2)]
  by (auto simp: TradingAPI_handleMarketDataMessage_def)

lemma C_handle_not_data:
  assumes "config s = Some cc" and "\<not> dataFrame (CryptoExchangeConfig.name cc) d"
  shows "snd (CryptoAPI_handleMarketDataMessage now d s) = s"
    and "\<not> unreadable (CryptoExchangeConfig.name cc) d \<Longrightarrow> CryptoAPI_handleMarketDataMessage now d s = (Inr (), s)"
  using assms(1) C_normalize_not_data [OF assms(2), of now]
  by (auto simp: CryptoAPI_handleMarketDataMessage_def)

text \<open>
  C6, as the code has it.  Take a parsed frame that does not have the shape the
  configured venue's parser takes for data.  If the parser can read the frame's
  discriminating properties (every frame but \<open>null\<close>; for Bybit also every truthy
  \<open>topic\<close> must be a string), the parser returns \<open>null\<close> and \<open>handleMarketDataMessage\<close>
  returns normally, having invoked no callback and changed nothing.  In every case,
  readable or not, the \<open>onmessage\<close> handler leaves the adapter as it was: no callback is
  invoked, and what the parser throws is caught.  The same is stated for each of the nine
  parsers by itself.
\<close>

theorem non_data_frames_ignored:
  assumes "config t = Some bc" and "\<not> dataFrame (BrokerConfig.name bc) d"
    and "config c = Some cc" and "\<not> dataFrame (CryptoExchangeConfig.name cc) d'"
  shows
    "((\<not> unreadable (BrokerConfig.name bc) d \<longrightarrow>
         TradingAPI_normalize bc d = Inr None \<and> TradingAPI_handleMarketDataMessage d t = (Inr (), t))
      \<and> TradingAPI_onmessage (Text (Some d)) t = t
      \<and> (\<not> unreadable (CryptoExchangeConfig.name cc) d' \<longrightarrow>
         CryptoAPI_normalize now cc d' = Inr None \<and> CryptoAPI_handleMarketDataMessage now d' c = (Inr (), c))
      \<and> CryptoAPI_onmessage now (Text (Some d')) c = c)
     \<and> ((\<not> dataFrame ''alpaca'' p \<and> \<not> unreadable ''alpaca'' p \<longrightarrow> parseAlpacaData p = Inr None)
      \<and> (\<not> dataFrame ''polygon'' p \<and> \<not> unreadable ''polygon'' p \<longrightarrow> parsePolygonData p = Inr None)
      \<and> (\<not> dataFrame ''finnhub'' p \<and> \<not> unreadable ''finnhub'' p \<longrightarrow> parseFinnhubData p = Inr None)
      \<and> (\<not> dataFrame ''bybit'' p \<and> \<not> unreadable ''bybit'' p \<longrightarrow> parseBybitData p = Inr None)
      \<and> (\<not> dataFrame ''kucoin'' p \<and> \<not> unreadable ''kucoin'' p \<longrightarrow> parseKuCoinData p = Inr None)
      \<and> (\<not> dataFrame ''kraken'' p \<longrightarrow> parseKrakenData now p = Inr None)
      \<and> (\<not> dataFrame ''crypto_com'' p \<and> \<not> unreadable ''crypto_com'' p \<longrightarrow> parseCryptoComData p = Inr None)
      \<and> (\<not> dataFrame ''coinex'' p \<and> \<not> unreadable ''coinex'' p \<longrightarrow> parseCoinExData now p = Inr None)
      \<and> (\<not> dataFrame ''bitget'' p \<and> \<not> unreadable ''bitget'' p \<longrightarrow> parseBitgetData p = Inr None))"
proof -
  have T: "(\<not> unreadable (BrokerConfig.name bc) d \<longrightarrow>
         TradingAPI_normalize bc d = Inr None \<and> TradingAPI_handleMarketDataMessage d t = (Inr (), t))
      \<and> TradingAPI_onmessage (Text (Some d)) t = t"
    using T_normalize_not_data(2) [OF assms(2)] T_handle_not_data [OF assms(1) assms(2)]
    by (simp add: TradingAPI_onmessage_def JSON_parse_def)
  have C: "(\<not> unreadable (CryptoExchangeConfig.name cc) d' \<longrightarrow>
         CryptoAPI_normalize now cc d' = Inr None \<and> CryptoAPI_handleMarketDataMessage now d' c = (Inr (), c))
      \<and> CryptoAPI_onmessage now (Text (Some d')) c = c"
    using C_normalize_not_data(2) [OF assms(4)] C_handle_not_data [OF assms(3) assms(4)]
    by (simp add: CryptoAPI_onmessage_def JSON_parse_def)
  have k: "unreadable ''kraken'' p = False"
    by (simp add: unreadable_def)
  have P: "(\<not> dataFrame ''alpaca'' p \<and> \<not> unreadable ''alpaca'' p \<longrightarrow> parseAlpacaData p = Inr None)
      \<and> (\<not> dataFrame ''polygon'' p \<and> \<not> unreadable ''polygon'' p \<longrightarrow> parsePolygonData p = Inr None)
      \<and> (\<not> dataFrame ''finnhub'' p \<and> \<not> unreadable ''finnhub'' p \<longrightarrow> parseFinnhubData p = Inr None)
      \<and> (\<not> dataFrame ''bybit'' p \<and> \<not> unreadable ''bybit'' p \<longrightarrow> parseBybitData p = Inr None)
      \<and> (\<not> dataFrame ''kucoin'' p \<and> \<not> unreadable ''kucoin'' p \<longrightarrow> parseKuCoinData p = Inr None)
      \<and> (\<not> dataFrame ''kraken'' p \<longrightarrow> parseKrakenData now p = Inr None)
      \<and> (\<not> dataFrame ''crypto_com'' p \<and> \<not> unreadable ''crypto_com'' p \<longrightarrow> parseCryptoComData p = Inr None)
      \<and> (\<not> dataFrame ''coinex'' p \<and> \<not> unreadable ''coinex'' p \<longrightarrow> parseCoinExData now p = Inr None)
      \<and> (\<not> dataFrame ''bitget'' p \<and> \<not> unreadable ''bitget'' p \<longrightarrow> parseBitgetData p = Inr None)"
    by (simp add: parseAlpacaData_not_data parsePolygonData_not_data parseFinnhubData_not_data
        parseBybitData_not_data parseKuCoinData_not_data parseKrakenData_not_data
        parseCryptoComData_not_data parseCoinExData_not_data parseBitgetData_not_data k)
  show ?thesis using T C P by blast
qed

text \<open>
  C6 as stated fails on the frame \<open>null\<close> (the JSON text \<open>null\<close>), which is not a data
  frame of Alpaca: reading \<open>data.T\<close> throws, so \<open>parseAlpacaData\<close> does not return
  \<open>null\<close> and \<open>handleMarketDataMessage\<close> raises the TypeError.  So does Bybit's parser
  on a frame whose \<open>topic\<close> is a number, which has no \<open>startsWith\<close>.
\<close>

theorem null_frame_counterexample:
  "\<not> dataFrame ''alpaca'' JNull
   \<and> parseAlpacaData JNull = Inl TypeError
   \<and> fst (TradingAPI_handleMarketDataMessage JNull (TradingAPI_configure alpaca_paper tradingAPI)) = Inl TypeError
   \<and> \<not> dataFrame ''bybit'' (JObj [(''topic'', JNum 5)])
   \<and> parseBybitData (JObj [(''topic'', JNum 5)]) = Inl TypeError"
  by (simp add: dataFrame_def parseAlpacaData_def parseBybitData_def TradingAPI_handleMarketDataMessage_def
      TradingAPI_normalize_def TradingAPI_configure_def alpaca_paper_def startsWith_def bindE_def)

theorem non_data_frames_ignored_witness:
  "config (TradingAPI_onMarketData (listener 7) (TradingAPI_configure alpaca_paper tradingAPI)) = Some alpaca_paper
   \<and> \<not> dataFrame (BrokerConfig.name alpaca_paper) (JArr [JObj [(''T'', JStr ''success''), (''msg'', JStr ''authenticated'')]])
   \<and> config (CryptoAPI_onMarketData (listener 7) (CryptoAPI_configure bybit_testnet cryptoAPI)) = Some bybit_testnet
   \<and> \<not> dataFrame (CryptoExchangeConfig.name bybit_testnet) (JObj [(''success'', JBool True), (''op'', JStr ''subscribe'')])
   \<and> \<not> unreadable (BrokerConfig.name alpaca_paper) (JArr [JObj [(''T'', JStr ''success''), (''msg'', JStr ''authenticated'')]])
   \<and> \<not> unreadable (CryptoExchangeConfig.name bybit_testnet) (JObj [(''success'', JBool True), (''op'', JStr ''subscribe'')])
   \<and> TradingAPI_handleMarketDataMessage (JArr [JObj [(''T'', JStr ''success''), (''msg'', JStr ''authenticated'')]])
        (TradingAPI_onMarketData (listener 7) (TradingAPI_configure alpaca_paper tradingAPI))
       = (Inr (), TradingAPI_onMarketData (listener 7) (TradingAPI_configure alpaca_paper tradingAPI))
   \<and> delivered (CryptoAPI_onmessage 1700000000000 (Text (Some (JObj [(''success'', JBool True), (''op'', JStr ''subscribe'')])))
        (CryptoAPI_onMarketData (listener 7) (CryptoAPI_configure bybit_testnet cryptoAPI))) = []"
proof -
  let ?t = "TradingAPI_onMarketData (listener 7) (TradingAPI_configure alpaca_paper tradingAPI)"
  let ?c = "CryptoAPI_onMarketData (listener 7) (CryptoAPI_configure bybit_testnet cryptoAPI)"
  let ?d = "JArr [JObj [(''T'', JStr ''success''), (''msg'', JStr ''authenticated'')]]"
  let ?d' = "JObj [(''success'', JBool True), (''op'', JStr ''subscribe'')]"
  have t: "config ?t = Some alpaca_paper"
    by (simp add: TradingAPI_onMarketData_def TradingAPI_configure_def)
  have c: "config ?c = Some bybit_testnet"
    by (simp add: CryptoAPI_onMarketData_def CryptoAPI_configure_def)
  have nd: "\<not> dataFrame (BrokerConfig.name alpaca_paper) ?d"
    by (simp add: dataFrame_def alpaca_paper_def)
  have nd': "\<not> dataFrame (CryptoExchangeConfig.name bybit_testnet) ?d'"
    by (simp add: dataFrame_def bybit_testnet_def)
  have r: "\<not> unreadable (BrokerConfig.name alpaca_paper) ?d"
    by (simp add: unreadable_def alpaca_paper_def)
  have r': "\<not> unreadable (CryptoExchangeConfig.name bybit_testnet) ?d'"
    by (simp add: unreadable_def bybit_testnet_def)
  have e: "delivered ?c = []"
    by (simp add: CryptoAPI_onMarketData_def CryptoAPI_configure_def cryptoAPI_def)
  show ?thesis
    using non_data_frames_ignored [OF t nd c nd', where now = 1700000000000] t c nd nd' r r' e
    by simp
qed

section \<open>Authentication headers\<close>

text \<open>
  C7.  For each venue name the adapters know, \<open>getAuthHeaders\<close> returns a header object
  whose key set is the fixed set of that venue, whatever the credentials, the timestamp
  and the request are.  For any other name it throws "Unsupported".
\<close>

theorem auth_header_keys:
  assumes "config t = Some bc" and "config c = Some cc"
  shows
    "((BrokerConfig.name bc = ''alpaca'' \<longrightarrow>
         keySet (TradingAPI_getAuthHeaders t) = Some {''APCA-API-KEY-ID'', ''APCA-API-SECRET-KEY''})
      \<and> (BrokerConfig.name bc = ''polygon'' \<longrightarrow>
         keySet (TradingAPI_getAuthHeaders t) = Some {''Authorization''})
      \<and> (BrokerConfig.name bc = ''finnhub'' \<longrightarrow>
         keySet (TradingAPI_getAuthHeaders t) = Some {''X-Finnhub-Token''})
      \<and> (BrokerConfig.name bc \<noteq> ''alpaca'' \<and> BrokerConfig.name bc \<noteq> ''polygon''
          \<and> BrokerConfig.name bc \<noteq> ''finnhub'' \<longrightarrow>
         TradingAPI_getAuthHeaders t = Inl (Error (''Unsupported broker: '' @ BrokerConfig.name bc))))
     \<and> ((CryptoExchangeConfig.name cc = ''bybit'' \<longrightarrow>
         keySet (CryptoAPI_getAuthHeaders meth endpoint stamp payload c)
         = Some {''X-BAPI-API-KEY'', ''X-BAPI-TIMESTAMP'', ''X-BAPI-RECV-WINDOW''})
      \<and> (CryptoExchangeConfig.name cc = ''kucoin'' \<longrightarrow>
         keySet (CryptoAPI_getAuthHeaders meth endpoint stamp payload c)
         = Some {''KC-API-KEY'', ''KC-API-TIMESTAMP'', ''KC-API-PASSPHRASE''})
      \<and> (CryptoExchangeConfig.name cc = ''kraken'' \<longrightarrow>
         keySet (CryptoAPI_getAuthHeaders meth endpoint stamp payload c) = Some {''API-Key''})
      \<and> (CryptoExchangeConfig.name cc = ''crypto_com'' \<longrightarrow>
         keySet (CryptoAPI_getAuthHeaders meth endpoint stamp payload c) = Some {''X-CRO-API-KEY''})
      \<and> (CryptoExchangeConfig.name cc = ''coinex'' \<longrightarrow>
         keySet (CryptoAPI_getAuthHeaders meth endpoint stamp payload c) = Some {''AccessId'', ''Tonce''})
      \<and> (CryptoExchangeConfig.name cc = ''bitget'' \<longrightarrow>
         keySet (CryptoAPI_getAuthHeaders meth endpoint stamp payload c)
         = Some {''ACCESS-KEY'', ''ACCESS-TIMESTAMP''})
      \<and> (CryptoExchangeConfig.name cc \<noteq> ''bybit'' \<and> CryptoExchangeConfig.name cc \<noteq> ''kucoin''
          \<and> CryptoExchangeConfig.name cc \<noteq> ''kraken'' \<and> CryptoExchangeConfig.name cc \<noteq> ''crypto_com''
          \<and> CryptoExchangeConfig.name cc \<noteq> ''coinex'' \<and> CryptoExchangeConfig.name cc \<noteq> ''bitget'' \<longrightarrow>
         CryptoAPI_getAuthHeaders meth endpoint stamp payload c
         = Inl (Error (''Unsupported exchange: '' @ CryptoExchangeConfig.name cc))))"
proof -
  have T: "(BrokerConfig.name bc = ''alpaca'' \<longrightarrow>
         keySet (TradingAPI_getAuthHeaders t) = Some {''APCA-API-KEY-ID'', ''APCA-API-SECRET-KEY''})
      \<and> (BrokerConfig.name bc = ''polygon'' \<longrightarrow>
         keySet (TradingAPI_getAuthHeaders t) = Some {''Authorization''})
      \<and> (BrokerConfig.name bc = ''finnhub'' \<longrightarrow>
         keySet (TradingAPI_getAuthHeaders t) = Some {''X-Finnhub-Token''})
      \<and> (BrokerConfig.name bc \<noteq> ''alpaca'' \<and> BrokerConfig.name bc \<noteq> ''polygon''
          \<and> BrokerConfig.name bc \<noteq> ''finnhub'' \<longrightarrow>
         TradingAPI_getAuthHeaders t = Inl (Error (''Unsupported broker: '' @ BrokerConfig.name bc)))"
    using assms(1) by (simp add: TradingAPI_getAuthHeaders_def keySet_def)
  have C: "(CryptoExchangeConfig.name cc = ''bybit'' \<longrightarrow>
         keySet (CryptoAPI_getAuthHeaders meth endpoint stamp payload c)
         = Some {''X-BAPI-API-KEY'', ''X-BAPI-TIMESTAMP'', ''X-BAPI-RECV-WINDOW''})
      \<and> (CryptoExchangeConfig.name cc = ''kucoin'' \<longrightarrow>
         keySet (CryptoAPI_getAuthHeaders meth endpoint stamp payload c)
         = Some {''KC-API-KEY'', ''KC-API-TIMESTAMP'', ''KC-API-PASSPHRASE''})
      \<and> (CryptoExchangeConfig.name cc = ''kraken'' \<longrightarrow>
         keySet (CryptoAPI_getAuthHeaders meth endpoint stamp payload c) = Some {''API-Key''})
      \<and> (CryptoExchangeConfig.name cc = ''crypto_com'' \<longrightarrow>
         keySet (CryptoAPI_getAuthHeaders meth endpoint stamp payload c) = Some {''X-CRO-API-KEY''})
      \<and> (CryptoExchangeConfig.name cc = ''coinex'' \<longrightarrow>
         keySet (CryptoAPI_getAuthHeaders meth endpoint stamp payload c) = Some {''AccessId'', ''Tonce''})
      \<and> (CryptoExchangeConfig.name cc = ''bitget'' \<longrightarrow>
         keySet (CryptoAPI_getAuthHeaders meth endpoint stamp payload c)
         = Some {''ACCESS-KEY'', ''ACCESS-TIMESTAMP''})
      \<and> (CryptoExchangeConfig.name cc \<noteq> ''bybit'' \<and> CryptoExchangeConfig.name cc \<noteq> ''kucoin''
          \<and> CryptoExchangeConfig.name cc \<noteq> ''kraken'' \<and> CryptoExchangeConfig.name cc \<noteq> ''crypto_com''
          \<and> CryptoExchangeConfig.name cc \<noteq> ''coinex'' \<and> CryptoExchangeConfig.name cc \<noteq> ''bitget'' \<longrightarrow>
         CryptoAPI_getAuthHeaders meth endpoint stamp payload c
         = Inl (Error (''Unsupported exchange: '' @ CryptoExchangeConfig.name cc)))"
    using assms(2) by (simp add: CryptoAPI_getAuthHeaders_def keySet_def)
  show ?thesis using T C by blast
qed

theorem auth_header_keys_witness:
  "config (TradingAPI_configure alpaca_paper tradingAPI) = Some alpaca_paper
   \<and> config (CryptoAPI_configure bybit_testnet cryptoAPI) = Some bybit_testnet
   \<and> keySet (TradingAPI_getAuthHeaders (TradingAPI_configure alpaca_paper tradingAPI))
       = Some {''APCA-API-KEY-ID'', ''APCA-API-SECRET-KEY''}
   \<and> keySet (CryptoAPI_getAuthHeaders ''GET'' ''/account'' ''1700000000000'' None
         (CryptoAPI_configure bybit_testnet cryptoAPI))
       = Some {''X-BAPI-API-KEY'', ''X-BAPI-TIMESTAMP'', ''X-BAPI-RECV-WINDOW''}"
proof -
  have t: "config (TradingAPI_configure alpaca_paper tradingAPI) = Some alpaca_paper"
    by (simp add: TradingAPI_configure_def)
  have c: "config (CryptoAPI_configure bybit_testnet cryptoAPI) = Some bybit_testnet"
    by (simp add: CryptoAPI_configure_def)
  have n: "BrokerConfig.name alpaca_paper = ''alpaca''" "CryptoExchangeConfig.name bybit_testnet = ''bybit''"
    by (simp_all add: alpaca_paper_def bybit_testnet_def)
  show ?thesis
    using auth_header_keys [OF t c, where meth = "''GET''" and endpoint = "''/account''"
        and stamp = "''1700000000000''" and payload = None] t c n
    by simp
qed

section \<open>The streaming URL\<close>

text \<open>
  C8, as the code has it.  In TradingAPI the URL is decided by the venue name and the
  sandbox flag, in CryptoAPI by the name and the testnet flag: two configurations that
  agree on the two give the same URL (or the same "Unsupported" error), whatever else
  they hold.  In RithmicAPI the URL is the fixed host followed by the configured
  gateway: it is decided by the gateway alone, the environment does not enter it, and
  two configurations give the same URL exactly when their gateways are equal.
\<close>

theorem websocket_url_depends_on:
  assumes "config t = Some a" and "config t' = Some a'"
    and "BrokerConfig.name a = BrokerConfig.name a'" and "sandbox a = sandbox a'"
    and "config c = Some b" and "config c' = Some b'"
    and "CryptoExchangeConfig.name b = CryptoExchangeConfig.name b'" and "testnet b = testnet b'"
    and "config r = Some g" and "config r' = Some g'"
  shows
    "TradingAPI_getWebSocketUrl t = TradingAPI_getWebSocketUrl t'
     \<and> CryptoAPI_getWebSocketUrl c = CryptoAPI_getWebSocketUrl c'
     \<and> RithmicAPI_getWebSocketUrl r = Inr (''wss://rituz00100.rithmic.com:443/'' @ gateway g)
     \<and> (RithmicAPI_getWebSocketUrl r = RithmicAPI_getWebSocketUrl r') = (gateway g = gateway g')"
  using assms
  by (simp add: TradingAPI_getWebSocketUrl_def CryptoAPI_getWebSocketUrl_def RithmicAPI_getWebSocketUrl_def)

text \<open>
  C8 as stated fails for RithmicAPI: two logins that differ in the gateway only, and so
  agree on every other field, the environment among them, connect to different URLs.
\<close>

theorem rithmic_gateway_counterexample:
  "RithmicAPI_getWebSocketUrl (RithmicAPI_configure (rithmic_login ''login_agent_pnl'') rithmicAPI)
     = Inr ''wss://rituz00100.rithmic.com:443/login_agent_pnl''
   \<and> RithmicAPI_getWebSocketUrl (RithmicAPI_configure (rithmic_login ''login_agent_op'') rithmicAPI)
     = Inr ''wss://rituz00100.rithmic.com:443/login_agent_op''
   \<and> RithmicAPI_getWebSocketUrl (RithmicAPI_configure (rithmic_login ''login_agent_pnl'') rithmicAPI)
     \<noteq> RithmicAPI_getWebSocketUrl (RithmicAPI_configure (rithmic_login ''login_agent_op'') rithmicAPI)
   \<and> environment (rithmic_login ''login_agent_pnl'') = environment (rithmic_login ''login_agent_op'')
   \<and> systemName (rithmic_login ''login_agent_pnl'') = systemName (rithmic_login ''login_agent_op'')"
  by (simp add: RithmicAPI_getWebSocketUrl_def RithmicAPI_configure_def rithmic_login_def)

theorem websocket_url_depends_on_witness:
  "config (TradingAPI_configure alpaca_paper tradingAPI) = Some alpaca_paper
   \<and> config (TradingAPI_configure (alpaca_paper\<lparr>BrokerConfig.apiKey := ''PK2'', BrokerConfig.baseUrl := ''https://example.org''\<rparr>) tradingAPI)
       = Some (alpaca_paper\<lparr>BrokerConfig.apiKey := ''PK2'', BrokerConfig.baseUrl := ''https://example.org''\<rparr>)
   \<and> config (CryptoAPI_configure bybit_testnet cryptoAPI) = Some bybit_testnet
   \<and> config (CryptoAPI_configure (bybit_testnet\<lparr>CryptoExchangeConfig.secretKey := ''other''\<rparr>) cryptoAPI)
       = Some (bybit_testnet\<lparr>CryptoExchangeConfig.secretKey := ''other''\<rparr>)
   \<and> TradingAPI_getWebSocketUrl (TradingAPI_configure alpaca_paper tradingAPI)
       = TradingAPI_getWebSocketUrl
           (TradingAPI_configure (alpaca_paper\<lparr>BrokerConfig.apiKey := ''PK2'', BrokerConfig.baseUrl := ''https://example.org''\<rparr>) tradingAPI)
   \<and> CryptoAPI_getWebSocketUrl (CryptoAPI_configure bybit_testnet cryptoAPI)
       = CryptoAPI_getWebSocketUrl (CryptoAPI_configure (bybit_testnet\<lparr>CryptoExchangeConfig.secretKey := ''other''\<rparr>) cryptoAPI)
   \<and> RithmicAPI_getWebSocketUrl (RithmicAPI_configure (rithmic_login ''login_agent_pnl'') rithmicAPI)
       = Inr ''wss://rituz00100.rithmic.com:443/login_agent_pnl''"
proof -
  let ?a' = "alpaca_paper\<lparr>BrokerConfig.apiKey := ''PK2'', BrokerConfig.baseUrl := ''https://example.org''\<rparr>"
  let ?b' = "bybit_testnet\<lparr>CryptoExchangeConfig.secretKey := ''other''\<rparr>"
  have t: "config (TradingAPI_configure alpaca_paper tradingAPI) = Some alpaca_paper"
    and t': "config (TradingAPI_configure ?a' tradingAPI) = Some ?a'"
    by (simp_all add: TradingAPI_configure_def)
  have c: "config (CryptoAPI_configure bybit_testnet cryptoAPI) = Some bybit_testnet"
    and c': "config (CryptoAPI_configure ?b' cryptoAPI) = Some ?b'"
    by (simp_all add: CryptoAPI_configure_def)
  have r: "config (RithmicAPI_configure (rithmic_login ''login_agent_pnl'') rithmicAPI)
           = Some (rithmic_login ''login_agent_pnl'')"
    by (simp add: RithmicAPI_configure_def)
  have n: "BrokerConfig.name alpaca_paper = BrokerConfig.name ?a'" "sandbox alpaca_paper = sandbox ?a'"
    "CryptoExchangeConfig.name bybit_testnet = CryptoExchangeConfig.name ?b'" "testnet bybit_testnet = testnet ?b'"
    by simp_all
  have g: "gateway (rithmic_login ''login_agent_pnl'') = ''login_agent_pnl''"
    by (simp add: rithmic_login_def)
  show ?thesis
    using websocket_url_depends_on [OF t t' n(1) n(2) c c' n(3) n(4) r r] t t' c c' g
    by simp
qed

section \<open>Fan-out\<close>

lemma T_register_all:
  "marketDataCallbacks (foldl (\<lambda>s cb. TradingAPI_onMarketData cb s) s cbs) = marketDataCallbacks s @ cbs
   \<and> config (foldl (\<lambda>s cb. TradingAPI_onMarketData cb s) s cbs) = config s
   \<and> delivered (foldl (\<lambda>s cb. TradingAPI_onMarketData cb s) s cbs) = delivered s"
  by (induction cbs arbitrary: s) (simp_all add: TradingAPI_onMarketData_def)

lemma C_register_all:
  "marketDataCallbacks (foldl (\<lambda>s cb. CryptoAPI_onMarketData cb s) s cbs) = marketDataCallbacks s @ cbs
   \<and> config (foldl (\<lambda>s cb. CryptoAPI_onMarketData cb s) s cbs) = config s
   \<and> delivered (foldl (\<lambda>s cb. CryptoAPI_onMarketData cb s) s cbs) = delivered s"
  by (induction cbs arbitrary: s) (simp_all add: CryptoAPI_onMarketData_def)

lemma R_register_all:
  "marketDataCallbacks (foldl (\<lambda>s cb. RithmicAPI_onMarketData cb s) s cbs) = marketDataCallbacks s @ cbs
   \<and> delivered (foldl (\<lambda>s cb. RithmicAPI_onMarketData cb s) s cbs) = delivered s"
  by (induction cbs arbitrary: s) (simp_all add: RithmicAPI_onMarketData_def)

lemma invoke_returns_iff:
  "(fst (invoke cs ev w) = Inr ()) = (\<forall>c \<in> set cs. throws c ev = None)"
  by (induction cs arbitrary: w) (auto simp: Let_def split: option.splits)

lemma delivered_invoke:
  "delivered (snd (invoke cs ev w)) = delivered w @ map (\<lambda>c. (ident c, ev)) (reached ev cs)"
  by (simp add: snd_invoke reached_def)

lemma reached_all:
  "\<forall>c \<in> set cs. throws c ev = None \<Longrightarrow> reached ev cs = cs"
  by (induction cs) (simp_all add: reached_def)

text \<open>
  C9, as the code has it.  Register a list of callbacks with \<open>onMarketData\<close>, one after
  the other, and let a frame arrive whose normalization yields a tick.  The callbacks are
  invoked with that tick in the order of registration (after the callbacks registered
  before, in their order), one invocation per registration, up to and including the first
  one that throws: the log of invocations grows by that list and by nothing else.  The
  callbacks registered after one that throws are not invoked.  \<open>handleMarketDataMessage\<close>
  returns exactly when no callback throws, and then every registered callback has been
  invoked once per registration.  This holds for \<open>handleMarketDataMessage\<close> and for the
  \<open>onmessage\<close> handler of TradingAPI and CryptoAPI, and for RithmicAPI's \<open>onmessage\<close> on
  a market data update (template 150), which always yields a tick.
\<close>

theorem callbacks_fan_out:
  assumes "config t = Some bc" and "TradingAPI_normalize bc d = Inr (Some tick)"
    and "config c = Some cc" and "CryptoAPI_normalize now cc d' = Inr (Some ctick)"
    and "\<not> nullish m" and "property m ''template_id'' = JNum 150"
  shows
    "(delivered (snd (TradingAPI_handleMarketDataMessage d (foldl (\<lambda>s cb. TradingAPI_onMarketData cb s) t cbs)))
        = delivered t @ map (\<lambda>cb. (ident cb, tick)) (reached tick (marketDataCallbacks t @ cbs))
      \<and> delivered (TradingAPI_onmessage (Text (Some d)) (foldl (\<lambda>s cb. TradingAPI_onMarketData cb s) t cbs))
        = delivered t @ map (\<lambda>cb. (ident cb, tick)) (reached tick (marketDataCallbacks t @ cbs))
      \<and> (fst (TradingAPI_handleMarketDataMessage d (foldl (\<lambda>s cb. TradingAPI_onMarketData cb s) t cbs)) = Inr ())
        = (\<forall>cb \<in> set (marketDataCallbacks t @ cbs). throws cb tick = None)
      \<and> ((\<forall>cb \<in> set (marketDataCallbacks t @ cbs). throws cb tick = None) \<longrightarrow>
          delivered (TradingAPI_onmessage (Text (Some d)) (foldl (\<lambda>s cb. TradingAPI_onMarketData cb s) t cbs))
            = delivered t @ map (\<lambda>cb. (ident cb, tick)) (marketDataCallbacks t @ cbs)))
     \<and> (delivered (snd (CryptoAPI_handleMarketDataMessage now d' (foldl (\<lambda>s cb. CryptoAPI_onMarketData cb s) c ccbs)))
        = delivered c @ map (\<lambda>cb. (ident cb, ctick)) (reached ctick (marketDataCallbacks c @ ccbs))
      \<and> delivered (CryptoAPI_onmessage now (Text (Some d')) (foldl (\<lambda>s cb. CryptoAPI_onMarketData cb s) c ccbs))
        = delivered c @ map (\<lambda>cb. (ident cb, ctick)) (reached ctick (marketDataCallbacks c @ ccbs))
      \<and> (fst (CryptoAPI_handleMarketDataMessage now d' (foldl (\<lambda>s cb. CryptoAPI_onMarketData cb s) c ccbs)) = Inr ())
        = (\<forall>cb \<in> set (marketDataCallbacks c @ ccbs). throws cb ctick = None)
      \<and> ((\<forall>cb \<in> set (marketDataCallbacks c @ ccbs). throws cb ctick = None) \<longrightarrow>
          delivered (CryptoAPI_onmessage now (Text (Some d')) (foldl (\<lambda>s cb. CryptoAPI_onMarketData cb s) c ccbs))
            = delivered c @ map (\<lambda>cb. (ident cb, ctick)) (marketDataCallbacks c @ ccbs)))
     \<and> (delivered (RithmicAPI_onmessage now (Text (Some m)) (foldl (\<lambda>s cb. RithmicAPI_onMarketData cb s) r rcbs))
        = delivered r @ map (\<lambda>cb. (ident cb, MarketData (marketDataOf now m)))
            (reached (MarketData (marketDataOf now m)) (marketDataCallbacks r @ rcbs))
      \<and> ((\<forall>cb \<in> set (marketDataCallbacks r @ rcbs). throws cb (MarketData (marketDataOf now m)) = None) \<longrightarrow>
          delivered (RithmicAPI_onmessage now (Text (Some m)) (foldl (\<lambda>s cb. RithmicAPI_onMarketData cb s) r rcbs))
            = delivered r @ map (\<lambda>cb. (ident cb, MarketData (marketDataOf now m))) (marketDataCallbacks r @ rcbs)))"
proof -
  let ?t = "foldl (\<lambda>s cb. TradingAPI_onMarketData cb s) t cbs"
  let ?c = "foldl (\<lambda>s cb. CryptoAPI_onMarketData cb s) c ccbs"
  let ?r = "foldl (\<lambda>s cb. RithmicAPI_onMarketData cb s) r rcbs"
  let ?ev = "MarketData (marketDataOf now m)"
  have T: "TradingAPI_handleMarketDataMessage d ?t = invoke (marketDataCallbacks t @ cbs) tick ?t"
    using assms(1,2) T_register_all [of t cbs]
    by (simp add: TradingAPI_handleMarketDataMessage_def)
  have T': "TradingAPI_onmessage (Text (Some d)) ?t = snd (invoke (marketDataCallbacks t @ cbs) tick ?t)"
    using T by (simp add: TradingAPI_onmessage_def JSON_parse_def)
  have C: "CryptoAPI_handleMarketDataMessage now d' ?c = invoke (marketDataCallbacks c @ ccbs) ctick ?c"
    using assms(3,4) C_register_all [of c ccbs]
    by (simp add: CryptoAPI_handleMarketDataMessage_def)
  have C': "CryptoAPI_onmessage now (Text (Some d')) ?c = snd (invoke (marketDataCallbacks c @ ccbs) ctick ?c)"
    using C by (simp add: CryptoAPI_onmessage_def JSON_parse_def)
  have R: "RithmicAPI_onmessage now (Text (Some m)) ?r = snd (invoke (marketDataCallbacks r @ rcbs) ?ev ?r)"
    using assms(5,6) R_register_all [of r rcbs]
    by (simp add: RithmicAPI_onmessage_def parseMessage_def JSON_parse_def handleMessage_def
        handleMarketDataUpdate_def Let_def)
  have dt: "delivered ?t = delivered t" and dc: "delivered ?c = delivered c" and dr: "delivered ?r = delivered r"
    using T_register_all [of t cbs] C_register_all [of c ccbs] R_register_all [of r rcbs] by simp_all
  have 1: "delivered (snd (TradingAPI_handleMarketDataMessage d ?t))
        = delivered t @ map (\<lambda>cb. (ident cb, tick)) (reached tick (marketDataCallbacks t @ cbs))"
    unfolding T delivered_invoke dt ..
  have 2: "delivered (TradingAPI_onmessage (Text (Some d)) ?t)
        = delivered t @ map (\<lambda>cb. (ident cb, tick)) (reached tick (marketDataCallbacks t @ cbs))"
    unfolding T' delivered_invoke dt ..
  have 3: "(fst (TradingAPI_handleMarketDataMessage d ?t) = Inr ())
        = (\<forall>cb \<in> set (marketDataCallbacks t @ cbs). throws cb tick = None)"
    unfolding T by (rule invoke_returns_iff)
  have 4: "delivered (snd (CryptoAPI_handleMarketDataMessage now d' ?c))
        = delivered c @ map (\<lambda>cb. (ident cb, ctick)) (reached ctick (marketDataCallbacks c @ ccbs))"
    unfolding C delivered_invoke dc ..
  have 5: "delivered (CryptoAPI_onmessage now (Text (Some d')) ?c)
        = delivered c @ map (\<lambda>cb. (ident cb, ctick)) (reached ctick (marketDataCallbacks c @ ccbs))"
    unfolding C' delivered_invoke dc ..
  have 6: "(fst (CryptoAPI_handleMarketDataMessage now d' ?c) = Inr ())
        = (\<forall>cb \<in> set (marketDataCallbacks c @ ccbs). throws cb ctick = None)"
    unfolding C by (rule invoke_returns_iff)
  have 7: "delivered (RithmicAPI_onmessage now (Text (Some m)) ?r)
        = delivered r @ map (\<lambda>cb. (ident cb, ?ev)) (reached ?ev (marketDataCallbacks r @ rcbs))"
    unfolding R delivered_invoke dr ..
  show ?thesis
    unfolding 1 2 3 4 5 6 7 by (simp add: reached_all)
qed

text \<open>
  C9 as stated fails when a callback throws.  With a first callback that throws and a
  second that returns, a trade frame of Alpaca reaches the first callback only: the
  second is skipped, \<open>handleMarketDataMessage\<close> throws what the first threw, and
  \<open>onmessage\<close> catches it.
\<close>

theorem callback_throws_counterexample:
  "marketDataCallbacks
     (TradingAPI_onMarketData (listener 2)
        (TradingAPI_onMarketData (faulty 1) (TradingAPI_configure alpaca_paper tradingAPI)))
     = [faulty 1, listener 2]
   \<and> map fst (delivered (TradingAPI_onmessage
          (Text (Some (JObj [(''T'', JStr ''t''), (''S'', JStr ''SPY''), (''p'', JNum 450), (''s'', JNum 100)])))
          (TradingAPI_onMarketData (listener 2)
             (TradingAPI_onMarketData (faulty 1) (TradingAPI_configure alpaca_paper tradingAPI)))))
       = [1]
   \<and> fst (TradingAPI_handleMarketDataMessage
          (JObj [(''T'', JStr ''t''), (''S'', JStr ''SPY''), (''p'', JNum 450), (''s'', JNum 100)])
          (TradingAPI_onMarketData (listener 2)
             (TradingAPI_onMarketData (faulty 1) (TradingAPI_configure alpaca_paper tradingAPI))))
       = Inl (Error ''listener failed'')"
  by (simp add: TradingAPI_onmessage_def TradingAPI_handleMarketDataMessage_def TradingAPI_onMarketData_def
      TradingAPI_configure_def tradingAPI_def TradingAPI_normalize_def alpaca_paper_def parseAlpacaData_def
      JSON_parse_def listener_def faulty_def Let_def)

theorem callbacks_fan_out_witness:
  "config (TradingAPI_configure alpaca_paper tradingAPI) = Some alpaca_paper
   \<and> (\<exists>tick. TradingAPI_normalize alpaca_paper
          (JObj [(''T'', JStr ''t''), (''S'', JStr ''SPY''), (''p'', JNum 450), (''s'', JNum 100)]) = Inr (Some tick))
   \<and> config (CryptoAPI_configure bybit_testnet cryptoAPI) = Some bybit_testnet
   \<and> (\<exists>ctick. CryptoAPI_normalize 1700000000000 bybit_testnet
          (JObj [(''topic'', JStr ''tickers.BTCUSDT''), (''data'', JObj [(''symbol'', JStr ''BTCUSDT'')])])
          = Inr (Some ctick))
   \<and> map fst (delivered (TradingAPI_onmessage
          (Text (Some (JObj [(''T'', JStr ''t''), (''S'', JStr ''SPY''), (''p'', JNum 450), (''s'', JNum 100)])))
          (foldl (\<lambda>s cb. TradingAPI_onMarketData cb s) (TradingAPI_configure alpaca_paper tradingAPI)
             [listener 3, listener 1, listener 3])))
       = [3, 1, 3]
   \<and> fst (TradingAPI_handleMarketDataMessage
          (JObj [(''T'', JStr ''t''), (''S'', JStr ''SPY''), (''p'', JNum 450), (''s'', JNum 100)])
          (foldl (\<lambda>s cb. TradingAPI_onMarketData cb s) (TradingAPI_configure alpaca_paper tradingAPI)
             [listener 3, listener 1, listener 3]))
       = Inr ()
   \<and> map fst (delivered (CryptoAPI_onmessage 1700000000000
          (Text (Some (JObj [(''topic'', JStr ''tickers.BTCUSDT''), (''data'', JObj [(''symbol'', JStr ''BTCUSDT'')])])))
          (foldl (\<lambda>s cb. CryptoAPI_onMarketData cb s) (CryptoAPI_configure bybit_testnet cryptoAPI)
             [listener 3, listener 1, listener 3])))
       = [3, 1, 3]
   \<and> map fst (delivered (RithmicAPI_onmessage 1700000000000
          (Text (Some (JObj [(''template_id'', JNum 150), (''symbol'', JStr ''ESM4'')])))
          (foldl (\<lambda>s cb. RithmicAPI_onMarketData cb s) rithmicAPI [listener 3, listener 1, listener 3])))
       = [3, 1, 3]"
proof -
  let ?t = "TradingAPI_configure alpaca_paper tradingAPI"
  let ?c = "CryptoAPI_configure bybit_testnet cryptoAPI"
  let ?d = "JObj [(''T'', JStr ''t''), (''S'', JStr ''SPY''), (''p'', JNum 450), (''s'', JNum 100)]"
  let ?d' = "JObj [(''topic'', JStr ''tickers.BTCUSDT''), (''data'', JObj [(''symbol'', JStr ''BTCUSDT'')])]"
  let ?m = "JObj [(''template_id'', JNum 150), (''symbol'', JStr ''ESM4'')]"
  have t: "config ?t = Some alpaca_paper"
    by (simp add: TradingAPI_configure_def)
  have c: "config ?c = Some bybit_testnet"
    by (simp add: CryptoAPI_configure_def)
  have "\<exists>tick. TradingAPI_normalize alpaca_paper ?d = Inr (Some tick)"
    by (simp add: TradingAPI_normalize_def alpaca_paper_def parseAlpacaData_def)
  then obtain tick where n: "TradingAPI_normalize alpaca_paper ?d = Inr (Some tick)" ..
  have "\<exists>ctick. CryptoAPI_normalize 1700000000000 bybit_testnet ?d' = Inr (Some ctick)"
    by (simp add: CryptoAPI_normalize_def bybit_testnet_def parseBybitData_def startsWith_def bindE_def Let_def)
  then obtain ctick where n': "CryptoAPI_normalize 1700000000000 bybit_testnet ?d' = Inr (Some ctick)" ..
  have m: "\<not> nullish ?m" "property ?m ''template_id'' = JNum 150"
    by simp_all
  have e: "delivered ?t = []" "marketDataCallbacks ?t = []" "delivered ?c = []" "marketDataCallbacks ?c = []"
    "delivered rithmicAPI = []" "marketDataCallbacks rithmicAPI = []"
    by (simp_all add: TradingAPI_configure_def tradingAPI_def CryptoAPI_configure_def cryptoAPI_def rithmicAPI_def)
  show ?thesis
    using callbacks_fan_out [OF t n c n' m, where cbs = "[listener 3, listener 1, listener 3]"
        and ccbs = "[listener 3, listener 1, listener 3]" and rcbs = "[listener 3, listener 1, listener 3]"
        and r = rithmicAPI]
      t c n n' e
    by (simp add: comp_def listener_def reached_def)
qed

section \<open>Rithmic orders\<close>

text \<open>
  C10.  While RithmicAPI is connected, \<open>placeOrder\<close> returns the object whose one
  property \<open>orderId\<close> is the clock reading in decimal: the same for every order and every
  state of the adapter, so nothing the venue sent enters it.  The order message is sent
  when the adapter holds a socket that is open, and then it is the last message sent on
  that socket; otherwise nothing at all changes, and the order id is returned all the
  same.
\<close>

theorem rithmic_placeOrder_local_id:
  assumes "connected r" and "connected r'"
  shows
    "fst (RithmicAPI_placeOrder numberToString now order r) = Inr (JObj [(''orderId'', JStr (toString now))])
     \<and> fst (RithmicAPI_placeOrder numberToString' now order' r') = fst (RithmicAPI_placeOrder numberToString now order r)
     \<and> snd (RithmicAPI_placeOrder numberToString now order r)
        = (case websocket r of
             None \<Rightarrow> r
           | Some h \<Rightarrow>
               if ws_readyState h r = OPEN
               then r\<lparr>sockets := (sockets r)[h := (sockets r ! h)\<lparr>sent := sent (sockets r ! h) @ [orderMessage numberToString order]\<rparr>]\<rparr>
               else r)"
  using assms
  by (simp add: RithmicAPI_placeOrder_def RithmicAPI_sendMessage_def ws_send_def ws_readyState_def
      split: option.splits)

theorem rithmic_placeOrder_local_id_witness:
  "connected
     (RithmicAPI_event 1700000000000
        (SocketMessage 0 (Text (Some (JObj [(''template_id'', JNum 11), (''rp_code'', JArr [JStr ''0''])]))))
        (RithmicAPI_event 1700000000000 (SocketOpen 0)
           (snd (RithmicAPI_connect (RithmicAPI_configure (rithmic_login ''login_agent_op'') rithmicAPI)))))
   \<and> fst (RithmicAPI_placeOrder (\<lambda>q. ''2'') 1700000000123
          \<lparr>RithmicOrderRequest.symbol = ''ESM4'', exchange = ''CME'', RithmicOrderRequest.side = BUY,
           RithmicOrderRequest.quantity = 2, RithmicOrderRequest.orderType = MARKET,
           RithmicOrderRequest.price = None, RithmicOrderRequest.stopPrice = None,
           RithmicOrderRequest.timeInForce = DAY, account = None\<rparr>
          (RithmicAPI_event 1700000000000
             (SocketMessage 0 (Text (Some (JObj [(''template_id'', JNum 11), (''rp_code'', JArr [JStr ''0''])]))))
             (RithmicAPI_event 1700000000000 (SocketOpen 0)
                (snd (RithmicAPI_connect (RithmicAPI_configure (rithmic_login ''login_agent_op'') rithmicAPI))))))
       = Inr (JObj [(''orderId'', JStr ''1700000000123'')])
   \<and> map (\<lambda>k. length (sent k)) (sockets (snd (RithmicAPI_placeOrder (\<lambda>q. ''2'') 1700000000123
          \<lparr>RithmicOrderRequest.symbol = ''ESM4'', exchange = ''CME'', RithmicOrderRequest.side = BUY,
           RithmicOrderRequest.quantity = 2, RithmicOrderRequest.orderType = MARKET,
           RithmicOrderRequest.price = None, RithmicOrderRequest.stopPrice = None,
           RithmicOrderRequest.timeInForce = DAY, account = None\<rparr>
          (RithmicAPI_event 1700000000000
             (SocketMessage 0 (Text (Some (JObj [(''template_id'', JNum 11), (''rp_code'', JArr [JStr ''0''])]))))
             (RithmicAPI_event 1700000000000 (SocketOpen 0)
                (snd (RithmicAPI_connect (RithmicAPI_configure (rithmic_login ''login_agent_op'') rithmicAPI))))))))
       = [3]"
proof -
  let ?r = "RithmicAPI_event 1700000000000
        (SocketMessage 0 (Text (Some (JObj [(''template_id'', JNum 11), (''rp_code'', JArr [JStr ''0''])]))))
        (RithmicAPI_event 1700000000000 (SocketOpen 0)
           (snd (RithmicAPI_connect (RithmicAPI_configure (rithmic_login ''login_agent_op'') rithmicAPI))))"
  have r: "?r = \<lparr>sockets = [\<lparr>url = ''wss://rituz00100.rithmic.com:443/login_agent_op'', readyState = OPEN,
                 captured = [],
                 sent = [JObj [(''template_id'', JNum 10),
                               (''user_msg'', JArr [JStr ''trader'', JStr ''pw'', JStr ''Rithmic Test'',
                                                    JStr ''NEXUS'', JStr ''1.0''])],
                         JObj [(''template_id'', JNum 200), (''user_msg'', JArr [])]]\<rparr>],
               timers = [], fetched = [], delivered = [],
               config = Some (rithmic_login ''login_agent_op''), websocket = Some 0,
               marketDataCallbacks = [], orderUpdateCallbacks = [], reconnectAttempts = 0,
               accountUpdateCallbacks = [], connected = True\<rparr>"
    by (simp add: RithmicAPI_event_def RithmicAPI_connect_def RithmicAPI_configure_def rithmicAPI_def
        RithmicAPI_getWebSocketUrl_def rithmic_login_def RithmicAPI_onopen_def RithmicAPI_authenticate_def
        RithmicAPI_sendMessage_def RithmicAPI_onmessage_def parseMessage_def JSON_parse_def
        handleMessage_def handleLoginResponse_def requestAccountInfo_def
        hasFragment_def ws_new_def ws_set_def ws_send_def ws_readyState_def Let_def)
  have c: "connected ?r"
    unfolding r by simp
  have ts: "toString 1700000000123 = ''1700000000123''"
    by (simp add: toString.simps digit_def)
  show ?thesis
    using rithmic_placeOrder_local_id [OF c c, where now = 1700000000123] c
    unfolding r by (simp add: ts ws_readyState_def)
qed

end
